theory Spec2Isabelle
  imports Main
begin

section \<open>Data model\<close>

text \<open>
  Modelled from the spec: the Prisma schema of \<^verbatim>\<open>packages/database\<close> is not among the
  sources. The tables and their columns are those of the spec's data model, which are also
  the columns the handlers read and write. The store behind \<^verbatim>\<open>db\<close> is a record of
  tables, each table a list of rows. Identifiers are strings, as in the source; timestamps
  (\<^verbatim>\<open>new Date()\<close>) are natural numbers.

  Of a Page, the columns \<^verbatim>\<open>content\<close> and \<^verbatim>\<open>featuredImage\<close> are left out: they
  are copied from the request to the row and no branch of a handler reads them.
  Of a Site, \<^verbatim>\<open>seoSettings\<close> is left out for the same reason. The roles are the four the
  spec and the README name; the handlers compare them as strings.
\<close>

datatype role = SUPER_ADMIN | ADMIN | EDITOR | VIEWER

datatype page_status = DRAFT | PUBLISHED | ARCHIVED

record user =
  user_id :: string
  user_email :: string
  user_password :: string
  user_role :: role
  user_tenantId :: string
  user_isActive :: bool

record site =
  site_id :: string
  site_tenantId :: string
  site_name :: string
  site_domain :: "string option"
  site_description :: "string option"
  site_theme :: string
  site_isPublished :: bool

record page =
  page_id :: string
  page_siteId :: string
  page_title :: string
  page_slug :: string
  page_excerpt :: "string option"
  page_status :: page_status
  page_isHomePage :: bool
  page_authorId :: string
  page_publishedAt :: "nat option"
  page_seoTitle :: "string option"
  page_seoDescription :: "string option"

record media =
  media_id :: string
  media_siteId :: string
  media_filename :: string
  media_originalName :: string
  media_mimeType :: string
  media_size :: nat
  media_url :: string
  media_alt :: "string option"

record db =
  users :: "user list"
  sites :: "site list"
  pages :: "page list"
  medias :: "media list"

text \<open>\<^verbatim>\<open>req.user\<close>, as \<^verbatim>\<open>AuthMiddleware.authenticate\<close> populates it.\<close>

record req_user =
  ru_id :: string
  ru_email :: string
  ru_role :: role
  ru_tenantId :: string

section \<open>Responses\<close>

text \<open>
  A handler answers once: \<open>Json status payload\<close> is a success body carrying the
  entity, \<open>Failure status error message\<close> is \<^verbatim>\<open>res.status(s).json({error, message})\<close>.
  The Zod failure body \<^verbatim>\<open>{error: "Validation error", details}\<close> is a \<open>Failure\<close> with
  status 400 whose details are not modelled.
\<close>

datatype 'a response = Json nat 'a | Failure nat string string

definition validation_error :: "'a response" where
  "validation_error = Failure 400 ''Validation error'' []"

definition page_not_found :: "'a response" where
  "page_not_found = Failure 404 ''Page not found''
     ''The requested page does not exist or you don't have access to it''"

definition site_not_found_for_create :: "'a response" where
  "site_not_found_for_create = Failure 404 ''Site not found''
     ''The specified site does not exist or you don't have access to it''"

definition slug_exists :: "'a response" where
  "slug_exists = Failure 400 ''Slug already exists''
     ''A page with this slug already exists in this site''"

definition internal_error :: "string \<Rightarrow> 'a response" where
  "internal_error what = Failure 500 what ''Internal server error''"

definition not_owner :: "string \<Rightarrow> 'a response" where
  "not_owner msg = Failure 403 ''Insufficient permissions'' msg"

section \<open>Role gate\<close>

fun role_name :: "role \<Rightarrow> string" where
  "role_name SUPER_ADMIN = ''SUPER_ADMIN''"
| "role_name ADMIN = ''ADMIN''"
| "role_name EDITOR = ''EDITOR''"
| "role_name VIEWER = ''VIEWER''"

text \<open>\<^verbatim>\<open>roles.join(" or ")\<close>.\<close>

fun join_or :: "string list \<Rightarrow> string" where
  "join_or [] = []"
| "join_or [x] = x"
| "join_or (x # y # ys) = x @ '' or '' @ join_or (y # ys)"

text \<open>
  \<^verbatim>\<open>AuthMiddleware.requireRole(...roles)\<close> on a request whose \<^verbatim>\<open>req.user\<close> is set:
  \<open>None\<close> is \<^verbatim>\<open>next()\<close>, \<open>Some r\<close> is the 403 answer.
\<close>

definition insufficient_role :: "role list \<Rightarrow> req_user \<Rightarrow> 'a response" where
  "insufficient_role roles u =
     Failure 403 ''Insufficient permissions''
       (''Required role: '' @ join_or (map role_name roles) @ '', your role: ''
          @ role_name (ru_role u))"

definition requireRole :: "role list \<Rightarrow> req_user \<Rightarrow> 'a response option" where
  "requireRole roles u =
     (if ru_role u \<notin> set roles then Some (insufficient_role roles u) else None)"

definition content_roles :: "role list" where
  "content_roles = [ADMIN, EDITOR, SUPER_ADMIN]"

definition admin_roles :: "role list" where
  "admin_roles = [ADMIN, SUPER_ADMIN]"

section \<open>Store operations on pages\<close>

text \<open>
  The relation filter \<^verbatim>\<open>site: { tenantId }\<close> joins a Page (or Media) row with the
  Site row its \<^verbatim>\<open>siteId\<close> references.
\<close>

definition site_tenant :: "db \<Rightarrow> string \<Rightarrow> string option" where
  "site_tenant d sid = map_option site_tenantId (find (\<lambda>s. site_id s = sid) (sites d))"

text \<open>\<^verbatim>\<open>db.page.findFirst({ where: { id, site: { tenantId } } })\<close>.\<close>

definition page_findFirst :: "db \<Rightarrow> string \<Rightarrow> string \<Rightarrow> page option" where
  "page_findFirst d i t =
     find (\<lambda>p. page_id p = i \<and> site_tenant d (page_siteId p) = Some t) (pages d)"

text \<open>\<^verbatim>\<open>db.site.findFirst({ where: { id, tenantId } })\<close>.\<close>

definition site_findFirst :: "db \<Rightarrow> string \<Rightarrow> string \<Rightarrow> site option" where
  "site_findFirst d i t = find (\<lambda>s. site_id s = i \<and> site_tenantId s = t) (sites d)"

text \<open>\<^verbatim>\<open>db.page.findUnique({ where: { siteId_slug: { siteId, slug } } })\<close>.\<close>

definition page_findUnique_siteId_slug :: "db \<Rightarrow> string \<Rightarrow> string \<Rightarrow> page option" where
  "page_findUnique_siteId_slug d sid sl =
     find (\<lambda>p. page_siteId p = sid \<and> page_slug p = sl) (pages d)"

text \<open>
  \<^verbatim>\<open>db.page.updateMany({ where: { siteId, isHomePage: true }, data: { isHomePage: false } })\<close>,
  the form the create handler uses.
\<close>

definition page_clear_home :: "string \<Rightarrow> db \<Rightarrow> db" where
  "page_clear_home sid d =
     d\<lparr>pages := map (\<lambda>p. if page_siteId p = sid \<and> page_isHomePage p
                           then p\<lparr>page_isHomePage := False\<rparr> else p) (pages d)\<rparr>"

text \<open>The same with \<^verbatim>\<open>id: { not: id }\<close> added to the filter, as the update handler has it.\<close>

definition page_clear_home_except :: "string \<Rightarrow> string \<Rightarrow> db \<Rightarrow> db" where
  "page_clear_home_except sid i d =
     d\<lparr>pages := map (\<lambda>p. if page_siteId p = sid \<and> page_isHomePage p \<and> page_id p \<noteq> i
                           then p\<lparr>page_isHomePage := False\<rparr> else p) (pages d)\<rparr>"

text \<open>
  Modelled from the spec: the keys of the page table, declared in the missing schema.
  \<^verbatim>\<open>db.page.create\<close> rejects a row whose primary key, or whose \<^verbatim>\<open>(siteId, slug)\<close>
  pair (the compound unique key that \<^verbatim>\<open>findUnique\<close> on \<^verbatim>\<open>siteId_slug\<close> presupposes,
  and that the spec lists among the unique constraints), is already taken; the client then
  throws, which is \<open>None\<close> here. The primary key of the new row is generated by the
  store; it is the field \<open>page_id\<close> of the row passed in.
\<close>

definition page_create :: "page \<Rightarrow> db \<Rightarrow> db option" where
  "page_create p d =
     (if page_id p \<in> set (map page_id (pages d)) then None
      else if page_findUnique_siteId_slug d (page_siteId p) (page_slug p) \<noteq> None then None
      else Some (d\<lparr>pages := pages d @ [p]\<rparr>))"

text \<open>\<^verbatim>\<open>db.page.delete({ where: { id } })\<close>.\<close>

definition page_delete :: "string \<Rightarrow> db \<Rightarrow> db" where
  "page_delete i d = d\<lparr>pages := filter (\<lambda>p. page_id p \<noteq> i) (pages d)\<rparr>"

section \<open>Included rows and orderings\<close>

text \<open>
  \<^verbatim>\<open>include: { site: ... }\<close> on a Page or a Media row: the Site row that its
  \<^verbatim>\<open>siteId\<close> references. The \<^verbatim>\<open>select\<close> of an include only drops columns of the
  row; the answers below carry the whole row. The \<^verbatim>\<open>author\<close> that the page reads also
  include is three columns of a User row (names and email) and is not modelled.
\<close>

definition page_site :: "db \<Rightarrow> page \<Rightarrow> site option" where
  "page_site d p = find (\<lambda>s. site_id s = page_siteId p) (sites d)"

definition media_site :: "db \<Rightarrow> media \<Rightarrow> site option" where
  "media_site d m = find (\<lambda>s. site_id s = media_siteId m) (sites d)"

text \<open>\<^verbatim>\<open>include: { pages: ... }\<close> and \<^verbatim>\<open>include: { media: ... }\<close> on a Site row.\<close>

definition site_pages :: "db \<Rightarrow> site \<Rightarrow> page list" where
  "site_pages d s = filter (\<lambda>p. page_siteId p = site_id s) (pages d)"

definition site_media :: "db \<Rightarrow> site \<Rightarrow> media list" where
  "site_media d s = filter (\<lambda>m. media_siteId m = site_id s) (medias d)"

text \<open>
  The list reads order by \<^verbatim>\<open>createdAt\<close> or \<^verbatim>\<open>updatedAt\<close>, columns that the store
  maintains and no handler writes, and match text with the database's case-insensitive
  \<^verbatim>\<open>contains\<close>. Both belong to the store; they are parameters of the list reads:
  \<open>contains_insensitive eng x q\<close> says that the column value \<open>x\<close> contains \<open>q\<close>.
\<close>

record engine =
  page_updatedAt :: "page \<Rightarrow> nat"
  media_createdAt :: "media \<Rightarrow> nat"
  site_createdAt :: "site \<Rightarrow> nat"
  contains_insensitive :: "string \<Rightarrow> string \<Rightarrow> bool"

text \<open>\<^verbatim>\<open>orderBy: { ...: "desc" }\<close>.\<close>

definition desc :: "('a \<Rightarrow> nat) \<Rightarrow> 'a list \<Rightarrow> 'a list" where
  "desc key xs = rev (sort_key key xs)"

text \<open>A query parameter is used when it is present and not the empty string.\<close>

definition given :: "string option \<Rightarrow> (string \<Rightarrow> bool) \<Rightarrow> bool" where
  "given q P = (case q of None \<Rightarrow> True | Some x \<Rightarrow> x = [] \<or> P x)"

definition startsWith :: "string \<Rightarrow> string \<Rightarrow> bool" where
  "startsWith s pre = (take (length pre) s = pre)"

text \<open>The answers of the reads: a row with the rows included in it.\<close>

record page_view =
  pv_page :: page
  pv_site :: "site option"

record media_view =
  mv_media :: media
  mv_site :: "site option"

record media_list =
  ml_media :: "media_view list"
  ml_images :: "media_view list"
  ml_documents :: "media_view list"
  ml_videos :: "media_view list"
  ml_other :: "media_view list"
  ml_total :: nat

record site_view =
  sv_site :: site
  sv_pages :: "page list"
  sv_media :: "media list"

record site_row =
  sr_site :: site
  sr_pages :: "page list"
  sr_pageCount :: nat
  sr_mediaCount :: nat

section \<open>Page request bodies and their schemas\<close>

text \<open>
  A request body as the JSON parser delivers it, restricted to bodies whose present keys
  have the JSON type the schema expects; \<open>None\<close> is an absent key. The status is kept
  as the raw string, since \<^verbatim>\<open>z.enum\<close> may reject it.
\<close>

record page_body =
  b_siteId :: "string option"
  b_title :: "string option"
  b_slug :: "string option"
  b_excerpt :: "string option"
  b_status :: "string option"
  b_isHomePage :: "bool option"
  b_seoTitle :: "string option"
  b_seoDescription :: "string option"

text \<open>The value \<^verbatim>\<open>CreatePageSchema.parse\<close> returns.\<close>

record create_page_data =
  c_siteId :: string
  c_title :: string
  c_slug :: string
  c_excerpt :: "string option"
  c_status :: "page_status option"
  c_isHomePage :: "bool option"
  c_seoTitle :: "string option"
  c_seoDescription :: "string option"

text \<open>The value \<^verbatim>\<open>UpdatePageSchema.parse\<close> returns: every key optional, no \<^verbatim>\<open>siteId\<close>.\<close>

record page_fields =
  f_title :: "string option"
  f_slug :: "string option"
  f_excerpt :: "string option"
  f_status :: "page_status option"
  f_isHomePage :: "bool option"
  f_seoTitle :: "string option"
  f_seoDescription :: "string option"

text \<open>\<^verbatim>\<open>z.enum(["DRAFT", "PUBLISHED", "ARCHIVED"])\<close>.\<close>

definition parse_status :: "string \<Rightarrow> page_status option" where
  "parse_status s =
     (if s = ''DRAFT'' then Some DRAFT
      else if s = ''PUBLISHED'' then Some PUBLISHED
      else if s = ''ARCHIVED'' then Some ARCHIVED
      else None)"

text \<open>\<^verbatim>\<open>z.string().min(1).regex(/^[a-z0-9-]+$/)\<close>.\<close>

definition slug_ok :: "string \<Rightarrow> bool" where
  "slug_ok s = (s \<noteq> [] \<and> list_all (\<lambda>c. c \<in> set ''abcdefghijklmnopqrstuvwxyz0123456789-'') s)"

definition opt_ok :: "('a \<Rightarrow> bool) \<Rightarrow> 'a option \<Rightarrow> bool" where
  "opt_ok P x = (case x of None \<Rightarrow> True | Some v \<Rightarrow> P v)"

definition CreatePageSchema_parse :: "page_body \<Rightarrow> create_page_data option" where
  "CreatePageSchema_parse b =
     (case (b_siteId b, b_title b, b_slug b) of
        (Some sid, Some t, Some sl) \<Rightarrow>
          if sid \<noteq> [] \<and> t \<noteq> [] \<and> slug_ok sl \<and> opt_ok (\<lambda>s. parse_status s \<noteq> None) (b_status b)
          then Some \<lparr>c_siteId = sid, c_title = t, c_slug = sl, c_excerpt = b_excerpt b,
                     c_status = Option.bind (b_status b) parse_status,
                     c_isHomePage = b_isHomePage b, c_seoTitle = b_seoTitle b,
                     c_seoDescription = b_seoDescription b\<rparr>
          else None
      | _ \<Rightarrow> None)"

text \<open>\<^verbatim>\<open>CreatePageSchema.partial().omit({ siteId: true })\<close>: a \<^verbatim>\<open>siteId\<close> key is stripped.\<close>

definition UpdatePageSchema_parse :: "page_body \<Rightarrow> page_fields option" where
  "UpdatePageSchema_parse b =
     (if opt_ok (\<lambda>t. t \<noteq> []) (b_title b) \<and> opt_ok slug_ok (b_slug b)
         \<and> opt_ok (\<lambda>s. parse_status s \<noteq> None) (b_status b)
      then Some \<lparr>f_title = b_title b, f_slug = b_slug b, f_excerpt = b_excerpt b,
                 f_status = Option.bind (b_status b) parse_status,
                 f_isHomePage = b_isHomePage b, f_seoTitle = b_seoTitle b,
                 f_seoDescription = b_seoDescription b\<rparr>
      else None)"

text \<open>\<^verbatim>\<open>PublishPageSchema\<close>: the body is \<^verbatim>\<open>{ status }\<close>, the key required.\<close>

definition PublishPageSchema_parse :: "string option \<Rightarrow> page_status option" where
  "PublishPageSchema_parse b = Option.bind b parse_status"

section \<open>Updating a page row\<close>

definition or_else :: "'a option \<Rightarrow> 'a \<Rightarrow> 'a" where
  "or_else x dflt = (case x of None \<Rightarrow> dflt | Some v \<Rightarrow> v)"

definition keep_or :: "'a option \<Rightarrow> 'a option \<Rightarrow> 'a option" where
  "keep_or x old = (case x of None \<Rightarrow> old | Some v \<Rightarrow> Some v)"

text \<open>
  The effect of \<^verbatim>\<open>data: updateData\<close> on one row: a key that is present overwrites the
  column, an absent key leaves it. \<open>pub\<close> is \<^verbatim>\<open>updateData.publishedAt\<close>.
\<close>

definition apply_fields :: "page_fields \<Rightarrow> nat option \<Rightarrow> page \<Rightarrow> page" where
  "apply_fields f pub p =
     p\<lparr>page_title := or_else (f_title f) (page_title p),
       page_slug := or_else (f_slug f) (page_slug p),
       page_excerpt := keep_or (f_excerpt f) (page_excerpt p),
       page_status := or_else (f_status f) (page_status p),
       page_isHomePage := or_else (f_isHomePage f) (page_isHomePage p),
       page_publishedAt := keep_or pub (page_publishedAt p),
       page_seoTitle := keep_or (f_seoTitle f) (page_seoTitle p),
       page_seoDescription := keep_or (f_seoDescription f) (page_seoDescription p)\<rparr>"

text \<open>
  Modelled from the spec: the same unique key, on update.
  \<^verbatim>\<open>db.page.update({ where: { id }, data })\<close> is \<open>None\<close> when the client throws, that is
  when no row has the id, or when the row would move to a \<^verbatim>\<open>(siteId, slug)\<close> pair
  that another row holds.
\<close>

definition page_update :: "string \<Rightarrow> page_fields \<Rightarrow> nat option \<Rightarrow> db \<Rightarrow> (page \<times> db) option" where
  "page_update i f pub d =
     (case find (\<lambda>p. page_id p = i) (pages d) of
        None \<Rightarrow> None
      | Some p \<Rightarrow>
          if page_slug (apply_fields f pub p) \<noteq> page_slug p
             \<and> page_findUnique_siteId_slug d (page_siteId p) (page_slug (apply_fields f pub p)) \<noteq> None
          then None
          else Some (apply_fields f pub p,
                 d\<lparr>pages := map (\<lambda>q. if page_id q = i then apply_fields f pub q else q) (pages d)\<rparr>))"

section \<open>Page routes\<close>

text \<open>
  \<^verbatim>\<open>GET /pages\<close>, with the query parameters \<^verbatim>\<open>siteId\<close>, \<^verbatim>\<open>status\<close> and
  \<^verbatim>\<open>search\<close>. The status is passed to the store as it comes; one that is not a value of
  the status column makes \<^verbatim>\<open>findMany\<close> throw, and the handler answers 500.
\<close>

definition pages_where :: "engine \<Rightarrow> db \<Rightarrow> string \<Rightarrow> string option \<Rightarrow> string option \<Rightarrow> string option
    \<Rightarrow> page \<Rightarrow> bool" where
  "pages_where eng d t siteId status search p =
     (site_tenant d (page_siteId p) = Some t
      \<and> given siteId (\<lambda>x. page_siteId p = x)
      \<and> given status (\<lambda>x. parse_status x = Some (page_status p))
      \<and> given search (\<lambda>x. contains_insensitive eng (page_title p) x
                          \<or> (case page_excerpt p of None \<Rightarrow> False
                              | Some e \<Rightarrow> contains_insensitive eng e x)))"

definition GET_pages :: "engine \<Rightarrow> req_user \<Rightarrow> string option \<Rightarrow> string option \<Rightarrow> string option \<Rightarrow> db
    \<Rightarrow> page_view list response" where
  "GET_pages eng u siteId status search d =
     (if \<not> given status (\<lambda>x. parse_status x \<noteq> None)
      then internal_error ''Failed to fetch pages''
      else Json 200
             (map (\<lambda>p. \<lparr>pv_page = p, pv_site = page_site d p\<rparr>)
                (desc (page_updatedAt eng)
                   (filter (pages_where eng d (ru_tenantId u) siteId status search) (pages d)))))"

text \<open>\<^verbatim>\<open>GET /pages/:id\<close>.\<close>

definition GET_pages_id :: "req_user \<Rightarrow> string \<Rightarrow> db \<Rightarrow> page_view response" where
  "GET_pages_id u i d =
     (case page_findFirst d i (ru_tenantId u) of
        None \<Rightarrow> page_not_found
      | Some p \<Rightarrow> Json 200 \<lparr>pv_page = p, pv_site = page_site d p\<rparr>)"

text \<open>
  \<^verbatim>\<open>POST /pages\<close>, in the order of its awaited store calls. First the reads: schema,
  site lookup scoped by tenant, slug lookup.
\<close>

definition create_checks :: "req_user \<Rightarrow> page_body \<Rightarrow> db \<Rightarrow> page response + create_page_data" where
  "create_checks u b d =
     (case CreatePageSchema_parse b of
        None \<Rightarrow> Inl validation_error
      | Some dat \<Rightarrow>
         (case site_findFirst d (c_siteId dat) (ru_tenantId u) of
            None \<Rightarrow> Inl site_not_found_for_create
          | Some s \<Rightarrow>
             (case page_findUnique_siteId_slug d (c_siteId dat) (c_slug dat) of
                Some existing \<Rightarrow> Inl slug_exists
              | None \<Rightarrow> Inr dat)))"

text \<open>Then the first write: \<^verbatim>\<open>if (data.isHomePage) await db.page.updateMany(...)\<close>.\<close>

definition create_clear :: "create_page_data \<Rightarrow> db \<Rightarrow> db" where
  "create_clear dat d = (if c_isHomePage dat = Some True then page_clear_home (c_siteId dat) d else d)"

text \<open>
  Then \<^verbatim>\<open>db.page.create\<close>. \<open>newId\<close> is the primary key the store gives the row,
  \<open>now\<close> the value of \<^verbatim>\<open>new Date()\<close>. A throw is caught by the handler's
  \<^verbatim>\<open>catch\<close> and answered with 500; what was written before stays written.
\<close>

definition new_page :: "req_user \<Rightarrow> create_page_data \<Rightarrow> string \<Rightarrow> nat \<Rightarrow> page" where
  "new_page u dat newId now =
     \<lparr>page_id = newId, page_siteId = c_siteId dat, page_title = c_title dat,
      page_slug = c_slug dat, page_excerpt = c_excerpt dat,
      page_status = or_else (c_status dat) DRAFT,
      page_isHomePage = or_else (c_isHomePage dat) False,
      page_authorId = ru_id u,
      page_publishedAt = (if or_else (c_status dat) DRAFT = PUBLISHED then Some now else None),
      page_seoTitle = c_seoTitle dat, page_seoDescription = c_seoDescription dat\<rparr>"

definition create_insert :: "req_user \<Rightarrow> create_page_data \<Rightarrow> string \<Rightarrow> nat \<Rightarrow> db \<Rightarrow> page response \<times> db" where
  "create_insert u dat newId now d =
     (case page_create (new_page u dat newId now) d of
        None \<Rightarrow> (internal_error ''Failed to create page'', d)
      | Some d' \<Rightarrow> (Json 201 (new_page u dat newId now), d'))"

definition POST_pages_handler :: "req_user \<Rightarrow> page_body \<Rightarrow> string \<Rightarrow> nat \<Rightarrow> db \<Rightarrow> page response \<times> db" where
  "POST_pages_handler u b newId now d =
     (case create_checks u b d of
        Inl r \<Rightarrow> (r, d)
      | Inr dat \<Rightarrow> create_insert u dat newId now (create_clear dat d))"

definition POST_pages :: "req_user \<Rightarrow> page_body \<Rightarrow> string \<Rightarrow> nat \<Rightarrow> db \<Rightarrow> page response \<times> db" where
  "POST_pages u b newId now d =
     (case requireRole content_roles u of
        Some r \<Rightarrow> (r, d)
      | None \<Rightarrow> POST_pages_handler u b newId now d)"

text \<open>
  \<^verbatim>\<open>PUT /pages/:id\<close>. Its first write,
  \<^verbatim>\<open>if (data.isHomePage) await db.page.updateMany(...)\<close>:
\<close>

definition update_clear :: "page_fields \<Rightarrow> page \<Rightarrow> string \<Rightarrow> db \<Rightarrow> db" where
  "update_clear dat existingPage i d =
     (if f_isHomePage dat = Some True
      then page_clear_home_except (page_siteId existingPage) i d else d)"

text \<open>
  \<^verbatim>\<open>if (status === "PUBLISHED" && existingPage.status !== "PUBLISHED") updateData.publishedAt = new Date()\<close>,
  which the update and the publish handler share; \<open>None\<close> leaves the key out of
  \<^verbatim>\<open>updateData\<close>.
\<close>

definition stamp :: "page_status option \<Rightarrow> page \<Rightarrow> nat \<Rightarrow> nat option" where
  "stamp st existingPage now =
     (if st = Some PUBLISHED \<and> page_status existingPage \<noteq> PUBLISHED then Some now else None)"

definition PUT_pages_id_handler :: "req_user \<Rightarrow> string \<Rightarrow> page_body \<Rightarrow> nat \<Rightarrow> db \<Rightarrow> page response \<times> db" where
  "PUT_pages_id_handler u i b now d =
     (case UpdatePageSchema_parse b of
        None \<Rightarrow> (validation_error, d)
      | Some dat \<Rightarrow>
         (case page_findFirst d i (ru_tenantId u) of
            None \<Rightarrow> (page_not_found, d)
          | Some existingPage \<Rightarrow>
             if ru_role u = EDITOR \<and> page_authorId existingPage \<noteq> ru_id u
             then (not_owner ''You can only edit your own pages'', d)
             else if (case f_slug dat of
                        None \<Rightarrow> False
                      | Some sl \<Rightarrow> sl \<noteq> [] \<and> sl \<noteq> page_slug existingPage
                          \<and> page_findUnique_siteId_slug d (page_siteId existingPage) sl \<noteq> None)
             then (slug_exists, d)
             else
               (case page_update i dat (stamp (f_status dat) existingPage now)
                        (update_clear dat existingPage i d) of
                  None \<Rightarrow> (internal_error ''Failed to update page'', update_clear dat existingPage i d)
                | Some (p, d2) \<Rightarrow> (Json 200 p, d2))))"

definition PUT_pages_id :: "req_user \<Rightarrow> string \<Rightarrow> page_body \<Rightarrow> nat \<Rightarrow> db \<Rightarrow> page response \<times> db" where
  "PUT_pages_id u i b now d =
     (case requireRole content_roles u of
        Some r \<Rightarrow> (r, d)
      | None \<Rightarrow> PUT_pages_id_handler u i b now d)"

text \<open>\<^verbatim>\<open>PATCH /pages/:id/publish\<close>.\<close>

definition status_only :: "page_status \<Rightarrow> page_fields" where
  "status_only st = \<lparr>f_title = None, f_slug = None, f_excerpt = None, f_status = Some st,
                     f_isHomePage = None, f_seoTitle = None, f_seoDescription = None\<rparr>"

definition PATCH_pages_id_publish_handler ::
    "req_user \<Rightarrow> string \<Rightarrow> string option \<Rightarrow> nat \<Rightarrow> db \<Rightarrow> page response \<times> db" where
  "PATCH_pages_id_publish_handler u i b now d =
     (case PublishPageSchema_parse b of
        None \<Rightarrow> (validation_error, d)
      | Some st \<Rightarrow>
         (case page_findFirst d i (ru_tenantId u) of
            None \<Rightarrow> (page_not_found, d)
          | Some existingPage \<Rightarrow>
             if ru_role u = EDITOR \<and> page_authorId existingPage \<noteq> ru_id u
             then (not_owner ''You can only modify your own pages'', d)
             else
               (case page_update i (status_only st) (stamp (Some st) existingPage now) d of
                  None \<Rightarrow> (internal_error ''Failed to update page status'', d)
                | Some (p, d') \<Rightarrow> (Json 200 p, d'))))"

definition PATCH_pages_id_publish ::
    "req_user \<Rightarrow> string \<Rightarrow> string option \<Rightarrow> nat \<Rightarrow> db \<Rightarrow> page response \<times> db" where
  "PATCH_pages_id_publish u i b now d =
     (case requireRole content_roles u of
        Some r \<Rightarrow> (r, d)
      | None \<Rightarrow> PATCH_pages_id_publish_handler u i b now d)"

text \<open>
  \<^verbatim>\<open>DELETE /pages/:id\<close>. The success body carries only a message; the deleted row
  stands in for it.
\<close>

definition DELETE_pages_id_handler :: "req_user \<Rightarrow> string \<Rightarrow> db \<Rightarrow> page response \<times> db" where
  "DELETE_pages_id_handler u i d =
     (case page_findFirst d i (ru_tenantId u) of
        None \<Rightarrow> (page_not_found, d)
      | Some p \<Rightarrow>
         if ru_role u = EDITOR \<and> page_authorId p \<noteq> ru_id u
         then (not_owner ''You can only delete your own pages'', d)
         else (Json 200 p, page_delete i d))"

definition DELETE_pages_id :: "req_user \<Rightarrow> string \<Rightarrow> db \<Rightarrow> page response \<times> db" where
  "DELETE_pages_id u i d =
     (case requireRole content_roles u of
        Some r \<Rightarrow> (r, d)
      | None \<Rightarrow> DELETE_pages_id_handler u i d)"

section \<open>Media routes\<close>

text \<open>\<^verbatim>\<open>db.media.findFirst({ where: { id, site: { tenantId } } })\<close>.\<close>

definition media_findFirst :: "db \<Rightarrow> string \<Rightarrow> string \<Rightarrow> media option" where
  "media_findFirst d i t =
     find (\<lambda>m. media_id m = i \<and> site_tenant d (media_siteId m) = Some t) (medias d)"

text \<open>\<^verbatim>\<open>db.media.findFirst({ where: { siteId, filename } })\<close>.\<close>

definition media_findFirst_filename :: "db \<Rightarrow> string \<Rightarrow> string \<Rightarrow> media option" where
  "media_findFirst_filename d sid fn =
     find (\<lambda>m. media_siteId m = sid \<and> media_filename m = fn) (medias d)"

definition media_not_found :: "'a response" where
  "media_not_found = Failure 404 ''Media not found''
     ''The requested media file does not exist or you don't have access to it''"

definition filename_exists :: "'a response" where
  "filename_exists = Failure 400 ''Filename already exists''
     ''A media file with this filename already exists in this site''"

text \<open>
  \<^verbatim>\<open>UpdateMediaSchema\<close> has two optional strings and no further constraint, so every
  body of this type parses.
\<close>

record media_fields =
  mf_filename :: "string option"
  mf_alt :: "string option"

definition apply_media_fields :: "media_fields \<Rightarrow> media \<Rightarrow> media" where
  "apply_media_fields f m =
     m\<lparr>media_filename := or_else (mf_filename f) (media_filename m),
       media_alt := keep_or (mf_alt f) (media_alt m)\<rparr>"

text \<open>
  Modelled from the spec: the unique key on a media row's \<^verbatim>\<open>(siteId, filename)\<close>, which the
  spec lists among the unique constraints and the missing schema declares.
  \<^verbatim>\<open>db.media.update({ where: { id }, data })\<close> is \<open>None\<close> when the client throws, that is
  when no row has the id, or when the row would move to a filename that a row of the same
  site holds.
\<close>

definition media_update :: "string \<Rightarrow> media_fields \<Rightarrow> db \<Rightarrow> (media \<times> db) option" where
  "media_update i f d =
     (case find (\<lambda>m. media_id m = i) (medias d) of
        None \<Rightarrow> None
      | Some m \<Rightarrow>
          if media_filename (apply_media_fields f m) \<noteq> media_filename m
             \<and> media_findFirst_filename d (media_siteId m)
                  (media_filename (apply_media_fields f m)) \<noteq> None
          then None
          else Some (apply_media_fields f m,
                 d\<lparr>medias := map (\<lambda>q. if media_id q = i then apply_media_fields f q else q)
                                (medias d)\<rparr>))"

definition media_delete :: "string \<Rightarrow> db \<Rightarrow> db" where
  "media_delete i d = d\<lparr>medias := filter (\<lambda>m. media_id m \<noteq> i) (medias d)\<rparr>"

text \<open>
  \<^verbatim>\<open>GET /media\<close>, with the query parameters \<^verbatim>\<open>siteId\<close>, \<^verbatim>\<open>type\<close> and
  \<^verbatim>\<open>search\<close>. A type other than the three of the \<^verbatim>\<open>switch\<close> adds no filter. The
  answer lists the rows found, the same rows grouped by mime type, and their number.
\<close>

definition document_types :: "string list" where
  "document_types =
     [''application/pdf'', ''application/msword'',
      ''application/vnd.openxmlformats-officedocument.wordprocessingml.document'',
      ''text/plain'']"

definition is_image :: "media \<Rightarrow> bool" where
  "is_image m = startsWith (media_mimeType m) ''image/''"

definition is_document :: "media \<Rightarrow> bool" where
  "is_document m = (media_mimeType m \<in> set document_types)"

definition is_video :: "media \<Rightarrow> bool" where
  "is_video m = startsWith (media_mimeType m) ''video/''"

definition media_where :: "engine \<Rightarrow> db \<Rightarrow> string \<Rightarrow> string option \<Rightarrow> string option \<Rightarrow> string option
    \<Rightarrow> media \<Rightarrow> bool" where
  "media_where eng d t siteId type search m =
     (site_tenant d (media_siteId m) = Some t
      \<and> given siteId (\<lambda>x. media_siteId m = x)
      \<and> given type (\<lambda>x. if x = ''images'' then is_image m
                         else if x = ''documents'' then is_document m
                         else if x = ''videos'' then is_video m
                         else True)
      \<and> given search (\<lambda>x. contains_insensitive eng (media_originalName m) x
                          \<or> contains_insensitive eng (media_filename m) x
                          \<or> (case media_alt m of None \<Rightarrow> False
                              | Some a \<Rightarrow> contains_insensitive eng a x)))"

definition GET_media :: "engine \<Rightarrow> req_user \<Rightarrow> string option \<Rightarrow> string option \<Rightarrow> string option \<Rightarrow> db
    \<Rightarrow> media_list response" where
  "GET_media eng u siteId type search d =
     (let found = map (\<lambda>m. \<lparr>mv_media = m, mv_site = media_site d m\<rparr>)
                    (desc (media_createdAt eng)
                       (filter (media_where eng d (ru_tenantId u) siteId type search)
                          (medias d)))
      in Json 200
           \<lparr>ml_media = found,
            ml_images = filter (\<lambda>v. is_image (mv_media v)) found,
            ml_documents = filter (\<lambda>v. is_document (mv_media v)) found,
            ml_videos = filter (\<lambda>v. is_video (mv_media v)) found,
            ml_other = filter (\<lambda>v. \<not> is_image (mv_media v) \<and> \<not> is_video (mv_media v)
                                   \<and> \<not> is_document (mv_media v)) found,
            ml_total = length found\<rparr>)"

text \<open>\<^verbatim>\<open>GET /media/:id\<close>.\<close>

definition GET_media_id :: "req_user \<Rightarrow> string \<Rightarrow> db \<Rightarrow> media_view response" where
  "GET_media_id u i d =
     (case media_findFirst d i (ru_tenantId u) of
        None \<Rightarrow> media_not_found
      | Some m \<Rightarrow> Json 200 \<lparr>mv_media = m, mv_site = media_site d m\<rparr>)"

text \<open>\<^verbatim>\<open>PUT /media/:id\<close>.\<close>

definition PUT_media_id_handler :: "req_user \<Rightarrow> string \<Rightarrow> media_fields \<Rightarrow> db \<Rightarrow> media response \<times> db" where
  "PUT_media_id_handler u i dat d =
     (case media_findFirst d i (ru_tenantId u) of
        None \<Rightarrow> (media_not_found, d)
      | Some existingMedia \<Rightarrow>
          if (case mf_filename dat of
                None \<Rightarrow> False
              | Some fn \<Rightarrow> fn \<noteq> [] \<and> fn \<noteq> media_filename existingMedia
                  \<and> media_findFirst_filename d (media_siteId existingMedia) fn \<noteq> None)
          then (filename_exists, d)
          else (case media_update i dat d of
                  None \<Rightarrow> (internal_error ''Failed to update media'', d)
                | Some (m, d') \<Rightarrow> (Json 200 m, d')))"

definition PUT_media_id :: "req_user \<Rightarrow> string \<Rightarrow> media_fields \<Rightarrow> db \<Rightarrow> media response \<times> db" where
  "PUT_media_id u i dat d =
     (case requireRole content_roles u of
        Some r \<Rightarrow> (r, d)
      | None \<Rightarrow> PUT_media_id_handler u i dat d)"

text \<open>\<^verbatim>\<open>DELETE /media/:id\<close>; the deleted row stands in for the message-only body.\<close>

definition DELETE_media_id_handler :: "req_user \<Rightarrow> string \<Rightarrow> db \<Rightarrow> media response \<times> db" where
  "DELETE_media_id_handler u i d =
     (case media_findFirst d i (ru_tenantId u) of
        None \<Rightarrow> (media_not_found, d)
      | Some m \<Rightarrow> (Json 200 m, media_delete i d))"

definition DELETE_media_id :: "req_user \<Rightarrow> string \<Rightarrow> db \<Rightarrow> media response \<times> db" where
  "DELETE_media_id u i d =
     (case requireRole content_roles u of
        Some r \<Rightarrow> (r, d)
      | None \<Rightarrow> DELETE_media_id_handler u i d)"

section \<open>Site routes\<close>

definition site_not_found :: "'a response" where
  "site_not_found = Failure 404 ''Site not found''
     ''The requested site does not exist or you don't have access to it''"

definition domain_taken :: "'a response" where
  "domain_taken = Failure 400 ''Domain already taken''
     ''A site with this domain already exists''"

text \<open>
  The value \<^verbatim>\<open>UpdateSiteSchema.parse\<close> returns (\<^verbatim>\<open>CreateSiteSchema.partial()\<close>); the
  only constraint left is \<^verbatim>\<open>min(1)\<close> on a name that is present.
\<close>

record site_fields =
  sf_name :: "string option"
  sf_domain :: "string option"
  sf_description :: "string option"
  sf_theme :: "string option"

definition UpdateSiteSchema_parse :: "site_fields \<Rightarrow> site_fields option" where
  "UpdateSiteSchema_parse b = (if opt_ok (\<lambda>n. n \<noteq> []) (sf_name b) then Some b else None)"

definition apply_site_fields :: "site_fields \<Rightarrow> site \<Rightarrow> site" where
  "apply_site_fields f s =
     s\<lparr>site_name := or_else (sf_name f) (site_name s),
       site_domain := keep_or (sf_domain f) (site_domain s),
       site_description := keep_or (sf_description f) (site_description s),
       site_theme := or_else (sf_theme f) (site_theme s)\<rparr>"

text \<open>\<^verbatim>\<open>db.site.findUnique({ where: { domain } })\<close>.\<close>

definition site_findUnique_domain :: "db \<Rightarrow> string \<Rightarrow> site option" where
  "site_findUnique_domain d dm = find (\<lambda>s. site_domain s = Some dm) (sites d)"

text \<open>
  Modelled from the spec: the unique key on a site's domain, declared in the missing
  schema. \<^verbatim>\<open>db.site.update({ where: { id }, data })\<close>, where \<open>g\<close> is the change to the
  row, is \<open>None\<close> when the client throws: no row with the id, or the row would move to a
  domain that another row holds (\<^verbatim>\<open>domain\<close> is a unique key, as \<^verbatim>\<open>findUnique\<close> on it
  presupposes).
\<close>

definition site_update :: "string \<Rightarrow> (site \<Rightarrow> site) \<Rightarrow> db \<Rightarrow> (site \<times> db) option" where
  "site_update i g d =
     (case find (\<lambda>s. site_id s = i) (sites d) of
        None \<Rightarrow> None
      | Some s \<Rightarrow>
          if site_domain (g s) \<noteq> site_domain s
             \<and> (case site_domain (g s) of None \<Rightarrow> False
                 | Some dm \<Rightarrow> site_findUnique_domain d dm \<noteq> None)
          then None
          else Some (g s, d\<lparr>sites := map (\<lambda>q. if site_id q = i then g q else q) (sites d)\<rparr>))"

text \<open>
  Modelled from the spec: the cascade from a site to its pages and media, declared in the
  missing schema ("deletion cascades to its Pages and Media"; the handler's comment says
  the same). \<^verbatim>\<open>db.site.delete({ where: { id } })\<close> removes the site and those rows.
\<close>

definition site_delete :: "string \<Rightarrow> db \<Rightarrow> db" where
  "site_delete i d =
     d\<lparr>sites := filter (\<lambda>s. site_id s \<noteq> i) (sites d),
       pages := filter (\<lambda>p. page_siteId p \<noteq> i) (pages d),
       medias := filter (\<lambda>m. media_siteId m \<noteq> i) (medias d)\<rparr>"

text \<open>
  \<^verbatim>\<open>GET /sites\<close>: the sites of the caller's tenant, each with its pages and with the
  numbers of its pages and media.
\<close>

definition GET_sites :: "engine \<Rightarrow> req_user \<Rightarrow> db \<Rightarrow> site_row list response" where
  "GET_sites eng u d =
     Json 200
       (map (\<lambda>s. \<lparr>sr_site = s, sr_pages = site_pages d s,
                   sr_pageCount = length (site_pages d s),
                   sr_mediaCount = length (site_media d s)\<rparr>)
          (desc (site_createdAt eng)
             (filter (\<lambda>s. site_tenantId s = ru_tenantId u) (sites d))))"

text \<open>
  \<^verbatim>\<open>GET /sites/:id\<close>: the site with its pages, latest update first, and its ten latest
  media rows.
\<close>

definition GET_sites_id :: "engine \<Rightarrow> req_user \<Rightarrow> string \<Rightarrow> db \<Rightarrow> site_view response" where
  "GET_sites_id eng u i d =
     (case site_findFirst d i (ru_tenantId u) of
        None \<Rightarrow> site_not_found
      | Some s \<Rightarrow>
          Json 200
            \<lparr>sv_site = s,
             sv_pages = desc (page_updatedAt eng) (site_pages d s),
             sv_media = take 10 (desc (media_createdAt eng) (site_media d s))\<rparr>)"

text \<open>\<^verbatim>\<open>PUT /sites/:id\<close>.\<close>

definition PUT_sites_id_handler :: "req_user \<Rightarrow> string \<Rightarrow> site_fields \<Rightarrow> db \<Rightarrow> site response \<times> db" where
  "PUT_sites_id_handler u i b d =
     (case UpdateSiteSchema_parse b of
        None \<Rightarrow> (validation_error, d)
      | Some dat \<Rightarrow>
         (case site_findFirst d i (ru_tenantId u) of
            None \<Rightarrow> (site_not_found, d)
          | Some existingSite \<Rightarrow>
              if (case sf_domain dat of
                    None \<Rightarrow> False
                  | Some dm \<Rightarrow> dm \<noteq> [] \<and> Some dm \<noteq> site_domain existingSite
                      \<and> site_findUnique_domain d dm \<noteq> None)
              then (domain_taken, d)
              else (case site_update i (apply_site_fields dat) d of
                      None \<Rightarrow> (internal_error ''Failed to update site'', d)
                    | Some (s, d') \<Rightarrow> (Json 200 s, d'))))"

definition PUT_sites_id :: "req_user \<Rightarrow> string \<Rightarrow> site_fields \<Rightarrow> db \<Rightarrow> site response \<times> db" where
  "PUT_sites_id u i b d =
     (case requireRole admin_roles u of
        Some r \<Rightarrow> (r, d)
      | None \<Rightarrow> PUT_sites_id_handler u i b d)"

text \<open>
  \<^verbatim>\<open>PATCH /sites/:id/publish\<close>; the body is \<^verbatim>\<open>{ isPublished }\<close>, the key required.
\<close>

definition PATCH_sites_id_publish_handler ::
    "req_user \<Rightarrow> string \<Rightarrow> bool option \<Rightarrow> db \<Rightarrow> site response \<times> db" where
  "PATCH_sites_id_publish_handler u i b d =
     (case b of
        None \<Rightarrow> (validation_error, d)
      | Some isPublished \<Rightarrow>
         (case site_findFirst d i (ru_tenantId u) of
            None \<Rightarrow> (site_not_found, d)
          | Some s \<Rightarrow>
             (case site_update i (\<lambda>q. q\<lparr>site_isPublished := isPublished\<rparr>) d of
                None \<Rightarrow> (internal_error ''Failed to publish site'', d)
              | Some (s', d') \<Rightarrow> (Json 200 s', d'))))"

definition PATCH_sites_id_publish ::
    "req_user \<Rightarrow> string \<Rightarrow> bool option \<Rightarrow> db \<Rightarrow> site response \<times> db" where
  "PATCH_sites_id_publish u i b d =
     (case requireRole admin_roles u of
        Some r \<Rightarrow> (r, d)
      | None \<Rightarrow> PATCH_sites_id_publish_handler u i b d)"

text \<open>\<^verbatim>\<open>DELETE /sites/:id\<close>; the deleted row stands in for the message-only body.\<close>

definition DELETE_sites_id_handler :: "req_user \<Rightarrow> string \<Rightarrow> db \<Rightarrow> site response \<times> db" where
  "DELETE_sites_id_handler u i d =
     (case site_findFirst d i (ru_tenantId u) of
        None \<Rightarrow> (site_not_found, d)
      | Some s \<Rightarrow> (Json 200 s, site_delete i d))"

definition DELETE_sites_id :: "req_user \<Rightarrow> string \<Rightarrow> db \<Rightarrow> site response \<times> db" where
  "DELETE_sites_id u i d =
     (case requireRole admin_roles u of
        Some r \<Rightarrow> (r, d)
      | None \<Rightarrow> DELETE_sites_id_handler u i d)"

section \<open>Authentication\<close>

text \<open>
  The claims of a decoded token: a JSON object, as an association list. Signing and
  verifying belong to the \<^verbatim>\<open>jsonwebtoken\<close> library and are parameters:
  \<open>jwt_verify token\<close> is \<open>None\<close> where \<^verbatim>\<open>jwt.verify\<close> throws a
  \<^verbatim>\<open>JsonWebTokenError\<close> (malformed, wrong signature, expired) and the decoded claims
  otherwise. \<open>is_email\<close> is Zod's \<^verbatim>\<open>.email()\<close> check.
\<close>

datatype jvalue = JString string | JNumber nat

type_synonym claims = "(string \<times> jvalue) list"

definition registered_claims :: "nat \<Rightarrow> nat \<Rightarrow> claims" where
  "registered_claims iat ttl =
     [(''iat'', JNumber iat), (''exp'', JNumber (iat + ttl)),
      (''aud'', JString ''girschworks-cms-users''), (''iss'', JString ''girschworks-cms'')]"

text \<open>What \<^verbatim>\<open>generateToken\<close> signs, issued at \<open>iat\<close> for 24 hours.\<close>

definition generateToken :: "req_user \<Rightarrow> nat \<Rightarrow> claims" where
  "generateToken u iat =
     [(''userId'', JString (ru_id u)), (''email'', JString (ru_email u)),
      (''role'', JString (role_name (ru_role u))), (''tenantId'', JString (ru_tenantId u))]
     @ registered_claims iat (24 * 3600)"

text \<open>What \<^verbatim>\<open>generateRefreshToken\<close> signs, issued at \<open>iat\<close> for 7 days.\<close>

definition generateRefreshToken :: "string \<Rightarrow> nat \<Rightarrow> claims" where
  "generateRefreshToken uid iat =
     [(''userId'', JString uid), (''type'', JString ''refresh'')]
     @ registered_claims iat (7 * 24 * 3600)"

record jwt_payload =
  jp_userId :: string
  jp_email :: string
  jp_role :: string
  jp_tenantId :: string

definition claim_string :: "claims \<Rightarrow> string \<Rightarrow> string option" where
  "claim_string c k = (case map_of c k of Some (JString v) \<Rightarrow> Some v | _ \<Rightarrow> None)"

text \<open>\<^verbatim>\<open>JWTPayloadSchema.parse\<close>; \<open>None\<close> where it throws a \<^verbatim>\<open>ZodError\<close>.\<close>

definition JWTPayloadSchema_parse :: "(string \<Rightarrow> bool) \<Rightarrow> claims \<Rightarrow> jwt_payload option" where
  "JWTPayloadSchema_parse is_email c =
     (case (claim_string c ''userId'', claim_string c ''email'',
            claim_string c ''role'', claim_string c ''tenantId'') of
        (Some uid, Some em, Some r, Some t) \<Rightarrow>
          if is_email em
          then Some \<lparr>jp_userId = uid, jp_email = em, jp_role = r, jp_tenantId = t\<rparr>
          else None
      | _ \<Rightarrow> None)"

text \<open>
  \<^verbatim>\<open>AuthMiddleware.authenticate\<close>: \<open>Inr\<close> is \<^verbatim>\<open>next()\<close> with \<^verbatim>\<open>req.user\<close> set, \<open>Inl\<close>
  the answer sent instead. The \<^verbatim>\<open>catch\<close> tells a \<^verbatim>\<open>JsonWebTokenError\<close> (401) from
  every other exception (500); the \<^verbatim>\<open>ZodError\<close> of the schema is one of the others.
\<close>

definition authenticate ::
    "(string \<Rightarrow> claims option) \<Rightarrow> (string \<Rightarrow> bool) \<Rightarrow> string option \<Rightarrow> db \<Rightarrow> unit response + req_user" where
  "authenticate jwt_verify is_email authHeader d =
     (case authHeader of
        None \<Rightarrow> Inl (Failure 401 ''Authentication required'' ''Please provide a valid Bearer token'')
      | Some h \<Rightarrow>
          if h = [] \<or> take 7 h \<noteq> ''Bearer ''
          then Inl (Failure 401 ''Authentication required'' ''Please provide a valid Bearer token'')
          else
            (case jwt_verify (drop 7 h) of
               None \<Rightarrow> Inl (Failure 401 ''Invalid token'' ''JWT token is malformed or expired'')
             | Some decoded \<Rightarrow>
                (case JWTPayloadSchema_parse is_email decoded of
                   None \<Rightarrow> Inl (Failure 500 ''Authentication failed''
                                  ''Internal server error during authentication'')
                 | Some payload \<Rightarrow>
                    (case find (\<lambda>usr. user_id usr = jp_userId payload \<and> user_isActive usr) (users d) of
                       None \<Rightarrow> Inl (Failure 401 ''Invalid token'' ''User not found or inactive'')
                     | Some usr \<Rightarrow>
                         Inr \<lparr>ru_id = user_id usr, ru_email = user_email usr,
                              ru_role = user_role usr, ru_tenantId = user_tenantId usr\<rparr>))))"

section \<open>Login\<close>

record login_body =
  lb_email :: "string option"
  lb_password :: "string option"

definition LoginSchema_parse :: "(string \<Rightarrow> bool) \<Rightarrow> login_body \<Rightarrow> (string \<times> string) option" where
  "LoginSchema_parse is_email b =
     (case (lb_email b, lb_password b) of
        (Some em, Some pw) \<Rightarrow> if is_email em \<and> pw \<noteq> [] then Some (em, pw) else None
      | _ \<Rightarrow> None)"

definition invalid_credentials :: "'a response" where
  "invalid_credentials = Failure 401 ''Invalid credentials'' ''Email or password is incorrect''"

text \<open>\<^verbatim>\<open>db.user.findUnique({ where: { email, isActive: true } })\<close>.\<close>

definition user_findUnique_email_active :: "db \<Rightarrow> string \<Rightarrow> user option" where
  "user_findUnique_email_active d em =
     find (\<lambda>usr. user_email usr = em \<and> user_isActive usr) (users d)"

text \<open>
  \<^verbatim>\<open>POST /auth/login\<close>. \<open>bcrypt_compare\<close> is \<^verbatim>\<open>bcrypt.compare\<close>; the success body
  carries the user and the claims of the two tokens.
\<close>

definition POST_auth_login ::
    "(string \<Rightarrow> bool) \<Rightarrow> (string \<Rightarrow> string \<Rightarrow> bool) \<Rightarrow> nat \<Rightarrow> login_body \<Rightarrow> db
       \<Rightarrow> (user \<times> claims \<times> claims) response" where
  "POST_auth_login is_email bcrypt_compare now b d =
     (case LoginSchema_parse is_email b of
        None \<Rightarrow> validation_error
      | Some (em, pw) \<Rightarrow>
         (case user_findUnique_email_active d em of
            None \<Rightarrow> invalid_credentials
          | Some usr \<Rightarrow>
              if \<not> bcrypt_compare pw (user_password usr) then invalid_credentials
              else Json 200 (usr,
                     generateToken \<lparr>ru_id = user_id usr, ru_email = user_email usr,
                        ru_role = user_role usr, ru_tenantId = user_tenantId usr\<rparr> now,
                     generateRefreshToken (user_id usr) now)))"

section \<open>Sequences and interleavings of page requests\<close>

text \<open>The number of pages of a site that are marked as its home page.\<close>

definition home_count :: "db \<Rightarrow> string \<Rightarrow> nat" where
  "home_count d sid = length (filter (\<lambda>p. page_siteId p = sid \<and> page_isHomePage p) (pages d))"

text \<open>The primary key of the page table.\<close>

definition pk_pages :: "db \<Rightarrow> bool" where
  "pk_pages d = distinct (map page_id (pages d))"

datatype page_request =
    Create req_user page_body string nat
  | Update req_user string page_body nat
  | Publish req_user string "string option" nat
  | Delete req_user string

fun step :: "db \<Rightarrow> page_request \<Rightarrow> db" where
  "step d (Create u b newId now) = snd (POST_pages u b newId now d)"
| "step d (Update u i b now) = snd (PUT_pages_id u i b now d)"
| "step d (Publish u i b now) = snd (PATCH_pages_id_publish u i b now d)"
| "step d (Delete u i) = snd (DELETE_pages_id u i d)"

text \<open>Requests served one after the other.\<close>

definition run :: "db \<Rightarrow> page_request list \<Rightarrow> db" where
  "run d rs = foldl step d rs"

text \<open>
  Two \<^verbatim>\<open>POST /pages\<close> handlers in flight at once. A handler gives way at each
  \<^verbatim>\<open>await\<close>, so its store calls may alternate with those of the other. This is the
  schedule in which both do their reads, then both clear, then both insert.
\<close>

definition two_creates_interleaved ::
    "req_user \<Rightarrow> page_body \<Rightarrow> string \<Rightarrow> req_user \<Rightarrow> page_body \<Rightarrow> string \<Rightarrow> nat \<Rightarrow> db
       \<Rightarrow> (page response \<times> page response) \<times> db" where
  "two_creates_interleaved u1 b1 id1 u2 b2 id2 now d =
     (case create_checks u1 b1 d of
        Inl r1 \<Rightarrow>
          (case POST_pages_handler u2 b2 id2 now d of (r2, d') \<Rightarrow> ((r1, r2), d'))
      | Inr a1 \<Rightarrow>
          (case create_checks u2 b2 d of
             Inl r2 \<Rightarrow>
               (case create_insert u1 a1 id1 now (create_clear a1 d) of (r1, d') \<Rightarrow> ((r1, r2), d'))
           | Inr a2 \<Rightarrow>
               (case create_insert u1 a1 id1 now (create_clear a2 (create_clear a1 d)) of
                  (r1, d3) \<Rightarrow>
                    (case create_insert u2 a2 id2 now d3 of (r2, d4) \<Rightarrow> ((r1, r2), d4)))))"

section \<open>Keys and conflicts\<close>

text \<open>The primary key of the site table.\<close>

definition pk_sites :: "db \<Rightarrow> bool" where
  "pk_sites d = distinct (map site_id (sites d))"

text \<open>The primary key of the media table.\<close>

definition pk_medias :: "db \<Rightarrow> bool" where
  "pk_medias d = distinct (map media_id (medias d))"

text \<open>
  The condition of the filename branch of \<^verbatim>\<open>PUT /media/:id\<close>:
  \<^verbatim>\<open>data.filename && data.filename !== existingMedia.filename\<close> and the lookup finds a
  row.
\<close>

definition filename_conflict :: "db \<Rightarrow> media \<Rightarrow> media_fields \<Rightarrow> bool" where
  "filename_conflict d existingMedia dat =
     (case mf_filename dat of
        None \<Rightarrow> False
      | Some fn \<Rightarrow> fn \<noteq> [] \<and> fn \<noteq> media_filename existingMedia
          \<and> media_findFirst_filename d (media_siteId existingMedia) fn \<noteq> None)"

text \<open>
  The condition of the slug branch of \<^verbatim>\<open>PUT /pages/:id\<close>:
  \<^verbatim>\<open>data.slug && data.slug !== existingPage.slug\<close> and the lookup finds a row.
\<close>

definition slug_conflict :: "db \<Rightarrow> page \<Rightarrow> page_fields \<Rightarrow> bool" where
  "slug_conflict d e dat =
     (case f_slug dat of
        None \<Rightarrow> False
      | Some sl \<Rightarrow> sl \<noteq> [] \<and> sl \<noteq> page_slug e
          \<and> page_findUnique_siteId_slug d (page_siteId e) sl \<noteq> None)"

text \<open>
  The condition under which the store refuses the update of a media row: the filename
  changes to one that a row of the same site holds.
\<close>

definition filename_rejected :: "db \<Rightarrow> media \<Rightarrow> media_fields \<Rightarrow> bool" where
  "filename_rejected d existingMedia dat =
     (case mf_filename dat of
        None \<Rightarrow> False
      | Some fn \<Rightarrow> fn \<noteq> media_filename existingMedia
          \<and> media_findFirst_filename d (media_siteId existingMedia) fn \<noteq> None)"

section \<open>A small store\<close>

text \<open>
  Two tenants with one site each, and the identities used in the examples below.
\<close>

definition site1 :: site where
  "site1 = \<lparr>site_id = ''s1'', site_tenantId = ''t1'', site_name = ''Blog'',
            site_domain = None, site_description = None, site_theme = ''default'',
            site_isPublished = False\<rparr>"

definition site2 :: site where
  "site2 = \<lparr>site_id = ''s2'', site_tenantId = ''t2'', site_name = ''Shop'',
            site_domain = None, site_description = None, site_theme = ''default'',
            site_isPublished = False\<rparr>"

definition page1 :: page where
  "page1 = \<lparr>page_id = ''p1'', page_siteId = ''s1'', page_title = ''Home'',
            page_slug = ''home'', page_excerpt = None, page_status = ARCHIVED,
            page_isHomePage = True, page_authorId = ''u1'', page_publishedAt = Some 10,
            page_seoTitle = None, page_seoDescription = None\<rparr>"

definition page2 :: page where
  "page2 = \<lparr>page_id = ''p2'', page_siteId = ''s2'', page_title = ''Home'',
            page_slug = ''home'', page_excerpt = None, page_status = DRAFT,
            page_isHomePage = True, page_authorId = ''u2'', page_publishedAt = None,
            page_seoTitle = None, page_seoDescription = None\<rparr>"

definition media1 :: media where
  "media1 = \<lparr>media_id = ''m1'', media_siteId = ''s1'', media_filename = ''logo.png'',
             media_originalName = ''logo.png'', media_mimeType = ''image/png'',
             media_size = 1, media_url = ''https://cdn.example/logo.png'', media_alt = None\<rparr>"

definition media2 :: media where
  "media2 = \<lparr>media_id = ''m2'', media_siteId = ''s2'', media_filename = ''logo.png'',
             media_originalName = ''logo.png'', media_mimeType = ''image/png'',
             media_size = 1, media_url = ''https://cdn.example/logo2.png'', media_alt = None\<rparr>"

definition db0 :: db where
  "db0 = \<lparr>users = [], sites = [site1, site2], pages = [page1, page2], medias = [media1, media2]\<rparr>"

definition admin1 :: req_user where
  "admin1 = \<lparr>ru_id = ''u1'', ru_email = ''a@acme.com'', ru_role = ADMIN, ru_tenantId = ''t1''\<rparr>"

definition editor1 :: req_user where
  "editor1 = \<lparr>ru_id = ''u3'', ru_email = ''e@acme.com'', ru_role = EDITOR, ru_tenantId = ''t1''\<rparr>"

definition viewer1 :: req_user where
  "viewer1 = \<lparr>ru_id = ''u4'', ru_email = ''v@acme.com'', ru_role = VIEWER, ru_tenantId = ''t1''\<rparr>"

definition empty_body :: page_body where
  "empty_body = \<lparr>b_siteId = None, b_title = None, b_slug = None, b_excerpt = None,
                 b_status = None, b_isHomePage = None, b_seoTitle = None,
                 b_seoDescription = None\<rparr>"

definition about_home_body :: page_body where
  "about_home_body = empty_body\<lparr>b_siteId := Some ''s1'', b_title := Some ''About'',
                        b_slug := Some ''about'', b_isHomePage := Some True\<rparr>"

definition page3 :: page where
  "page3 = \<lparr>page_id = ''p3'', page_siteId = ''s1'', page_title = ''About'',
            page_slug = ''about'', page_excerpt = None, page_status = DRAFT,
            page_isHomePage = True, page_authorId = ''u1'', page_publishedAt = None,
            page_seoTitle = None, page_seoDescription = None\<rparr>"

definition home_flag_body :: page_body where
  "home_flag_body = empty_body\<lparr>b_isHomePage := Some True\<rparr>"

definition user1 :: user where
  "user1 = \<lparr>user_id = ''u1'', user_email = ''a@acme.com'', user_password = ''hash:secret12'',
            user_role = ADMIN, user_tenantId = ''t1'', user_isActive = True\<rparr>"

definition db_users :: db where
  "db_users = db0\<lparr>users := [user1]\<rparr>"

text \<open>
  Stand-ins for the store's timestamps and text match, used only to evaluate the examples:
  a prefix test in place of containment.
\<close>

definition sample_engine :: engine where
  "sample_engine =
     \<lparr>page_updatedAt = (\<lambda>p. length (page_title p)), media_createdAt = media_size,
      site_createdAt = (\<lambda>s. length (site_name s)),
      contains_insensitive = (\<lambda>x q. startsWith x q)\<rparr>"

text \<open>Stand-ins for the library checks, used only to evaluate the examples.\<close>

definition has_at :: "string \<Rightarrow> bool" where
  "has_at s = (CHR ''@'' \<in> set s)"

definition toy_compare :: "string \<Rightarrow> string \<Rightarrow> bool" where
  "toy_compare pw h = (h = ''hash:'' @ pw)"

definition contact_home_body :: page_body where
  "contact_home_body = empty_body\<lparr>b_siteId := Some ''s1'', b_title := Some ''Contact'',
                          b_slug := Some ''contact'', b_isHomePage := Some True\<rparr>"

definition page4 :: page where
  "page4 = \<lparr>page_id = ''p4'', page_siteId = ''s1'', page_title = ''Contact'',
            page_slug = ''contact'', page_excerpt = None, page_status = DRAFT,
            page_isHomePage = True, page_authorId = ''u3'', page_publishedAt = None,
            page_seoTitle = None, page_seoDescription = None\<rparr>"

definition alt_only :: "string \<Rightarrow> media_fields" where
  "alt_only a = \<lparr>mf_filename = None, mf_alt = Some a\<rparr>"

definition admin2 :: req_user where
  "admin2 = \<lparr>ru_id = ''u2'', ru_email = ''b@shop.com'', ru_role = ADMIN, ru_tenantId = ''t2''\<rparr>"

text \<open>The small store after the page \<open>about\<close> has been added to the first site.\<close>

definition db1 :: db where
  "db1 = db0\<lparr>pages := [page1\<lparr>page_isHomePage := False\<rparr>, page2, page3]\<rparr>"

text \<open>
  A store in which the first site has a page by the administrator (\<open>p1\<close>) and a page by
  the editor (\<open>p4\<close>).
\<close>

definition db_authors :: db where
  "db_authors = db0\<lparr>pages := [page1\<lparr>page_isHomePage := False\<rparr>, page2, page4]\<rparr>"

definition retitle_body :: page_body where
  "retitle_body = empty_body\<lparr>b_title := Some ''Start''\<rparr>"

definition retitle_fields :: page_fields where
  "retitle_fields = \<lparr>f_title = Some ''Start'', f_slug = None, f_excerpt = None, f_status = None,
                      f_isHomePage = None, f_seoTitle = None, f_seoDescription = None\<rparr>"

definition home_flag_fields :: page_fields where
  "home_flag_fields = \<lparr>f_title = None, f_slug = None, f_excerpt = None, f_status = None,
                        f_isHomePage = Some True, f_seoTitle = None, f_seoDescription = None\<rparr>"

section \<open>Case analysis of the page handlers\<close>

lemma PUT_pages_id_handler_cases:
  obtains
    (invalid) "UpdatePageSchema_parse b = None"
      "PUT_pages_id_handler u i b now d = (validation_error, d)"
  | (missing) dat where "UpdatePageSchema_parse b = Some dat"
      "page_findFirst d i (ru_tenantId u) = None"
      "PUT_pages_id_handler u i b now d = (page_not_found, d)"
  | (denied) dat e where "UpdatePageSchema_parse b = Some dat"
      "page_findFirst d i (ru_tenantId u) = Some e"
      "ru_role u = EDITOR" "page_authorId e \<noteq> ru_id u"
      "PUT_pages_id_handler u i b now d = (not_owner ''You can only edit your own pages'', d)"
  | (conflict) dat e sl where "UpdatePageSchema_parse b = Some dat"
      "page_findFirst d i (ru_tenantId u) = Some e"
      "ru_role u = EDITOR \<longrightarrow> page_authorId e = ru_id u"
      "f_slug dat = Some sl" "sl \<noteq> []" "sl \<noteq> page_slug e"
      "page_findUnique_siteId_slug d (page_siteId e) sl \<noteq> None"
      "PUT_pages_id_handler u i b now d = (slug_exists, d)"
  | (threw) dat e where "UpdatePageSchema_parse b = Some dat"
      "page_findFirst d i (ru_tenantId u) = Some e"
      "ru_role u = EDITOR \<longrightarrow> page_authorId e = ru_id u"
      "page_update i dat (stamp (f_status dat) e now) (update_clear dat e i d) = None"
      "PUT_pages_id_handler u i b now d =
         (internal_error ''Failed to update page'', update_clear dat e i d)"
  | (updated) dat e p d2 where "UpdatePageSchema_parse b = Some dat"
      "page_findFirst d i (ru_tenantId u) = Some e"
      "ru_role u = EDITOR \<longrightarrow> page_authorId e = ru_id u"
      "\<forall>sl. f_slug dat = Some sl \<and> sl \<noteq> [] \<and> sl \<noteq> page_slug e
           \<longrightarrow> page_findUnique_siteId_slug d (page_siteId e) sl = None"
      "page_update i dat (stamp (f_status dat) e now) (update_clear dat e i d) = Some (p, d2)"
      "PUT_pages_id_handler u i b now d = (Json 200 p, d2)"
proof (cases "UpdatePageSchema_parse b")
  case None
  then show ?thesis by (intro invalid) (simp_all add: PUT_pages_id_handler_def)
next
  case parsed: (Some dat)
  show ?thesis
  proof (cases "page_findFirst d i (ru_tenantId u)")
    case None
    with parsed show ?thesis by (intro missing[of dat]) (simp_all add: PUT_pages_id_handler_def)
  next
    case found: (Some e)
    show ?thesis
    proof (cases "ru_role u = EDITOR \<and> page_authorId e \<noteq> ru_id u")
      case True
      with parsed found show ?thesis by (intro denied[of dat e]) (simp_all add: PUT_pages_id_handler_def)
    next
      case allowed: False
      show ?thesis
      proof (cases "case f_slug dat of None \<Rightarrow> False
                      | Some sl \<Rightarrow> sl \<noteq> [] \<and> sl \<noteq> page_slug e
                          \<and> page_findUnique_siteId_slug d (page_siteId e) sl \<noteq> None")
        case True
        then obtain sl where sl: "f_slug dat = Some sl" "sl \<noteq> []" "sl \<noteq> page_slug e"
           "page_findUnique_siteId_slug d (page_siteId e) sl \<noteq> None"
          by (cases "f_slug dat") auto
        have "PUT_pages_id_handler u i b now d = (slug_exists, d)"
          unfolding PUT_pages_id_handler_def
          by (simp only: parsed found option.case allowed True if_True if_False)
        with parsed found allowed sl show ?thesis by (intro conflict[of dat e sl]) auto
      next
        case free: False
        have eq: "PUT_pages_id_handler u i b now d =
          (case page_update i dat (stamp (f_status dat) e now) (update_clear dat e i d) of
             None \<Rightarrow> (internal_error ''Failed to update page'', update_clear dat e i d)
           | Some (p, d2) \<Rightarrow> (Json 200 p, d2))"
          unfolding PUT_pages_id_handler_def
          by (simp only: parsed found option.case allowed free if_False)
        from free have free': "\<forall>sl. f_slug dat = Some sl \<and> sl \<noteq> [] \<and> sl \<noteq> page_slug e
           \<longrightarrow> page_findUnique_siteId_slug d (page_siteId e) sl = None"
          by (cases "f_slug dat") auto
        show ?thesis
        proof (cases "page_update i dat (stamp (f_status dat) e now) (update_clear dat e i d)")
          case None
          with parsed found allowed eq show ?thesis by (intro threw[of dat e]) auto
        next
          case (Some r)
          obtain p d2 where "r = (p, d2)" by (cases r)
          with Some parsed found allowed eq free' show ?thesis by (intro updated[of dat e p d2]) auto
        qed
      qed
    qed
  qed
qed

lemma POST_pages_handler_cases:
  obtains
    (invalid) "CreatePageSchema_parse b = None"
      "POST_pages_handler u b newId now d = (validation_error, d)"
  | (nosite) dat where "CreatePageSchema_parse b = Some dat"
      "site_findFirst d (c_siteId dat) (ru_tenantId u) = None"
      "POST_pages_handler u b newId now d = (site_not_found_for_create, d)"
  | (conflict) dat s where "CreatePageSchema_parse b = Some dat"
      "site_findFirst d (c_siteId dat) (ru_tenantId u) = Some s"
      "page_findUnique_siteId_slug d (c_siteId dat) (c_slug dat) \<noteq> None"
      "POST_pages_handler u b newId now d = (slug_exists, d)"
  | (threw) dat s where "CreatePageSchema_parse b = Some dat"
      "site_findFirst d (c_siteId dat) (ru_tenantId u) = Some s"
      "page_findUnique_siteId_slug d (c_siteId dat) (c_slug dat) = None"
      "page_create (new_page u dat newId now) (create_clear dat d) = None"
      "POST_pages_handler u b newId now d =
         (internal_error ''Failed to create page'', create_clear dat d)"
  | (created) dat s d2 where "CreatePageSchema_parse b = Some dat"
      "site_findFirst d (c_siteId dat) (ru_tenantId u) = Some s"
      "page_findUnique_siteId_slug d (c_siteId dat) (c_slug dat) = None"
      "page_create (new_page u dat newId now) (create_clear dat d) = Some d2"
      "POST_pages_handler u b newId now d = (Json 201 (new_page u dat newId now), d2)"
proof (cases "CreatePageSchema_parse b")
  case None
  then show ?thesis
    by (intro invalid) (simp_all add: POST_pages_handler_def create_checks_def)
next
  case parsed: (Some dat)
  show ?thesis
  proof (cases "site_findFirst d (c_siteId dat) (ru_tenantId u)")
    case None
    with parsed show ?thesis
      by (intro nosite[of dat]) (simp_all add: POST_pages_handler_def create_checks_def)
  next
    case site: (Some s)
    show ?thesis
    proof (cases "page_findUnique_siteId_slug d (c_siteId dat) (c_slug dat)")
      case (Some q)
      with parsed site show ?thesis
        by (intro conflict[of dat s]) (simp_all add: POST_pages_handler_def create_checks_def)
    next
      case free: None
      show ?thesis
      proof (cases "page_create (new_page u dat newId now) (create_clear dat d)")
        case None
        with parsed site free show ?thesis
          by (intro threw[of dat s])
             (simp_all add: POST_pages_handler_def create_checks_def create_insert_def)
      next
        case (Some d2)
        with parsed site free show ?thesis
          by (intro created[of dat s d2])
             (simp_all add: POST_pages_handler_def create_checks_def create_insert_def)
      qed
    qed
  qed
qed

lemma PATCH_pages_id_publish_handler_cases:
  obtains
    (invalid) "PublishPageSchema_parse b = None"
      "PATCH_pages_id_publish_handler u i b now d = (validation_error, d)"
  | (missing) st where "PublishPageSchema_parse b = Some st"
      "page_findFirst d i (ru_tenantId u) = None"
      "PATCH_pages_id_publish_handler u i b now d = (page_not_found, d)"
  | (denied) st e where "PublishPageSchema_parse b = Some st"
      "page_findFirst d i (ru_tenantId u) = Some e"
      "ru_role u = EDITOR" "page_authorId e \<noteq> ru_id u"
      "PATCH_pages_id_publish_handler u i b now d =
         (not_owner ''You can only modify your own pages'', d)"
  | (threw) st e where "PublishPageSchema_parse b = Some st"
      "page_findFirst d i (ru_tenantId u) = Some e"
      "ru_role u = EDITOR \<longrightarrow> page_authorId e = ru_id u"
      "page_update i (status_only st) (stamp (Some st) e now) d = None"
      "PATCH_pages_id_publish_handler u i b now d =
         (internal_error ''Failed to update page status'', d)"
  | (updated) st e p d2 where "PublishPageSchema_parse b = Some st"
      "page_findFirst d i (ru_tenantId u) = Some e"
      "ru_role u = EDITOR \<longrightarrow> page_authorId e = ru_id u"
      "page_update i (status_only st) (stamp (Some st) e now) d = Some (p, d2)"
      "PATCH_pages_id_publish_handler u i b now d = (Json 200 p, d2)"
proof (cases "PublishPageSchema_parse b")
  case None
  then show ?thesis by (intro invalid) (simp_all add: PATCH_pages_id_publish_handler_def)
next
  case parsed: (Some st)
  show ?thesis
  proof (cases "page_findFirst d i (ru_tenantId u)")
    case None
    with parsed show ?thesis
      by (intro missing[of st]) (simp_all add: PATCH_pages_id_publish_handler_def)
  next
    case found: (Some e)
    show ?thesis
    proof (cases "ru_role u = EDITOR \<and> page_authorId e \<noteq> ru_id u")
      case True
      with parsed found show ?thesis
        by (intro denied[of st e]) (simp_all add: PATCH_pages_id_publish_handler_def)
    next
      case allowed: False
      have eq: "PATCH_pages_id_publish_handler u i b now d =
          (case page_update i (status_only st) (stamp (Some st) e now) d of
             None \<Rightarrow> (internal_error ''Failed to update page status'', d)
           | Some (p, d2) \<Rightarrow> (Json 200 p, d2))"
        unfolding PATCH_pages_id_publish_handler_def
        by (simp only: parsed found option.case allowed if_False)
      show ?thesis
      proof (cases "page_update i (status_only st) (stamp (Some st) e now) d")
        case None
        with parsed found allowed eq show ?thesis by (intro threw[of st e]) auto
      next
        case (Some r)
        obtain p d2 where "r = (p, d2)" by (cases r)
        with Some parsed found allowed eq show ?thesis by (intro updated[of st e p d2]) auto
      qed
    qed
  qed
qed

lemma DELETE_pages_id_handler_cases:
  obtains
    (missing) "page_findFirst d i (ru_tenantId u) = None"
      "DELETE_pages_id_handler u i d = (page_not_found, d)"
  | (denied) e where "page_findFirst d i (ru_tenantId u) = Some e"
      "ru_role u = EDITOR" "page_authorId e \<noteq> ru_id u"
      "DELETE_pages_id_handler u i d = (not_owner ''You can only delete your own pages'', d)"
  | (deleted) e where "page_findFirst d i (ru_tenantId u) = Some e"
      "ru_role u = EDITOR \<longrightarrow> page_authorId e = ru_id u"
      "DELETE_pages_id_handler u i d = (Json 200 e, page_delete i d)"
proof (cases "page_findFirst d i (ru_tenantId u)")
  case None
  then show ?thesis by (intro missing) (simp_all add: DELETE_pages_id_handler_def)
next
  case found: (Some e)
  show ?thesis
  proof (cases "ru_role u = EDITOR \<and> page_authorId e \<noteq> ru_id u")
    case True
    with found show ?thesis by (intro denied[of e]) (simp_all add: DELETE_pages_id_handler_def)
  next
    case False
    with found show ?thesis by (intro deleted[of e]) (auto simp add: DELETE_pages_id_handler_def)
  qed
qed

section \<open>The home page of a site\<close>



lemma pk_pages_same:
  "pk_pages d \<Longrightarrow> x \<in> set (pages d) \<Longrightarrow> y \<in> set (pages d) \<Longrightarrow> page_id x = page_id y \<Longrightarrow> x = y"
  unfolding pk_pages_def by (auto simp: distinct_map dest: inj_onD)

lemma page_findFirst_SomeD:
  "page_findFirst d i t = Some e \<Longrightarrow>
     e \<in> set (pages d) \<and> page_id e = i \<and> site_tenant d (page_siteId e) = Some t"
  unfolding page_findFirst_def by (auto simp: find_Some_iff)

lemma apply_fields_keys [simp]:
  "page_id (apply_fields f pub p) = page_id p"
  "page_siteId (apply_fields f pub p) = page_siteId p"
  "page_authorId (apply_fields f pub p) = page_authorId p"
  by (simp_all add: apply_fields_def)


lemma page_update_pages:
  "page_update i f pub d = Some (p, d') \<Longrightarrow>
     pages d' = map (\<lambda>q. if page_id q = i then apply_fields f pub q else q) (pages d)"
  by (auto simp: page_update_def split: option.splits if_splits)

lemma page_update_result:
  "page_update i f pub d = Some (p, d') \<Longrightarrow>
     \<exists>r \<in> set (pages d). page_id r = i \<and> p = apply_fields f pub r"
  by (auto simp: page_update_def find_Some_iff split: option.splits if_splits)

lemma pk_pages_page_clear_home [simp]: "pk_pages (page_clear_home s d) = pk_pages d"
proof -
  have "map page_id (pages (page_clear_home s d)) = map page_id (pages d)"
    by (simp add: page_clear_home_def)
  then show ?thesis by (simp add: pk_pages_def)
qed

lemma pk_pages_page_clear_home_except [simp]:
  "pk_pages (page_clear_home_except s i d) = pk_pages d"
proof -
  have "map page_id (pages (page_clear_home_except s i d)) = map page_id (pages d)"
    by (simp add: page_clear_home_except_def)
  then show ?thesis by (simp add: pk_pages_def)
qed

lemma pk_pages_create_clear [simp]: "pk_pages (create_clear dat d) = pk_pages d"
  by (simp add: create_clear_def)

lemma pk_pages_update_clear [simp]: "pk_pages (update_clear dat e i d) = pk_pages d"
  by (simp add: update_clear_def)

lemma pk_pages_page_update:
  "page_update i f pub d = Some (p, d') \<Longrightarrow> pk_pages d' = pk_pages d"
proof -
  assume "page_update i f pub d = Some (p, d')"
  then have "map page_id (pages d') = map page_id (pages d)"
    by (simp add: page_update_pages)
  then show ?thesis by (simp add: pk_pages_def)
qed
















lemma requireRole_pass: "ru_role u \<in> set roles \<Longrightarrow> requireRole roles u = None"
  by (simp add: requireRole_def)

lemma requireRole_reject:
  "ru_role u \<notin> set roles \<Longrightarrow> requireRole roles u = Some (insufficient_role roles u)"
  by (simp add: requireRole_def)

lemma page_routes_gate:
  "POST_pages u b newId now d =
     (if ru_role u \<in> set content_roles then POST_pages_handler u b newId now d
      else (insufficient_role content_roles u, d))"
  "PUT_pages_id u i b now d =
     (if ru_role u \<in> set content_roles then PUT_pages_id_handler u i b now d
      else (insufficient_role content_roles u, d))"
  "PATCH_pages_id_publish u i sb now d =
     (if ru_role u \<in> set content_roles then PATCH_pages_id_publish_handler u i sb now d
      else (insufficient_role content_roles u, d))"
  "DELETE_pages_id u i d =
     (if ru_role u \<in> set content_roles then DELETE_pages_id_handler u i d
      else (insufficient_role content_roles u, d))"
  by (simp_all add: POST_pages_def PUT_pages_id_def PATCH_pages_id_publish_def
        DELETE_pages_id_def requireRole_def)







lemma failures_not_Json [simp]:
  "validation_error \<noteq> Json st x" "page_not_found \<noteq> Json st x"
  "site_not_found_for_create \<noteq> Json st x" "slug_exists \<noteq> Json st x"
  "internal_error w \<noteq> Json st x" "not_owner m \<noteq> Json st x"
  "insufficient_role roles u \<noteq> Json st x"
  "Json st x \<noteq> validation_error" "Json st x \<noteq> page_not_found"
  "Json st x \<noteq> site_not_found_for_create" "Json st x \<noteq> slug_exists"
  "Json st x \<noteq> internal_error w" "Json st x \<noteq> not_owner m"
  "Json st x \<noteq> insufficient_role roles u"
  by (simp_all add: validation_error_def page_not_found_def site_not_found_for_create_def
        slug_exists_def internal_error_def not_owner_def insufficient_role_def)


lemma UpdatePageSchema_parse_SomeD:
  "UpdatePageSchema_parse b = Some dat \<Longrightarrow>
     f_slug dat = b_slug b \<and> f_isHomePage dat = b_isHomePage b
     \<and> f_status dat = Option.bind (b_status b) parse_status \<and> f_title dat = b_title b"
  by (auto simp: UpdatePageSchema_parse_def split: if_splits)






section \<open>Evaluating the routes on the small store\<close>

lemmas sample_defs = db0_def site1_def site2_def page1_def page2_def page3_def media1_def
  media2_def admin1_def editor1_def viewer1_def empty_body_def about_home_body_def
  home_flag_body_def home_flag_fields_def admin2_def db1_def alt_only_def user1_def
  db_users_def contact_home_body_def page4_def db_authors_def retitle_body_def
  retitle_fields_def

lemmas route_defs = POST_pages_def POST_pages_handler_def create_checks_def create_clear_def
  create_insert_def new_page_def page_create_def PUT_pages_id_def PUT_pages_id_handler_def
  update_clear_def stamp_def page_update_def apply_fields_def PATCH_pages_id_publish_def
  PATCH_pages_id_publish_handler_def status_only_def DELETE_pages_id_def
  DELETE_pages_id_handler_def page_delete_def requireRole_def content_roles_def
  admin_roles_def CreatePageSchema_parse_def UpdatePageSchema_parse_def
  PublishPageSchema_parse_def parse_status_def slug_ok_def opt_ok_def or_else_def keep_or_def
  site_findFirst_def page_findFirst_def site_tenant_def page_findUnique_siteId_slug_def
  page_clear_home_def page_clear_home_except_def

lemma db0_pk: "pk_pages db0"
  by (simp add: pk_pages_def sample_defs)



lemma db0_update_home:
  "PUT_pages_id admin1 ''p1'' home_flag_body 30
       (db0\<lparr>pages := [page1\<lparr>page_isHomePage := False\<rparr>, page2, page3]\<rparr>)
     = (Json 200 page1, db0\<lparr>pages := [page1, page2, page3\<lparr>page_isHomePage := False\<rparr>]\<rparr>)"
  by (simp add: route_defs sample_defs)

section \<open>Sequences of requests, and requests that fail\<close>



text \<open>
  C6. A page create or update request that is answered with a failure other than the
  500 of a throwing store call (so: a validation error, an insufficient role, a site or
  page not found in the caller's tenant, a not-owner rejection, a slug conflict) leaves
  the store exactly as it was; the home-page flags of the other pages are therefore
  unchanged.
\<close>

theorem failed_page_request_keeps_store:
  "(fst (POST_pages u b newId now d) = Failure st e m \<and> st \<noteq> 500
      \<longrightarrow> snd (POST_pages u b newId now d) = d)
   \<and> (fst (PUT_pages_id u i b now d) = Failure st e m \<and> st \<noteq> 500
      \<longrightarrow> snd (PUT_pages_id u i b now d) = d)"
proof (intro conjI impI)
  assume a: "fst (POST_pages u b newId now d) = Failure st e m \<and> st \<noteq> 500"
  show "snd (POST_pages u b newId now d) = d"
  proof (cases "ru_role u \<in> set content_roles")
    case True
    then have eq: "POST_pages u b newId now d = POST_pages_handler u b newId now d"
      by (simp add: page_routes_gate)
    show ?thesis
      by (cases rule: POST_pages_handler_cases[of b u newId now d])
         (use a eq in \<open>auto simp add: internal_error_def\<close>)
  next
    case False
    then show ?thesis by (simp add: page_routes_gate)
  qed
next
  assume a: "fst (PUT_pages_id u i b now d) = Failure st e m \<and> st \<noteq> 500"
  show "snd (PUT_pages_id u i b now d) = d"
  proof (cases "ru_role u \<in> set content_roles")
    case True
    then have eq: "PUT_pages_id u i b now d = PUT_pages_id_handler u i b now d"
      by (simp add: page_routes_gate)
    show ?thesis
      by (cases rule: PUT_pages_id_handler_cases[of b u i now d])
         (use a eq in \<open>auto simp add: internal_error_def\<close>)
  next
    case False
    then show ?thesis by (simp add: page_routes_gate)
  qed
qed

theorem failed_page_request_keeps_store_witness:
  "fst (POST_pages admin1 (about_home_body\<lparr>b_slug := Some ''home''\<rparr>) ''p3'' 20 db0)
      = Failure 400 ''Slug already exists'' ''A page with this slug already exists in this site''
   \<and> (400::nat) \<noteq> 500
   \<and> snd (POST_pages admin1 (about_home_body\<lparr>b_slug := Some ''home''\<rparr>) ''p3'' 20 db0) = db0
   \<and> fst (PUT_pages_id editor1 ''p1'' home_flag_body 30 db0)
      = Failure 403 ''Insufficient permissions'' ''You can only edit your own pages''
   \<and> (403::nat) \<noteq> 500
   \<and> snd (PUT_pages_id editor1 ''p1'' home_flag_body 30 db0) = db0"
proof -
  have c: "fst (POST_pages admin1 (about_home_body\<lparr>b_slug := Some ''home''\<rparr>) ''p3'' 20 db0)
      = Failure 400 ''Slug already exists'' ''A page with this slug already exists in this site''"
    by (simp add: route_defs sample_defs slug_exists_def)
  have u: "fst (PUT_pages_id editor1 ''p1'' home_flag_body 30 db0)
      = Failure 403 ''Insufficient permissions'' ''You can only edit your own pages''"
    by (simp add: route_defs sample_defs not_owner_def)
  from failed_page_request_keeps_store[where u=admin1
      and b="about_home_body\<lparr>b_slug := Some ''home''\<rparr>" and newId="''p3''" and now=20
      and d=db0 and st=400 and e="''Slug already exists''"
      and m="''A page with this slug already exists in this site''"] c
  have 1: "snd (POST_pages admin1 (about_home_body\<lparr>b_slug := Some ''home''\<rparr>) ''p3'' 20 db0) = db0"
    by simp
  from failed_page_request_keeps_store[where u=editor1 and i="''p1''" and b=home_flag_body
      and now=30 and d=db0 and st=403 and e="''Insufficient permissions''"
      and m="''You can only edit your own pages''"] u
  have 2: "snd (PUT_pages_id editor1 ''p1'' home_flag_body 30 db0) = db0"
    by simp
  from c u 1 2 show ?thesis by simp
qed

section \<open>The row an update writes\<close>

lemma page_update_Some_row:
  assumes "pk_pages d" "e \<in> set (pages d)" "page_id e = i"
    and "page_update i f pub d = Some (p, d')"
  shows "p = apply_fields f pub e"
proof -
  from page_update_result[OF assms(4)] obtain r where
    r: "r \<in> set (pages d)" "page_id r = i" "p = apply_fields f pub r" by blast
  have "r = e" by (rule pk_pages_same[OF assms(1) r(1) assms(2)]) (simp add: r(2) assms(3))
  with r(3) show ?thesis by simp
qed

lemma page_clear_home_except_keeps_row:
  assumes "e \<in> set (pages d)" "page_id e = i"
  shows "e \<in> set (pages (page_clear_home_except s i d))"
proof -
  let ?C = "\<lambda>p. if page_siteId p = s \<and> page_isHomePage p \<and> page_id p \<noteq> i
                 then p\<lparr>page_isHomePage := False\<rparr> else p"
  have "e = ?C e" using assms(2) by simp
  then have "e \<in> ?C ` set (pages d)" using assms(1) by (rule image_eqI)
  then show ?thesis by (simp add: page_clear_home_except_def)
qed

lemma update_clear_keeps_row:
  "e \<in> set (pages d) \<Longrightarrow> page_id e = i \<Longrightarrow> e \<in> set (pages (update_clear dat e' i d))"
  by (simp add: update_clear_def page_clear_home_except_keeps_row)

lemma PUT_row:
  assumes "pk_pages d" "page_findFirst d i t = Some e"
    and "page_update i f pub (update_clear dat e i d) = Some (p, d')"
  shows "p = apply_fields f pub e"
proof -
  note e = page_findFirst_SomeD[OF assms(2)]
  have pk: "pk_pages (update_clear dat e i d)" using assms(1) by simp
  have "e \<in> set (pages (update_clear dat e i d))"
    using e by (simp add: update_clear_keeps_row)
  then show ?thesis
    by (rule page_update_Some_row[OF pk _ _ assms(3)]) (simp add: e)
qed

lemma PATCH_row:
  assumes "pk_pages d" "page_findFirst d i t = Some e"
    and "page_update i f pub d = Some (p, d')"
  shows "p = apply_fields f pub e"
  by (rule page_update_Some_row[OF assms(1) _ _ assms(3)])
     (simp_all add: page_findFirst_SomeD[OF assms(2)])

lemma find_by_page_id:
  assumes "pk_pages d" "e \<in> set (pages d)"
  shows "find (\<lambda>p. page_id p = page_id e) (pages d) = Some e"
proof (cases "find (\<lambda>p. page_id p = page_id e) (pages d)")
  case None
  with assms(2) show ?thesis by (auto simp: find_None_iff)
next
  case (Some r)
  then have "r \<in> set (pages d)" "page_id r = page_id e"
    by (auto simp: find_Some_iff)
  then have "r = e" using assms by (auto intro: pk_pages_same)
  with Some show ?thesis by simp
qed

lemma page_update_store:
  assumes "pk_pages d" "e \<in> set (pages d)" "page_id e = i"
    and "page_update i f pub d = Some (p, d')"
  shows "d' = d\<lparr>pages := map (\<lambda>q. if page_id q = i then p else q) (pages d)\<rparr>"
proof -
  have p: "p = apply_fields f pub e" by (rule page_update_Some_row[OF assms])
  have 1: "d' = d\<lparr>pages := map (\<lambda>q. if page_id q = i then apply_fields f pub q else q) (pages d)\<rparr>"
    using assms(4) by (auto simp: page_update_def split: option.splits if_splits)
  have 2: "map (\<lambda>q. if page_id q = i then apply_fields f pub q else q) (pages d)
         = map (\<lambda>q. if page_id q = i then p else q) (pages d)"
  proof (rule map_cong[OF refl])
    fix q assume q: "q \<in> set (pages d)"
    show "(if page_id q = i then apply_fields f pub q else q) = (if page_id q = i then p else q)"
    proof (cases "page_id q = i")
      case True
      have "q = e" by (rule pk_pages_same[OF assms(1) q assms(2)]) (simp add: True assms(3))
      with True p show ?thesis by simp
    next
      case False
      then show ?thesis by simp
    qed
  qed
  from 1 2 show ?thesis by simp
qed

lemma page_update_stored_row:
  assumes "pk_pages d" "e \<in> set (pages d)" "page_id e = i"
    and "page_update i f pub d = Some (p, d')"
  shows "find (\<lambda>r. page_id r = i) (pages d') = Some p"
proof -
  have p: "p = apply_fields f pub e" by (rule page_update_Some_row[OF assms])
  then have pid: "page_id p = i" using assms(3) by simp
  have pk': "pk_pages d'" using pk_pages_page_update[OF assms(4)] assms(1) by simp
  have "pages d' = map (\<lambda>q. if page_id q = i then p else q) (pages d)"
    using page_update_store[OF assms] by simp
  moreover have "p = (\<lambda>q. if page_id q = i then p else q) e" using assms(3) by simp
  ultimately have "p \<in> set (pages d')" using assms(2) by (simp only: set_map) (rule image_eqI)
  from find_by_page_id[OF pk' this] pid show ?thesis by simp
qed

lemma publishedAt_column_update:
  assumes "pk_pages d" "e \<in> set (pages d)" "page_id e = i"
    and "page_update i f pub d = Some (p, d')"
  shows "map (\<lambda>r. (page_id r, page_publishedAt r)) (pages d')
       = map (\<lambda>r. (page_id r, if page_id r = i then page_publishedAt p else page_publishedAt r))
           (pages d)"
proof -
  have p: "p = apply_fields f pub e" by (rule page_update_Some_row[OF assms])
  then have pid: "page_id p = i" using assms(3) by simp
  have "pages d' = map (\<lambda>q. if page_id q = i then p else q) (pages d)"
    using page_update_store[OF assms] by simp
  then show ?thesis using pid by (simp add: comp_def if_distrib[of "\<lambda>x. page_id x"] cong: if_cong)
qed

lemma publishedAt_column_update_clear:
  "map (\<lambda>r. (page_id r, page_publishedAt r)) (pages (update_clear dat e i d))
     = map (\<lambda>r. (page_id r, page_publishedAt r)) (pages d)"
proof -
  let ?C = "\<lambda>p. if page_siteId p = page_siteId e \<and> page_isHomePage p \<and> page_id p \<noteq> i
                 then p\<lparr>page_isHomePage := False\<rparr> else p"
  have "(\<lambda>r. (page_id (?C r), page_publishedAt (?C r))) = (\<lambda>r. (page_id r, page_publishedAt r))"
    by (rule ext) simp
  then have "map (\<lambda>r. (page_id (?C r), page_publishedAt (?C r))) (pages d)
           = map (\<lambda>r. (page_id r, page_publishedAt r)) (pages d)"
    by (rule arg_cong)
  then show ?thesis
    by (simp add: update_clear_def page_clear_home_except_def comp_def)
qed

lemma publishedAt_column_transfer:
  assumes "map (\<lambda>r. (page_id r, page_publishedAt r)) xs = map (\<lambda>r. (page_id r, page_publishedAt r)) ys"
  shows "map (\<lambda>r. (page_id r, if page_id r = i then x else page_publishedAt r)) xs
       = map (\<lambda>r. (page_id r, if page_id r = i then x else page_publishedAt r)) ys"
proof -
  let ?k = "\<lambda>(a, b). (a, if a = i then x else b)"
  have "map ?k (map (\<lambda>r. (page_id r, page_publishedAt r)) xs)
      = map ?k (map (\<lambda>r. (page_id r, page_publishedAt r)) ys)"
    using assms by simp
  then show ?thesis by (simp add: comp_def)
qed

lemma publishedAt_apply_fields:
  "page_publishedAt (apply_fields f pub e) = keep_or pub (page_publishedAt e)"
  by (simp add: apply_fields_def)

lemma PublishPageSchema_parse_PUBLISHED:
  "PublishPageSchema_parse sb = Some st \<Longrightarrow> (st = PUBLISHED) = (sb = Some ''PUBLISHED'')"
  by (cases sb) (auto simp: PublishPageSchema_parse_def parse_status_def split: if_splits)

lemma bind_parse_status_PUBLISHED:
  "opt_ok (\<lambda>s. parse_status s \<noteq> None) sb \<Longrightarrow>
     (Option.bind sb parse_status = Some PUBLISHED) = (sb = Some ''PUBLISHED'')"
  by (cases sb) (auto simp: parse_status_def opt_ok_def split: if_splits)

lemma UpdatePageSchema_parse_status_ok:
  "UpdatePageSchema_parse b = Some dat \<Longrightarrow> opt_ok (\<lambda>s. parse_status s \<noteq> None) (b_status b)"
  by (auto simp: UpdatePageSchema_parse_def split: if_splits)

text \<open>
  C3, as amended. Let a page in the caller's tenant be the target of a successful update or
  publish request. In the store afterwards the \<open>publishedAt\<close> of that page is the current
  time when the request sets the status to \<open>PUBLISHED\<close> and the page was not \<open>PUBLISHED\<close>
  before, and is its previous value in every other case; the \<open>publishedAt\<close> of every other
  page is as before; and the page in the answer is the stored one. Hence a \<open>publishedAt\<close>
  that is set is never cleared, and it is overwritten exactly by a transition into
  \<open>PUBLISHED\<close>.
\<close>

theorem publishedAt_restamped_never_cleared:
  assumes "pk_pages d" and "page_findFirst d i (ru_tenantId u) = Some e"
  shows "(PATCH_pages_id_publish u i sb now d = (Json 200 p, d') \<longrightarrow>
            map (\<lambda>r. (page_id r, page_publishedAt r)) (pages d')
              = map (\<lambda>r. (page_id r,
                       if page_id r = i
                       then (if sb = Some ''PUBLISHED'' \<and> page_status e \<noteq> PUBLISHED then Some now
                             else page_publishedAt e)
                       else page_publishedAt r)) (pages d)
            \<and> find (\<lambda>r. page_id r = i) (pages d') = Some p
            \<and> page_publishedAt p =
                (if sb = Some ''PUBLISHED'' \<and> page_status e \<noteq> PUBLISHED then Some now
                 else page_publishedAt e)
            \<and> (page_publishedAt e \<noteq> None \<longrightarrow> page_publishedAt p \<noteq> None))
       \<and> (PUT_pages_id u i b now d = (Json 200 q, d'') \<longrightarrow>
            map (\<lambda>r. (page_id r, page_publishedAt r)) (pages d'')
              = map (\<lambda>r. (page_id r,
                       if page_id r = i
                       then (if b_status b = Some ''PUBLISHED'' \<and> page_status e \<noteq> PUBLISHED then Some now
                             else page_publishedAt e)
                       else page_publishedAt r)) (pages d)
            \<and> find (\<lambda>r. page_id r = i) (pages d'') = Some q
            \<and> page_publishedAt q =
                (if b_status b = Some ''PUBLISHED'' \<and> page_status e \<noteq> PUBLISHED then Some now
                 else page_publishedAt e)
            \<and> (page_publishedAt e \<noteq> None \<longrightarrow> page_publishedAt q \<noteq> None))"
proof (intro conjI impI)
  note e = page_findFirst_SomeD[OF assms(2)]
  assume a: "PATCH_pages_id_publish u i sb now d = (Json 200 p, d')"
  then have h: "PATCH_pages_id_publish_handler u i sb now d = (Json 200 p, d')"
    by (simp add: page_routes_gate split: if_splits)
  let ?new = "if sb = Some ''PUBLISHED'' \<and> page_status e \<noteq> PUBLISHED then Some now
              else page_publishedAt e"
  have r: "page_publishedAt p = ?new
      \<and> map (\<lambda>r. (page_id r, page_publishedAt r)) (pages d')
          = map (\<lambda>r. (page_id r, if page_id r = i then ?new else page_publishedAt r)) (pages d)
      \<and> find (\<lambda>r. page_id r = i) (pages d') = Some p"
  proof (cases rule: PATCH_pages_id_publish_handler_cases[of sb u i now d])
    case (updated st e2 p2 d2)
    with h assms(2) have eq: "e2 = e" "p2 = p" "d2 = d'" by simp_all
    note upd = updated(4)[unfolded eq]
    from PATCH_row[OF assms(1) assms(2) upd]
    have "p = apply_fields (status_only st) (stamp (Some st) e now) e" .
    then have 1: "page_publishedAt p = ?new"
      using PublishPageSchema_parse_PUBLISHED[OF updated(1)]
      by (simp add: publishedAt_apply_fields stamp_def keep_or_def)
    have 2: "map (\<lambda>r. (page_id r, page_publishedAt r)) (pages d')
          = map (\<lambda>r. (page_id r, if page_id r = i then ?new else page_publishedAt r)) (pages d)"
    proof -
      have "map (\<lambda>r. (page_id r, page_publishedAt r)) (pages d')
          = map (\<lambda>r. (page_id r, if page_id r = i then page_publishedAt p else page_publishedAt r))
              (pages d)"
        by (rule publishedAt_column_update[OF assms(1) _ _ upd, of e]) (simp_all add: e)
      then show ?thesis by (simp only: 1)
    qed
    have 3: "find (\<lambda>r. page_id r = i) (pages d') = Some p"
      by (rule page_update_stored_row[OF assms(1) _ _ upd, of e]) (simp_all add: e)
    from 1 2 3 show ?thesis by blast
  qed (use h in simp_all)
  from r show "map (\<lambda>r. (page_id r, page_publishedAt r)) (pages d')
          = map (\<lambda>r. (page_id r, if page_id r = i then ?new else page_publishedAt r)) (pages d)"
    by blast
  from r show "find (\<lambda>r. page_id r = i) (pages d') = Some p" by blast
  from r show "page_publishedAt p = ?new" by blast
  from r show "page_publishedAt e \<noteq> None \<Longrightarrow> page_publishedAt p \<noteq> None"
    by (simp split: if_splits)
next
  note e = page_findFirst_SomeD[OF assms(2)]
  assume a: "PUT_pages_id u i b now d = (Json 200 q, d'')"
  then have h: "PUT_pages_id_handler u i b now d = (Json 200 q, d'')"
    by (simp add: page_routes_gate split: if_splits)
  let ?new = "if b_status b = Some ''PUBLISHED'' \<and> page_status e \<noteq> PUBLISHED then Some now
              else page_publishedAt e"
  have r: "page_publishedAt q = ?new
      \<and> map (\<lambda>r. (page_id r, page_publishedAt r)) (pages d'')
          = map (\<lambda>r. (page_id r, if page_id r = i then ?new else page_publishedAt r)) (pages d)
      \<and> find (\<lambda>r. page_id r = i) (pages d'') = Some q"
  proof (cases rule: PUT_pages_id_handler_cases[of b u i now d])
    case (updated dat e2 p2 d2)
    with h assms(2) have eq: "e2 = e" "p2 = q" "d2 = d''" by simp_all
    note upd = updated(5)[unfolded eq]
    have pk1: "pk_pages (update_clear dat e i d)" using assms(1) by simp
    have e1: "e \<in> set (pages (update_clear dat e i d))"
      using e by (simp add: update_clear_keeps_row)
    from PUT_row[OF assms(1) assms(2) upd]
    have "q = apply_fields dat (stamp (f_status dat) e now) e" .
    then have 1: "page_publishedAt q = ?new"
      using UpdatePageSchema_parse_SomeD[OF updated(1)]
        bind_parse_status_PUBLISHED[OF UpdatePageSchema_parse_status_ok[OF updated(1)]]
      by (simp add: publishedAt_apply_fields stamp_def keep_or_def)
    have "map (\<lambda>r. (page_id r, page_publishedAt r)) (pages d'')
          = map (\<lambda>r. (page_id r, if page_id r = i then ?new else page_publishedAt r))
              (pages (update_clear dat e i d))"
    proof -
      have "map (\<lambda>r. (page_id r, page_publishedAt r)) (pages d'')
          = map (\<lambda>r. (page_id r, if page_id r = i then page_publishedAt q else page_publishedAt r))
              (pages (update_clear dat e i d))"
        by (rule publishedAt_column_update[OF pk1 e1 _ upd]) (simp add: e)
      then show ?thesis by (simp only: 1)
    qed
    also have "\<dots> = map (\<lambda>r. (page_id r, if page_id r = i then ?new else page_publishedAt r)) (pages d)"
      by (rule publishedAt_column_transfer[OF publishedAt_column_update_clear])
    finally have 2: "map (\<lambda>r. (page_id r, page_publishedAt r)) (pages d'')
          = map (\<lambda>r. (page_id r, if page_id r = i then ?new else page_publishedAt r)) (pages d)" .
    have 3: "find (\<lambda>r. page_id r = i) (pages d'') = Some q"
      by (rule page_update_stored_row[OF pk1 e1 _ upd]) (simp add: e)
    from 1 2 3 show ?thesis by blast
  qed (use h in simp_all)
  from r show "map (\<lambda>r. (page_id r, page_publishedAt r)) (pages d'')
          = map (\<lambda>r. (page_id r, if page_id r = i then ?new else page_publishedAt r)) (pages d)"
    by blast
  from r show "find (\<lambda>r. page_id r = i) (pages d'') = Some q" by blast
  from r show "page_publishedAt q = ?new" by blast
  from r show "page_publishedAt e \<noteq> None \<Longrightarrow> page_publishedAt q \<noteq> None"
    by (simp split: if_splits)
qed

theorem publishedAt_restamped_never_cleared_witness:
  "pk_pages db0 \<and> page_findFirst db0 ''p1'' (ru_tenantId admin1) = Some page1
   \<and> PATCH_pages_id_publish admin1 ''p1'' (Some ''PUBLISHED'') 50 db0
       = (Json 200 (page1\<lparr>page_status := PUBLISHED, page_publishedAt := Some 50\<rparr>),
          db0\<lparr>pages := [page1\<lparr>page_status := PUBLISHED, page_publishedAt := Some 50\<rparr>, page2]\<rparr>)
   \<and> page_status page1 = ARCHIVED \<and> page_publishedAt page1 = Some 10
   \<and> page_publishedAt (page1\<lparr>page_status := PUBLISHED, page_publishedAt := Some 50\<rparr>) = Some 50
   \<and> PUT_pages_id admin1 ''p1'' (empty_body\<lparr>b_status := Some ''DRAFT''\<rparr>) 50 db0
       = (Json 200 (page1\<lparr>page_status := DRAFT\<rparr>),
          db0\<lparr>pages := [page1\<lparr>page_status := DRAFT\<rparr>, page2]\<rparr>)
   \<and> page_publishedAt (page1\<lparr>page_status := DRAFT\<rparr>) = Some 10
   \<and> map (\<lambda>r. (page_id r, page_publishedAt r)) (pages db0) = [(''p1'', Some 10), (''p2'', None)]
   \<and> map (\<lambda>r. (page_id r, page_publishedAt r))
        [page1\<lparr>page_status := PUBLISHED, page_publishedAt := Some 50\<rparr>, page2]
      = [(''p1'', Some 50), (''p2'', None)]
   \<and> map (\<lambda>r. (page_id r, page_publishedAt r)) [page1\<lparr>page_status := DRAFT\<rparr>, page2]
      = [(''p1'', Some 10), (''p2'', None)]"
proof -
  have h1: "pk_pages db0" by (rule db0_pk)
  have h2: "page_findFirst db0 ''p1'' (ru_tenantId admin1) = Some page1"
    by (simp add: route_defs sample_defs)
  have a: "PATCH_pages_id_publish admin1 ''p1'' (Some ''PUBLISHED'') 50 db0
       = (Json 200 (page1\<lparr>page_status := PUBLISHED, page_publishedAt := Some 50\<rparr>),
          db0\<lparr>pages := [page1\<lparr>page_status := PUBLISHED, page_publishedAt := Some 50\<rparr>, page2]\<rparr>)"
    by (simp add: route_defs sample_defs)
  have b: "PUT_pages_id admin1 ''p1'' (empty_body\<lparr>b_status := Some ''DRAFT''\<rparr>) 50 db0
       = (Json 200 (page1\<lparr>page_status := DRAFT\<rparr>),
          db0\<lparr>pages := [page1\<lparr>page_status := DRAFT\<rparr>, page2]\<rparr>)"
    by (simp add: route_defs sample_defs)
  have c: "page_status page1 = ARCHIVED" "page_publishedAt page1 = Some 10"
    "b_status (empty_body\<lparr>b_status := Some ''DRAFT''\<rparr>) = Some ''DRAFT''"
    "page_id page1 = ''p1''" "page_id page2 = ''p2''" "page_publishedAt page2 = None"
    "pages db0 = [page1, page2]"
    by (simp_all add: page1_def page2_def db0_def)
  from publishedAt_restamped_never_cleared[OF h1 h2,
      where sb="Some ''PUBLISHED''" and now=50
        and p="page1\<lparr>page_status := PUBLISHED, page_publishedAt := Some 50\<rparr>"
        and d'="db0\<lparr>pages := [page1\<lparr>page_status := PUBLISHED, page_publishedAt := Some 50\<rparr>, page2]\<rparr>"
        and b="empty_body\<lparr>b_status := Some ''DRAFT''\<rparr>"
        and q="page1\<lparr>page_status := DRAFT\<rparr>"
        and d''="db0\<lparr>pages := [page1\<lparr>page_status := DRAFT\<rparr>, page2]\<rparr>"]
  show ?thesis using h1 h2 a b c by simp
qed

text \<open>
  C3 as stated fails: a page first published at time 10 and since archived is taken
  through \<open>DRAFT\<close>, \<open>ARCHIVED\<close> and \<open>PUBLISHED\<close> again; its \<open>publishedAt\<close> is then
  the time of the last request, 40, and no longer 10.
\<close>

theorem publishedAt_unchanged_counterexample:
  "map page_id (pages db0) = [''p1'', ''p2'']
   \<and> map page_publishedAt (pages db0) = [Some 10, None]
   \<and> map page_publishedAt
        (pages (run db0 [Publish admin1 ''p1'' (Some ''DRAFT'') 20,
                         Publish admin1 ''p1'' (Some ''ARCHIVED'') 30,
                         Publish admin1 ''p1'' (Some ''PUBLISHED'') 40]))
      = [Some 40, None]"
  by (simp add: run_def route_defs sample_defs)

section \<open>When an update goes through\<close>

lemma find_map_None:
  "(\<And>x. x \<in> set xs \<Longrightarrow> P (f x) = P x) \<Longrightarrow> (find P (map f xs) = None) = (find P xs = None)"
  by (auto simp: find_None_iff)

lemma findUnique_page_clear_home_except [simp]:
  "page_findUnique_siteId_slug (page_clear_home_except s i d) sid sl = None
     \<longleftrightarrow> page_findUnique_siteId_slug d sid sl = None"
  unfolding page_findUnique_siteId_slug_def page_clear_home_except_def
  by (simp add: find_map_None)

lemma findUnique_update_clear [simp]:
  "page_findUnique_siteId_slug (update_clear dat e i d) sid sl = None
     \<longleftrightarrow> page_findUnique_siteId_slug d sid sl = None"
  by (simp add: update_clear_def)

lemma slug_apply_fields:
  "page_slug (apply_fields f pub e) = or_else (f_slug f) (page_slug e)"
  by (simp add: apply_fields_def)

lemma page_update_succeeds:
  assumes "pk_pages d" "e \<in> set (pages d)" "page_id e = i"
    and "\<forall>sl. f_slug f = Some sl \<and> sl \<noteq> page_slug e
           \<longrightarrow> page_findUnique_siteId_slug d (page_siteId e) sl = None"
  shows "page_update i f pub d \<noteq> None"
proof -
  have f: "find (\<lambda>p. page_id p = i) (pages d) = Some e"
    using find_by_page_id[OF assms(1,2)] assms(3) by simp
  show ?thesis
  proof (cases "f_slug f")
    case None
    with f show ?thesis by (simp add: page_update_def slug_apply_fields or_else_def)
  next
    case (Some sl)
    with f assms(4) show ?thesis
      by (auto simp: page_update_def slug_apply_fields or_else_def)
  qed
qed

lemma UpdatePageSchema_parse_slug:
  "UpdatePageSchema_parse b = Some dat \<Longrightarrow> f_slug dat = Some sl \<Longrightarrow> sl \<noteq> []"
  by (auto simp: UpdatePageSchema_parse_def opt_ok_def slug_ok_def split: if_splits)

lemma PUT_pages_id_handler_allowed:
  assumes pk: "pk_pages d" and found: "page_findFirst d i (ru_tenantId u) = Some e"
    and parsed: "UpdatePageSchema_parse b = Some dat"
    and allowed: "ru_role u = EDITOR \<longrightarrow> page_authorId e = ru_id u"
  shows "fst (PUT_pages_id_handler u i b now d) =
           (if slug_conflict d e dat then slug_exists
            else Json 200 (apply_fields dat (stamp (f_status dat) e now) e))
       \<and> (slug_conflict d e dat \<longrightarrow> snd (PUT_pages_id_handler u i b now d) = d)"
proof (cases rule: PUT_pages_id_handler_cases[of b u i now d])
  case invalid
  with parsed show ?thesis by simp
next
  case (missing dat)
  with found show ?thesis by simp
next
  case (denied dat e2)
  with found allowed show ?thesis by simp
next
  case (conflict dat2 e2 sl)
  with found parsed have "slug_conflict d e dat" by (simp add: slug_conflict_def)
  with conflict show ?thesis by simp
next
  case (threw dat2 e2)
  with found parsed have eq: "dat2 = dat" "e2 = e" by simp_all
  note e = page_findFirst_SomeD[OF found]
  have free: "\<forall>sl. f_slug dat = Some sl \<and> sl \<noteq> page_slug e
           \<longrightarrow> page_findUnique_siteId_slug (update_clear dat e i d) (page_siteId e) sl = None"
  proof (intro allI impI)
    fix sl assume sl: "f_slug dat = Some sl \<and> sl \<noteq> page_slug e"
    show "page_findUnique_siteId_slug (update_clear dat e i d) (page_siteId e) sl = None"
    proof (rule ccontr)
      assume n: "page_findUnique_siteId_slug (update_clear dat e i d) (page_siteId e) sl \<noteq> None"
      then have "page_findUnique_siteId_slug d (page_siteId e) sl \<noteq> None" by simp
      with sl UpdatePageSchema_parse_slug[OF parsed, of sl]
      have c: "case f_slug dat of None \<Rightarrow> False
                | Some sl \<Rightarrow> sl \<noteq> [] \<and> sl \<noteq> page_slug e
                    \<and> page_findUnique_siteId_slug d (page_siteId e) sl \<noteq> None"
        by simp
      have na: "\<not> (ru_role u = EDITOR \<and> page_authorId e \<noteq> ru_id u)"
        using allowed by blast
      have "PUT_pages_id_handler u i b now d = (slug_exists, d)"
        unfolding PUT_pages_id_handler_def
        by (simp only: parsed found option.case na c if_True if_False)
      with threw(5) show False by (simp add: internal_error_def slug_exists_def)
    qed
  qed
  have "page_update i dat (stamp (f_status dat) e now) (update_clear dat e i d) \<noteq> None"
    by (rule page_update_succeeds[OF _ _ _ free])
       (simp_all add: pk e update_clear_keeps_row)
  with threw(4) eq show ?thesis by simp
next
  case (updated dat2 e2 p d2)
  with found parsed have eq: "dat2 = dat" "e2 = e" by simp_all
  have p: "p = apply_fields dat (stamp (f_status dat) e now) e"
    by (rule PUT_row[OF pk found updated(5)[unfolded eq]])
  have "\<not> slug_conflict d e dat"
    using updated(4) UpdatePageSchema_parse_slug[OF parsed] eq
    by (auto simp: slug_conflict_def split: option.splits)
  with updated(6) p show ?thesis by simp
qed

lemma PATCH_pages_id_publish_handler_allowed:
  assumes pk: "pk_pages d" and found: "page_findFirst d i (ru_tenantId u) = Some e"
    and parsed: "PublishPageSchema_parse sb = Some st"
    and allowed: "ru_role u = EDITOR \<longrightarrow> page_authorId e = ru_id u"
  shows "fst (PATCH_pages_id_publish_handler u i sb now d) =
           Json 200 (apply_fields (status_only st) (stamp (Some st) e now) e)"
proof (cases rule: PATCH_pages_id_publish_handler_cases[of sb u i now d])
  case invalid
  with parsed show ?thesis by simp
next
  case (missing st)
  with found show ?thesis by simp
next
  case (denied st e2)
  with found allowed show ?thesis by simp
next
  case (threw st2 e2)
  with found parsed have eq: "st2 = st" "e2 = e" by simp_all
  note e = page_findFirst_SomeD[OF found]
  have "page_update i (status_only st) (stamp (Some st) e now) d \<noteq> None"
    by (rule page_update_succeeds[OF pk, of e]) (simp_all add: e status_only_def)
  with threw(4) eq show ?thesis by simp
next
  case (updated st2 e2 p d2)
  with found parsed have eq: "st2 = st" "e2 = e" by simp_all
  have "p = apply_fields (status_only st) (stamp (Some st) e now) e"
    by (rule PATCH_row[OF pk found updated(4)[unfolded eq]])
  with updated(5) show ?thesis by simp
qed

lemma PUT_pages_id_handler_allowed_store:
  assumes pk: "pk_pages d" and found: "page_findFirst d i (ru_tenantId u) = Some e"
    and parsed: "UpdatePageSchema_parse b = Some dat"
    and allowed: "ru_role u = EDITOR \<longrightarrow> page_authorId e = ru_id u"
    and free: "\<not> slug_conflict d e dat"
  shows "PUT_pages_id_handler u i b now d =
           (Json 200 (apply_fields dat (stamp (f_status dat) e now) e),
            (update_clear dat e i d)
              \<lparr>pages := map (\<lambda>q. if page_id q = i
                                   then apply_fields dat (stamp (f_status dat) e now) e else q)
                           (pages (update_clear dat e i d))\<rparr>)"
proof -
  let ?P = "apply_fields dat (stamp (f_status dat) e now) e"
  have f: "fst (PUT_pages_id_handler u i b now d) = Json 200 ?P"
    using PUT_pages_id_handler_allowed[OF pk found parsed allowed, of now] free by simp
  note e = page_findFirst_SomeD[OF found]
  show ?thesis
  proof (cases rule: PUT_pages_id_handler_cases[of b u i now d])
    case (updated dat2 e2 p d2)
    with found parsed have eq: "dat2 = dat" "e2 = e" by simp_all
    note upd = updated(5)[unfolded eq]
    from f updated(6) have p: "p = ?P" by simp
    have "d2 = (update_clear dat e i d)
              \<lparr>pages := map (\<lambda>q. if page_id q = i then p else q) (pages (update_clear dat e i d))\<rparr>"
      by (rule page_update_store[OF _ _ _ upd, of e]) (simp_all add: pk e update_clear_keeps_row)
    with updated(6) p show ?thesis by simp
  qed (use f in \<open>simp_all add: internal_error_def\<close>)
qed

lemma PATCH_pages_id_publish_handler_allowed_store:
  assumes pk: "pk_pages d" and found: "page_findFirst d i (ru_tenantId u) = Some e"
    and parsed: "PublishPageSchema_parse sb = Some st"
    and allowed: "ru_role u = EDITOR \<longrightarrow> page_authorId e = ru_id u"
  shows "PATCH_pages_id_publish_handler u i sb now d =
           (Json 200 (apply_fields (status_only st) (stamp (Some st) e now) e),
            d\<lparr>pages := map (\<lambda>q. if page_id q = i
                                 then apply_fields (status_only st) (stamp (Some st) e now) e
                                 else q) (pages d)\<rparr>)"
proof -
  let ?P = "apply_fields (status_only st) (stamp (Some st) e now) e"
  have f: "fst (PATCH_pages_id_publish_handler u i sb now d) = Json 200 ?P"
    by (rule PATCH_pages_id_publish_handler_allowed[OF pk found parsed allowed])
  note e = page_findFirst_SomeD[OF found]
  show ?thesis
  proof (cases rule: PATCH_pages_id_publish_handler_cases[of sb u i now d])
    case (updated st2 e2 p d2)
    with found parsed have eq: "st2 = st" "e2 = e" by simp_all
    note upd = updated(4)[unfolded eq]
    from f updated(5) have p: "p = ?P" by simp
    have "d2 = d\<lparr>pages := map (\<lambda>q. if page_id q = i then p else q) (pages d)\<rparr>"
      by (rule page_update_store[OF pk _ _ upd, of e]) (simp_all add: e)
    with updated(5) p show ?thesis by simp
  qed (use f in \<open>simp_all add: internal_error_def\<close>)
qed

lemma DELETE_pages_id_handler_allowed:
  assumes found: "page_findFirst d i (ru_tenantId u) = Some e"
    and allowed: "ru_role u = EDITOR \<longrightarrow> page_authorId e = ru_id u"
  shows "DELETE_pages_id_handler u i d = (Json 200 e, page_delete i d)"
  using assms by (cases rule: DELETE_pages_id_handler_cases[of d i u]) simp_all

lemma page_handlers_denied:
  assumes found: "page_findFirst d i (ru_tenantId u) = Some e"
    and ed: "ru_role u = EDITOR" "page_authorId e \<noteq> ru_id u"
  shows "UpdatePageSchema_parse b \<noteq> None \<Longrightarrow>
           PUT_pages_id_handler u i b now d = (not_owner ''You can only edit your own pages'', d)"
    and "PublishPageSchema_parse sb \<noteq> None \<Longrightarrow>
           PATCH_pages_id_publish_handler u i sb now d
             = (not_owner ''You can only modify your own pages'', d)"
    and "DELETE_pages_id_handler u i d = (not_owner ''You can only delete your own pages'', d)"
proof -
  show "DELETE_pages_id_handler u i d = (not_owner ''You can only delete your own pages'', d)"
    using assms by (cases rule: DELETE_pages_id_handler_cases[of d i u]) simp_all
  show "PUT_pages_id_handler u i b now d = (not_owner ''You can only edit your own pages'', d)"
    if "UpdatePageSchema_parse b \<noteq> None"
    using assms that by (cases rule: PUT_pages_id_handler_cases[of b u i now d]) simp_all
  show "PATCH_pages_id_publish_handler u i sb now d
             = (not_owner ''You can only modify your own pages'', d)"
    if "PublishPageSchema_parse sb \<noteq> None"
    using assms that by (cases rule: PATCH_pages_id_publish_handler_cases[of sb u i now d]) simp_all
qed

text \<open>
  C4. Take a page that the tenant-scoped lookup finds for the caller, and request bodies
  that pass their schemas. For an \<open>EDITOR\<close> who is not the author, update, publish and
  delete each answer 403 "Insufficient permissions" (not owner) and leave the store as it
  was. For an \<open>EDITOR\<close> who is the author, and for every \<open>ADMIN\<close> and \<open>SUPER_ADMIN\<close>
  whoever the author is, each operation is performed: publish answers 200 and stores the
  page with its new status, delete answers 200 and removes the page, and update answers
  200 and stores the updated page unless the new slug is taken in the site.
\<close>

theorem page_ownership_rule:
  assumes "pk_pages d" and "page_findFirst d i (ru_tenantId u) = Some e"
    and "UpdatePageSchema_parse b = Some dat" and "PublishPageSchema_parse sb = Some st"
  shows "(ru_role u = EDITOR \<and> page_authorId e \<noteq> ru_id u \<longrightarrow>
            PUT_pages_id u i b now d = (not_owner ''You can only edit your own pages'', d)
          \<and> PATCH_pages_id_publish u i sb now d
               = (not_owner ''You can only modify your own pages'', d)
          \<and> DELETE_pages_id u i d = (not_owner ''You can only delete your own pages'', d))
       \<and> (ru_role u = EDITOR \<and> page_authorId e = ru_id u
            \<or> ru_role u = ADMIN \<or> ru_role u = SUPER_ADMIN \<longrightarrow>
            PUT_pages_id u i b now d =
              (if slug_conflict d e dat then (slug_exists, d)
               else (Json 200 (apply_fields dat (stamp (f_status dat) e now) e),
                     (update_clear dat e i d)
                       \<lparr>pages := map (\<lambda>q. if page_id q = i
                                            then apply_fields dat (stamp (f_status dat) e now) e
                                            else q)
                                    (pages (update_clear dat e i d))\<rparr>))
          \<and> PATCH_pages_id_publish u i sb now d
               = (Json 200 (apply_fields (status_only st) (stamp (Some st) e now) e),
                  d\<lparr>pages := map (\<lambda>q. if page_id q = i
                                       then apply_fields (status_only st) (stamp (Some st) e now) e
                                       else q) (pages d)\<rparr>)
          \<and> DELETE_pages_id u i d = (Json 200 e, page_delete i d))"
proof (intro conjI impI)
  assume a: "ru_role u = EDITOR \<and> page_authorId e \<noteq> ru_id u"
  then have g: "ru_role u \<in> set content_roles" by (simp add: content_roles_def)
  from a have ed: "ru_role u = EDITOR" "page_authorId e \<noteq> ru_id u" by simp_all
  show "PUT_pages_id u i b now d = (not_owner ''You can only edit your own pages'', d)"
    using page_handlers_denied(1)[OF assms(2) ed, of b now] assms(3) g
    by (simp add: page_routes_gate)
  show "PATCH_pages_id_publish u i sb now d = (not_owner ''You can only modify your own pages'', d)"
    using page_handlers_denied(2)[OF assms(2) ed, of sb now] assms(4) g
    by (simp add: page_routes_gate)
  show "DELETE_pages_id u i d = (not_owner ''You can only delete your own pages'', d)"
    using page_handlers_denied(3)[OF assms(2) ed] g
    by (simp add: page_routes_gate)
next
  assume a: "ru_role u = EDITOR \<and> page_authorId e = ru_id u
            \<or> ru_role u = ADMIN \<or> ru_role u = SUPER_ADMIN"
  then have g: "ru_role u \<in> set content_roles" by (auto simp: content_roles_def)
  from a have allowed: "ru_role u = EDITOR \<longrightarrow> page_authorId e = ru_id u" by auto
  have eq: "PUT_pages_id u i b now d = PUT_pages_id_handler u i b now d"
    "PATCH_pages_id_publish u i sb now d = PATCH_pages_id_publish_handler u i sb now d"
    using g by (simp_all add: page_routes_gate)
  show "PUT_pages_id u i b now d =
          (if slug_conflict d e dat then (slug_exists, d)
           else (Json 200 (apply_fields dat (stamp (f_status dat) e now) e),
                 (update_clear dat e i d)
                   \<lparr>pages := map (\<lambda>q. if page_id q = i
                                        then apply_fields dat (stamp (f_status dat) e now) e
                                        else q)
                                (pages (update_clear dat e i d))\<rparr>))"
  proof (cases "slug_conflict d e dat")
    case True
    with PUT_pages_id_handler_allowed[OF assms(1,2,3) allowed, of now]
    have "PUT_pages_id_handler u i b now d = (slug_exists, d)"
      by (simp add: prod_eq_iff)
    with True eq show ?thesis by simp
  next
    case False
    with PUT_pages_id_handler_allowed_store[OF assms(1,2,3) allowed False, of now] eq
    show ?thesis by simp
  qed
  show "PATCH_pages_id_publish u i sb now d
          = (Json 200 (apply_fields (status_only st) (stamp (Some st) e now) e),
             d\<lparr>pages := map (\<lambda>q. if page_id q = i
                                  then apply_fields (status_only st) (stamp (Some st) e now) e
                                  else q) (pages d)\<rparr>)"
    using PATCH_pages_id_publish_handler_allowed_store[OF assms(1,2,4) allowed, of now] eq
    by simp
  show "DELETE_pages_id u i d = (Json 200 e, page_delete i d)"
    using DELETE_pages_id_handler_allowed[OF assms(2) allowed] g
    by (simp add: page_routes_gate)
qed

theorem page_ownership_rule_witness:
  "pk_pages db_authors
   \<and> page_findFirst db_authors ''p1'' ''t1'' = Some (page1\<lparr>page_isHomePage := False\<rparr>)
   \<and> page_findFirst db_authors ''p4'' ''t1'' = Some page4
   \<and> UpdatePageSchema_parse retitle_body = Some retitle_fields
   \<and> PublishPageSchema_parse (Some ''PUBLISHED'') = Some PUBLISHED
   \<and> ru_role editor1 = EDITOR \<and> ru_id editor1 = ''u3'' \<and> ru_role admin1 = ADMIN
   \<and> ru_id admin1 = ''u1'' \<and> page_authorId page1 = ''u1'' \<and> page_authorId page4 = ''u3''
   \<and> PUT_pages_id editor1 ''p1'' retitle_body 30 db_authors
        = (not_owner ''You can only edit your own pages'', db_authors)
   \<and> PATCH_pages_id_publish editor1 ''p1'' (Some ''PUBLISHED'') 30 db_authors
        = (not_owner ''You can only modify your own pages'', db_authors)
   \<and> DELETE_pages_id editor1 ''p1'' db_authors
        = (not_owner ''You can only delete your own pages'', db_authors)
   \<and> PUT_pages_id admin1 ''p4'' retitle_body 30 db_authors
        = (Json 200 (page4\<lparr>page_title := ''Start''\<rparr>),
           db0\<lparr>pages := [page1\<lparr>page_isHomePage := False\<rparr>, page2, page4\<lparr>page_title := ''Start''\<rparr>]\<rparr>)
   \<and> PATCH_pages_id_publish admin1 ''p4'' (Some ''PUBLISHED'') 30 db_authors
        = (Json 200 (page4\<lparr>page_status := PUBLISHED, page_publishedAt := Some 30\<rparr>),
           db0\<lparr>pages := [page1\<lparr>page_isHomePage := False\<rparr>, page2,
                          page4\<lparr>page_status := PUBLISHED, page_publishedAt := Some 30\<rparr>]\<rparr>)
   \<and> DELETE_pages_id admin1 ''p4'' db_authors
        = (Json 200 page4, db0\<lparr>pages := [page1\<lparr>page_isHomePage := False\<rparr>, page2]\<rparr>)
   \<and> PUT_pages_id editor1 ''p4'' retitle_body 30 db_authors
        = (Json 200 (page4\<lparr>page_title := ''Start''\<rparr>),
           db0\<lparr>pages := [page1\<lparr>page_isHomePage := False\<rparr>, page2, page4\<lparr>page_title := ''Start''\<rparr>]\<rparr>)
   \<and> PATCH_pages_id_publish editor1 ''p4'' (Some ''PUBLISHED'') 30 db_authors
        = (Json 200 (page4\<lparr>page_status := PUBLISHED, page_publishedAt := Some 30\<rparr>),
           db0\<lparr>pages := [page1\<lparr>page_isHomePage := False\<rparr>, page2,
                          page4\<lparr>page_status := PUBLISHED, page_publishedAt := Some 30\<rparr>]\<rparr>)
   \<and> DELETE_pages_id editor1 ''p4'' db_authors
        = (Json 200 page4, db0\<lparr>pages := [page1\<lparr>page_isHomePage := False\<rparr>, page2]\<rparr>)"
proof -
  have h1: "pk_pages db_authors" by (simp add: pk_pages_def sample_defs)
  have f1: "page_findFirst db_authors ''p1'' ''t1'' = Some (page1\<lparr>page_isHomePage := False\<rparr>)"
    and f4: "page_findFirst db_authors ''p4'' ''t1'' = Some page4"
    by (simp_all add: route_defs sample_defs)
  have t: "ru_tenantId editor1 = ''t1''" "ru_tenantId admin1 = ''t1''"
    by (simp_all add: editor1_def admin1_def)
  have h3: "UpdatePageSchema_parse retitle_body = Some retitle_fields"
    by (simp add: route_defs sample_defs)
  have h4: "PublishPageSchema_parse (Some ''PUBLISHED'') = Some PUBLISHED"
    by (simp add: route_defs)
  have r: "ru_role editor1 = EDITOR" "ru_id editor1 = ''u3''" "ru_role admin1 = ADMIN"
    "ru_id admin1 = ''u1''" "page_authorId page1 = ''u1''" "page_authorId page4 = ''u3''"
    by (simp_all add: sample_defs)
  have v: "\<not> slug_conflict db_authors page4 retitle_fields"
    "apply_fields retitle_fields (stamp (f_status retitle_fields) page4 30) page4
       = page4\<lparr>page_title := ''Start''\<rparr>"
    "apply_fields (status_only PUBLISHED) (stamp (Some PUBLISHED) page4 30) page4
       = page4\<lparr>page_status := PUBLISHED, page_publishedAt := Some 30\<rparr>"
    "page_delete ''p4'' db_authors = db0\<lparr>pages := [page1\<lparr>page_isHomePage := False\<rparr>, page2]\<rparr>"
    "update_clear retitle_fields page4 ''p4'' db_authors = db_authors"
    "pages db_authors = [page1\<lparr>page_isHomePage := False\<rparr>, page2, page4]"
    "db_authors\<lparr>pages := [page1\<lparr>page_isHomePage := False\<rparr>, page2, page4\<lparr>page_title := ''Start''\<rparr>]\<rparr>
       = db0\<lparr>pages := [page1\<lparr>page_isHomePage := False\<rparr>, page2, page4\<lparr>page_title := ''Start''\<rparr>]\<rparr>"
    "db_authors\<lparr>pages := [page1\<lparr>page_isHomePage := False\<rparr>, page2,
                          page4\<lparr>page_status := PUBLISHED, page_publishedAt := Some 30\<rparr>]\<rparr>
       = db0\<lparr>pages := [page1\<lparr>page_isHomePage := False\<rparr>, page2,
                          page4\<lparr>page_status := PUBLISHED, page_publishedAt := Some 30\<rparr>]\<rparr>"
    "page_id page1 = ''p1''" "page_id page2 = ''p2''" "page_id page4 = ''p4''"
    by (simp_all add: slug_conflict_def route_defs sample_defs)
  from page_ownership_rule[OF h1 f1[folded t(1)] h3 h4, where now=30]
       page_ownership_rule[OF h1 f4[folded t(2)] h3 h4, where now=30]
       page_ownership_rule[OF h1 f4[folded t(1)] h3 h4, where now=30]
  show ?thesis using h1 f1 f4 h3 h4 r v by simp
qed

section \<open>Slugs\<close>

lemma page_findUnique_siteId_slug_None:
  "(page_findUnique_siteId_slug d sid sl = None)
     = (\<not> (\<exists>p \<in> set (pages d). page_siteId p = sid \<and> page_slug p = sl))"
  by (auto simp: page_findUnique_siteId_slug_def find_None_iff)

lemma findUnique_page_clear_home [simp]:
  "page_findUnique_siteId_slug (page_clear_home s d) sid sl = None
     \<longleftrightarrow> page_findUnique_siteId_slug d sid sl = None"
  unfolding page_findUnique_siteId_slug_def page_clear_home_def
  by (simp add: find_map_None)

lemma findUnique_create_clear [simp]:
  "page_findUnique_siteId_slug (create_clear dat d) sid sl = None
     \<longleftrightarrow> page_findUnique_siteId_slug d sid sl = None"
  by (simp add: create_clear_def)

lemma ids_create_clear [simp]:
  "map page_id (pages (create_clear dat d)) = map page_id (pages d)"
  by (simp add: create_clear_def page_clear_home_def)

lemma new_page_keys [simp]:
  "page_id (new_page u dat newId now) = newId"
  "page_siteId (new_page u dat newId now) = c_siteId dat"
  "page_slug (new_page u dat newId now) = c_slug dat"
  by (simp_all add: new_page_def)

lemma slug_conflict_iff:
  assumes "UpdatePageSchema_parse c = Some f"
  shows "slug_conflict d e f =
     (\<exists>sl. b_slug c = Some sl \<and> sl \<noteq> page_slug e
        \<and> (\<exists>p \<in> set (pages d). page_siteId p = page_siteId e \<and> page_slug p = sl))"
proof (cases "f_slug f")
  case None
  with UpdatePageSchema_parse_SomeD[OF assms] show ?thesis by (simp add: slug_conflict_def)
next
  case (Some sl)
  from UpdatePageSchema_parse_SomeD[OF assms] Some have b: "b_slug c = Some sl" by simp
  from UpdatePageSchema_parse_slug[OF assms Some] have ne: "sl \<noteq> []" .
  show ?thesis
    by (simp add: slug_conflict_def Some b ne page_findUnique_siteId_slug_None)
qed

text \<open>
  C7. For a caller whose role passes the gate: a create request with a valid body for a
  site of the caller's tenant is answered "Slug already exists" (and writes nothing) when
  a page of that site has the slug. Otherwise, whatever slugs the pages of other sites
  have, it answers 201 and the new page is appended to the page table; a second create with
  the same body is then answered "Slug already exists". An update that is not rejected
  earlier is answered "Slug already exists" exactly when a slug is supplied, differs from
  the page's current slug, and is the slug of a page of the same site; an absent or
  unchanged slug is never a conflict.
\<close>

theorem slug_unique_per_site:
  assumes "pk_pages d" and "ru_role u \<in> set content_roles"
  shows "(CreatePageSchema_parse b = Some dat
          \<and> site_findFirst d (c_siteId dat) (ru_tenantId u) \<noteq> None \<longrightarrow>
            (if \<exists>p \<in> set (pages d). page_siteId p = c_siteId dat \<and> page_slug p = c_slug dat
             then POST_pages u b newId now d = (slug_exists, d)
             else newId \<notin> set (map page_id (pages d)) \<longrightarrow>
                  POST_pages u b newId now d
                    = (Json 201 (new_page u dat newId now),
                       (create_clear dat d)
                         \<lparr>pages := pages (create_clear dat d) @ [new_page u dat newId now]\<rparr>)
                  \<and> POST_pages u b newId2 now2
                       ((create_clear dat d)
                         \<lparr>pages := pages (create_clear dat d) @ [new_page u dat newId now]\<rparr>)
                    = (slug_exists,
                       (create_clear dat d)
                         \<lparr>pages := pages (create_clear dat d) @ [new_page u dat newId now]\<rparr>)))
       \<and> (UpdatePageSchema_parse c = Some f \<and> page_findFirst d i (ru_tenantId u) = Some e
          \<and> (ru_role u = EDITOR \<longrightarrow> page_authorId e = ru_id u) \<longrightarrow>
            (fst (PUT_pages_id u i c now d) = slug_exists)
              = (\<exists>sl. b_slug c = Some sl \<and> sl \<noteq> page_slug e
                   \<and> (\<exists>p \<in> set (pages d). page_siteId p = page_siteId e \<and> page_slug p = sl)))"
proof (intro conjI impI)
  assume a: "CreatePageSchema_parse b = Some dat
          \<and> site_findFirst d (c_siteId dat) (ru_tenantId u) \<noteq> None"
  have eq: "POST_pages u b newId now d = POST_pages_handler u b newId now d"
    using assms(2) by (simp add: page_routes_gate)
  let ?np = "new_page u dat newId now"
  let ?d2 = "(create_clear dat d)\<lparr>pages := pages (create_clear dat d) @ [?np]\<rparr>"
  have again: "POST_pages u b newId2 now2 ?d2 = (slug_exists, ?d2)"
  proof -
    have g: "POST_pages u b newId2 now2 ?d2 = POST_pages_handler u b newId2 now2 ?d2"
      using assms(2) by (simp add: page_routes_gate)
    have st: "site_findFirst ?d2 (c_siteId dat) (ru_tenantId u) \<noteq> None"
      using a by (simp add: site_findFirst_def create_clear_def page_clear_home_def)
    have tk: "page_findUnique_siteId_slug ?d2 (c_siteId dat) (c_slug dat) \<noteq> None"
      by (simp add: page_findUnique_siteId_slug_None)
    show ?thesis
    proof (cases rule: POST_pages_handler_cases[of b u newId2 now2 ?d2])
      case invalid
      with a show ?thesis by simp
    next
      case (nosite dat2)
      with a st show ?thesis by simp
    next
      case (conflict dat2 s)
      with g show ?thesis by simp
    next
      case (threw dat2 s)
      with a tk show ?thesis by simp
    next
      case (created dat2 s d3)
      with a tk show ?thesis by simp
    qed
  qed
  show "if \<exists>p \<in> set (pages d). page_siteId p = c_siteId dat \<and> page_slug p = c_slug dat
        then POST_pages u b newId now d = (slug_exists, d)
        else newId \<notin> set (map page_id (pages d)) \<longrightarrow>
             POST_pages u b newId now d = (Json 201 ?np, ?d2)
             \<and> POST_pages u b newId2 now2 ?d2 = (slug_exists, ?d2)"
  proof (cases rule: POST_pages_handler_cases[of b u newId now d])
    case invalid
    with a show ?thesis by simp
  next
    case (nosite dat2)
    with a show ?thesis by simp
  next
    case (conflict dat2 s)
    with a eq show ?thesis by (simp add: page_findUnique_siteId_slug_None)
  next
    case (threw dat2 s)
    with a have dat2: "dat2 = dat" by simp
    have "newId \<in> set (map page_id (pages d))"
      using threw(3,4) unfolding dat2 by (simp add: page_create_def split: if_splits)
    moreover have "\<not> (\<exists>p \<in> set (pages d). page_siteId p = c_siteId dat \<and> page_slug p = c_slug dat)"
      using threw(3) unfolding dat2 by (simp add: page_findUnique_siteId_slug_None)
    ultimately show ?thesis by (simp only: if_False) simp
  next
    case (created dat2 s d3)
    with a have dat2: "dat2 = dat" by simp
    have free: "\<not> (\<exists>p \<in> set (pages d). page_siteId p = c_siteId dat \<and> page_slug p = c_slug dat)"
      using created(3) unfolding dat2 by (simp add: page_findUnique_siteId_slug_None)
    have "d3 = ?d2"
      using created(4) unfolding dat2 by (simp add: page_create_def split: if_splits)
    with created(5) eq dat2 have "POST_pages u b newId now d = (Json 201 ?np, ?d2)" by simp
    with free again show ?thesis by (simp only: if_False) simp
  qed
next
  assume a: "UpdatePageSchema_parse c = Some f \<and> page_findFirst d i (ru_tenantId u) = Some e
          \<and> (ru_role u = EDITOR \<longrightarrow> page_authorId e = ru_id u)"
  have eq: "PUT_pages_id u i c now d = PUT_pages_id_handler u i c now d"
    using assms(2) by (simp add: page_routes_gate)
  from a have p: "UpdatePageSchema_parse c = Some f"
    and fd: "page_findFirst d i (ru_tenantId u) = Some e"
    and al: "ru_role u = EDITOR \<longrightarrow> page_authorId e = ru_id u" by simp_all
  have "(fst (PUT_pages_id u i c now d) = slug_exists) = slug_conflict d e f"
    using PUT_pages_id_handler_allowed[OF assms(1) fd p al, of now] eq
    by (simp add: slug_exists_def)
  then show "(fst (PUT_pages_id u i c now d) = slug_exists)
              = (\<exists>sl. b_slug c = Some sl \<and> sl \<noteq> page_slug e
                   \<and> (\<exists>p \<in> set (pages d). page_siteId p = page_siteId e \<and> page_slug p = sl))"
    by (simp add: slug_conflict_iff[OF p])
qed

theorem slug_unique_per_site_witness:
  "pk_pages db1 \<and> ru_role admin1 \<in> set content_roles \<and> ru_role admin2 \<in> set content_roles
   \<and> CreatePageSchema_parse about_home_body \<noteq> None
   \<and> site_findFirst db1 ''s1'' (ru_tenantId admin1) \<noteq> None
   \<and> page_slug page3 = ''about'' \<and> page_siteId page3 = ''s1''
   \<and> POST_pages admin1 about_home_body ''p4'' 40 db1 = (slug_exists, db1)
   \<and> CreatePageSchema_parse (about_home_body\<lparr>b_siteId := Some ''s2''\<rparr>) \<noteq> None
   \<and> site_findFirst db1 ''s2'' (ru_tenantId admin2) \<noteq> None
   \<and> ''p4'' \<notin> set (map page_id (pages db1))
   \<and> POST_pages admin2 (about_home_body\<lparr>b_siteId := Some ''s2''\<rparr>) ''p4'' 40 db1
        = (Json 201 (page3\<lparr>page_id := ''p4'', page_siteId := ''s2'', page_authorId := ''u2''\<rparr>),
           db0\<lparr>pages := [page1\<lparr>page_isHomePage := False\<rparr>, page2\<lparr>page_isHomePage := False\<rparr>,
                          page3,
                          page3\<lparr>page_id := ''p4'', page_siteId := ''s2'', page_authorId := ''u2''\<rparr>]\<rparr>)
   \<and> POST_pages admin2 (about_home_body\<lparr>b_siteId := Some ''s2''\<rparr>) ''p5'' 41
        (db0\<lparr>pages := [page1\<lparr>page_isHomePage := False\<rparr>, page2\<lparr>page_isHomePage := False\<rparr>,
                        page3,
                        page3\<lparr>page_id := ''p4'', page_siteId := ''s2'', page_authorId := ''u2''\<rparr>]\<rparr>)
        = (slug_exists,
           db0\<lparr>pages := [page1\<lparr>page_isHomePage := False\<rparr>, page2\<lparr>page_isHomePage := False\<rparr>,
                          page3,
                          page3\<lparr>page_id := ''p4'', page_siteId := ''s2'', page_authorId := ''u2''\<rparr>]\<rparr>)
   \<and> UpdatePageSchema_parse (empty_body\<lparr>b_slug := Some ''about''\<rparr>) \<noteq> None
   \<and> page_findFirst db1 ''p3'' (ru_tenantId admin1) = Some page3
   \<and> fst (PUT_pages_id admin1 ''p3'' (empty_body\<lparr>b_slug := Some ''about''\<rparr>) 40 db1) \<noteq> slug_exists
   \<and> UpdatePageSchema_parse (empty_body\<lparr>b_slug := Some ''home''\<rparr>) \<noteq> None
   \<and> fst (PUT_pages_id admin1 ''p3'' (empty_body\<lparr>b_slug := Some ''home''\<rparr>) 40 db1) = slug_exists"
proof -
  have h1: "pk_pages db1" by (simp add: pk_pages_def sample_defs)
  have h2: "ru_role admin1 \<in> set content_roles" "ru_role admin2 \<in> set content_roles"
    by (simp_all add: content_roles_def sample_defs)
  let ?dat1 = "\<lparr>c_siteId = ''s1'', c_title = ''About'', c_slug = ''about'', c_excerpt = None,
      c_status = None, c_isHomePage = Some True, c_seoTitle = None, c_seoDescription = None\<rparr>"
  let ?dat2 = "?dat1\<lparr>c_siteId := ''s2''\<rparr>"
  let ?f = "home_flag_fields\<lparr>f_isHomePage := None\<rparr>"
  have p1: "CreatePageSchema_parse about_home_body = Some ?dat1"
    and p2: "CreatePageSchema_parse (about_home_body\<lparr>b_siteId := Some ''s2''\<rparr>) = Some ?dat2"
    and p3: "UpdatePageSchema_parse (empty_body\<lparr>b_slug := Some ''about''\<rparr>)
               = Some (?f\<lparr>f_slug := Some ''about''\<rparr>)"
    and p4: "UpdatePageSchema_parse (empty_body\<lparr>b_slug := Some ''home''\<rparr>)
               = Some (?f\<lparr>f_slug := Some ''home''\<rparr>)"
    by (simp_all add: route_defs sample_defs)
  have s: "site_findFirst db1 ''s1'' (ru_tenantId admin1) \<noteq> None"
    "site_findFirst db1 ''s2'' (ru_tenantId admin2) \<noteq> None"
    "page_findFirst db1 ''p3'' (ru_tenantId admin1) = Some page3"
    "''p4'' \<notin> set (map page_id (pages db1))"
    "page_slug page3 = ''about''" "page_siteId page3 = ''s1''"
    by (simp_all add: route_defs sample_defs)
  have n: "new_page admin2 ?dat2 ''p4'' 40
             = page3\<lparr>page_id := ''p4'', page_siteId := ''s2'', page_authorId := ''u2''\<rparr>"
    by (simp add: route_defs sample_defs)
  have v: "pages db1 = [page1\<lparr>page_isHomePage := False\<rparr>, page2, page3]"
    "page_slug page1 = ''home''" "page_siteId page1 = ''s1''"
    "page_slug page2 = ''home''" "page_siteId page2 = ''s2''"
    "ru_role admin1 \<noteq> EDITOR"
    "(create_clear ?dat2 db1)\<lparr>pages := pages (create_clear ?dat2 db1)
         @ [page3\<lparr>page_id := ''p4'', page_siteId := ''s2'', page_authorId := ''u2''\<rparr>]\<rparr>
       = db0\<lparr>pages := [page1\<lparr>page_isHomePage := False\<rparr>, page2\<lparr>page_isHomePage := False\<rparr>,
                      page3,
                      page3\<lparr>page_id := ''p4'', page_siteId := ''s2'', page_authorId := ''u2''\<rparr>]\<rparr>"
    by (simp_all add: create_clear_def page_clear_home_def sample_defs)
  from slug_unique_per_site[OF h1 h2(1), where b=about_home_body and dat="?dat1" and newId="''p4''"
         and now=40 and c="empty_body\<lparr>b_slug := Some ''about''\<rparr>" and i="''p3''" and e=page3
         and f="?f\<lparr>f_slug := Some ''about''\<rparr>"]
       slug_unique_per_site[OF h1 h2(2), where b="about_home_body\<lparr>b_siteId := Some ''s2''\<rparr>"
         and dat="?dat2" and newId="''p4''" and now=40 and ?newId2.0="''p5''" and ?now2.0=41]
       slug_unique_per_site[OF h1 h2(1), where now=40
         and c="empty_body\<lparr>b_slug := Some ''home''\<rparr>" and i="''p3''" and e=page3
         and f="?f\<lparr>f_slug := Some ''home''\<rparr>"]
  show ?thesis using h1 h2 p1 p2 p3 p4 s n v by (simp add: empty_body_def)
qed

section \<open>Media\<close>

lemma media_findFirst_SomeD:
  "media_findFirst d i t = Some m \<Longrightarrow>
     m \<in> set (medias d) \<and> media_id m = i \<and> site_tenant d (media_siteId m) = Some t"
  unfolding media_findFirst_def by (auto simp: find_Some_iff)

lemma find_by_media_id:
  assumes "pk_medias d" "m \<in> set (medias d)"
  shows "find (\<lambda>q. media_id q = media_id m) (medias d) = Some m"
proof (cases "find (\<lambda>q. media_id q = media_id m) (medias d)")
  case None
  with assms(2) show ?thesis by (auto simp: find_None_iff)
next
  case (Some r)
  then have r: "r \<in> set (medias d)" "media_id r = media_id m"
    by (auto simp: find_Some_iff)
  have "inj_on media_id (set (medias d))"
    using assms(1) by (simp add: pk_medias_def distinct_map)
  with r assms(2) have "r = m" by (auto dest: inj_onD)
  with Some show ?thesis by simp
qed

lemma media_routes_gate:
  "PUT_media_id u i dat d =
     (if ru_role u \<in> set content_roles then PUT_media_id_handler u i dat d
      else (insufficient_role content_roles u, d))"
  "DELETE_media_id u i d =
     (if ru_role u \<in> set content_roles then DELETE_media_id_handler u i d
      else (insufficient_role content_roles u, d))"
  by (simp_all add: PUT_media_id_def DELETE_media_id_def requireRole_def)

lemma filename_apply_media_fields:
  "media_filename (apply_media_fields f m) = or_else (mf_filename f) (media_filename m)"
  by (simp add: apply_media_fields_def)

lemma media_update_found:
  assumes "pk_medias d" "m \<in> set (medias d)" "media_id m = i"
  shows "media_update i f d =
           (if filename_rejected d m f then None
            else Some (apply_media_fields f m,
                   d\<lparr>medias := map (\<lambda>q. if media_id q = i then apply_media_fields f m else q)
                                  (medias d)\<rparr>))"
proof -
  have fd: "find (\<lambda>q. media_id q = i) (medias d) = Some m"
    using find_by_media_id[OF assms(1,2)] assms(3) by simp
  have inj: "inj_on media_id (set (medias d))"
    using assms(1) by (simp add: pk_medias_def distinct_map)
  have rows: "map (\<lambda>q. if media_id q = i then apply_media_fields f q else q) (medias d)
            = map (\<lambda>q. if media_id q = i then apply_media_fields f m else q) (medias d)"
  proof (rule map_cong[OF refl])
    fix q assume q: "q \<in> set (medias d)"
    show "(if media_id q = i then apply_media_fields f q else q)
        = (if media_id q = i then apply_media_fields f m else q)"
    proof (cases "media_id q = i")
      case True
      with inj q assms(2,3) have "q = m" by (auto dest: inj_onD)
      then show ?thesis by simp
    next
      case False
      then show ?thesis by simp
    qed
  qed
  have rej: "(media_filename (apply_media_fields f m) \<noteq> media_filename m
             \<and> media_findFirst_filename d (media_siteId m)
                  (media_filename (apply_media_fields f m)) \<noteq> None)
           = filename_rejected d m f"
    by (cases "mf_filename f")
       (simp_all add: filename_rejected_def filename_apply_media_fields or_else_def)
  show ?thesis
    unfolding media_update_def
    by (simp only: fd option.case rej rows)
qed

lemma PUT_media_id_handler_found:
  assumes "pk_medias d" and "media_findFirst d i t = Some m" and "ru_tenantId u = t"
  shows "PUT_media_id_handler u i dat d =
           (if filename_conflict d m dat then (filename_exists, d)
            else if filename_rejected d m dat
            then (internal_error ''Failed to update media'', d)
            else (Json 200 (apply_media_fields dat m),
                  d\<lparr>medias := map (\<lambda>q. if media_id q = i then apply_media_fields dat m else q)
                                 (medias d)\<rparr>))"
proof -
  note m = media_findFirst_SomeD[OF assms(2)]
  have upd: "media_update i dat d =
           (if filename_rejected d m dat then None
            else Some (apply_media_fields dat m,
                   d\<lparr>medias := map (\<lambda>q. if media_id q = i then apply_media_fields dat m else q)
                                  (medias d)\<rparr>))"
    by (rule media_update_found[OF assms(1)]) (simp_all add: m)
  show ?thesis
  proof (cases "filename_conflict d m dat")
    case True
    then have c: "case mf_filename dat of None \<Rightarrow> False
              | Some fn \<Rightarrow> fn \<noteq> [] \<and> fn \<noteq> media_filename m
                  \<and> media_findFirst_filename d (media_siteId m) fn \<noteq> None"
      by (simp add: filename_conflict_def)
    have "PUT_media_id_handler u i dat d = (filename_exists, d)"
      unfolding PUT_media_id_handler_def
      by (simp only: assms(2,3) option.case c if_True)
    with True show ?thesis by simp
  next
    case False
    then have c: "\<not> (case mf_filename dat of None \<Rightarrow> False
              | Some fn \<Rightarrow> fn \<noteq> [] \<and> fn \<noteq> media_filename m
                  \<and> media_findFirst_filename d (media_siteId m) fn \<noteq> None)"
      by (simp add: filename_conflict_def)
    have "PUT_media_id_handler u i dat d =
        (case media_update i dat d of
           None \<Rightarrow> (internal_error ''Failed to update media'', d)
         | Some (m', d') \<Rightarrow> (Json 200 m', d'))"
      unfolding PUT_media_id_handler_def
      by (simp only: assms(2,3) option.case c if_False)
    with False upd show ?thesis by simp
  qed
qed

lemma filename_rejected_not_conflict:
  "filename_rejected d m dat \<Longrightarrow> \<not> filename_conflict d m dat \<Longrightarrow> mf_filename dat = Some []"
  by (cases "mf_filename dat") (auto simp: filename_rejected_def filename_conflict_def)

lemma DELETE_media_id_handler_found:
  "media_findFirst d i (ru_tenantId u) = Some m \<Longrightarrow>
     DELETE_media_id_handler u i d = (Json 200 m, media_delete i d)"
  by (simp add: DELETE_media_id_handler_def)

text \<open>
  C10. Let a media row be found by the tenant-scoped lookup for a caller whose role is
  \<open>EDITOR\<close>, \<open>ADMIN\<close> or \<open>SUPER_ADMIN\<close>. Delete answers 200 and removes the row. Update
  answers "Filename already exists" when a new, non-empty filename is taken in the site,
  and otherwise answers 200 and stores the updated row; the one exception is the empty
  filename, for which the handler skips its check, so that the store's unique key refuses
  it (500) when a row of the site has the empty filename. The caller's user id plays no
  part: any other identity of the same tenant and role gets the same answer and the same
  store, so no author or owner check is applied to media.
\<close>

theorem media_mutation_no_owner_check:
  assumes "pk_medias d" and "media_findFirst d i (ru_tenantId u) = Some m"
    and "ru_role u = EDITOR \<or> ru_role u = ADMIN \<or> ru_role u = SUPER_ADMIN"
  shows "DELETE_media_id u i d = (Json 200 m, media_delete i d)
       \<and> PUT_media_id u i dat d =
           (if filename_conflict d m dat then (filename_exists, d)
            else if filename_rejected d m dat
            then (internal_error ''Failed to update media'', d)
            else (Json 200 (apply_media_fields dat m),
                  d\<lparr>medias := map (\<lambda>q. if media_id q = i then apply_media_fields dat m else q)
                                 (medias d)\<rparr>))
       \<and> (filename_rejected d m dat \<and> \<not> filename_conflict d m dat
            \<longrightarrow> mf_filename dat = Some [])
       \<and> PUT_media_id (u\<lparr>ru_id := x, ru_email := y\<rparr>) i dat d = PUT_media_id u i dat d
       \<and> DELETE_media_id (u\<lparr>ru_id := x, ru_email := y\<rparr>) i d = DELETE_media_id u i d"
proof -
  have g: "ru_role u \<in> set content_roles"
    using assms(3) by (auto simp: content_roles_def)
  let ?v = "u\<lparr>ru_id := x, ru_email := y\<rparr>"
  have gv: "ru_role ?v \<in> set content_roles" using g by simp
  have fv: "media_findFirst d i (ru_tenantId ?v) = Some m" using assms(2) by simp
  have 1: "DELETE_media_id u i d = (Json 200 m, media_delete i d)"
    using g DELETE_media_id_handler_found[OF assms(2)] by (simp add: media_routes_gate)
  have 2: "DELETE_media_id ?v i d = (Json 200 m, media_delete i d)"
    using gv DELETE_media_id_handler_found[OF fv] by (simp only: media_routes_gate if_True)
  have 3: "PUT_media_id u i dat d = PUT_media_id_handler u i dat d"
    using g by (simp add: media_routes_gate)
  have 4: "PUT_media_id ?v i dat d = PUT_media_id_handler ?v i dat d"
    using gv by (simp only: media_routes_gate if_True)
  have 5: "PUT_media_id_handler ?v i dat d = PUT_media_id_handler u i dat d"
    using PUT_media_id_handler_found[OF assms(1,2), of u dat]
      PUT_media_id_handler_found[OF assms(1,2), of ?v dat] by simp
  have 6: "filename_rejected d m dat \<and> \<not> filename_conflict d m dat \<longrightarrow> mf_filename dat = Some []"
    using filename_rejected_not_conflict[of d m dat] by blast
  from 1 2 3 4 5 6 PUT_media_id_handler_found[OF assms(1,2), of u dat] show ?thesis
    by simp
qed

theorem media_mutation_no_owner_check_witness:
  "pk_medias db0 \<and> media_findFirst db0 ''m1'' (ru_tenantId editor1) = Some media1
   \<and> ru_role editor1 = EDITOR
   \<and> DELETE_media_id editor1 ''m1'' db0 = (Json 200 media1, db0\<lparr>medias := [media2]\<rparr>)
   \<and> PUT_media_id editor1 ''m1'' \<lparr>mf_filename = Some ''brand.png'', mf_alt = Some ''Logo''\<rparr> db0
        = (Json 200 (media1\<lparr>media_filename := ''brand.png'', media_alt := Some ''Logo''\<rparr>),
           db0\<lparr>medias := [media1\<lparr>media_filename := ''brand.png'', media_alt := Some ''Logo''\<rparr>,
                           media2]\<rparr>)
   \<and> PUT_media_id (editor1\<lparr>ru_id := ''u9'', ru_email := ''n@acme.com''\<rparr>) ''m1''
        \<lparr>mf_filename = Some ''brand.png'', mf_alt = Some ''Logo''\<rparr> db0
        = PUT_media_id editor1 ''m1'' \<lparr>mf_filename = Some ''brand.png'', mf_alt = Some ''Logo''\<rparr> db0
   \<and> DELETE_media_id (editor1\<lparr>ru_id := ''u9'', ru_email := ''n@acme.com''\<rparr>) ''m1'' db0
        = DELETE_media_id editor1 ''m1'' db0
   \<and> filename_rejected (db0\<lparr>medias := [media1, media2\<lparr>media_siteId := ''s1'', media_filename := []\<rparr>]\<rparr>)
        media1 \<lparr>mf_filename = Some [], mf_alt = None\<rparr>
   \<and> \<not> filename_conflict (db0\<lparr>medias := [media1, media2\<lparr>media_siteId := ''s1'', media_filename := []\<rparr>]\<rparr>)
        media1 \<lparr>mf_filename = Some [], mf_alt = None\<rparr>
   \<and> PUT_media_id editor1 ''m1'' \<lparr>mf_filename = Some [], mf_alt = None\<rparr>
        (db0\<lparr>medias := [media1, media2\<lparr>media_siteId := ''s1'', media_filename := []\<rparr>]\<rparr>)
        = (internal_error ''Failed to update media'',
           db0\<lparr>medias := [media1, media2\<lparr>media_siteId := ''s1'', media_filename := []\<rparr>]\<rparr>)"
proof -
  let ?dat = "\<lparr>mf_filename = Some ''brand.png'', mf_alt = Some ''Logo''\<rparr>"
  let ?e = "\<lparr>mf_filename = Some [], mf_alt = None\<rparr>"
  let ?d = "db0\<lparr>medias := [media1, media2\<lparr>media_siteId := ''s1'', media_filename := []\<rparr>]\<rparr>"
  have h1: "pk_medias db0" "pk_medias ?d" by (simp_all add: pk_medias_def sample_defs)
  have h2: "media_findFirst db0 ''m1'' (ru_tenantId editor1) = Some media1"
    "media_findFirst ?d ''m1'' (ru_tenantId editor1) = Some media1"
    by (simp_all add: media_findFirst_def site_tenant_def sample_defs)
  have h3: "ru_role editor1 = EDITOR" by (simp add: editor1_def)
  have v: "media_delete ''m1'' db0 = db0\<lparr>medias := [media2]\<rparr>"
    "\<not> filename_conflict db0 media1 ?dat" "\<not> filename_rejected db0 media1 ?dat"
    "apply_media_fields ?dat media1
       = media1\<lparr>media_filename := ''brand.png'', media_alt := Some ''Logo''\<rparr>"
    "medias db0 = [media1, media2]" "media_id media1 = ''m1''" "media_id media2 = ''m2''"
    "filename_rejected ?d media1 ?e" "\<not> filename_conflict ?d media1 ?e"
    by (simp_all add: media_delete_def filename_conflict_def filename_rejected_def
          media_findFirst_filename_def apply_media_fields_def or_else_def keep_or_def sample_defs)
  from media_mutation_no_owner_check[OF h1(1) h2(1) disjI1[OF h3],
         where dat="?dat" and x="''u9''" and y="''n@acme.com''"]
       media_mutation_no_owner_check[OF h1(2) h2(2) disjI1[OF h3], where dat="?e"]
  show ?thesis using h1 h2 h3 v by simp
qed

section \<open>Lookups scoped by tenant\<close>

lemma page_findFirst_other_tenant:
  assumes "pk_pages d" "p \<in> set (pages d)" "site_tenant d (page_siteId p) = Some t2" "t2 \<noteq> t"
  shows "page_findFirst d (page_id p) t = None"
proof -
  have "\<not> (page_id q = page_id p \<and> site_tenant d (page_siteId q) = Some t)"
    if q: "q \<in> set (pages d)" for q
  proof
    assume a: "page_id q = page_id p \<and> site_tenant d (page_siteId q) = Some t"
    then have "q = p" using pk_pages_same[OF assms(1) q assms(2)] by simp
    with a assms(3,4) show False by simp
  qed
  then show ?thesis by (simp add: page_findFirst_def find_None_iff)
qed

lemma page_findFirst_absent:
  "j \<notin> set (map page_id (pages d)) \<Longrightarrow> page_findFirst d j t = None"
  by (auto simp: page_findFirst_def find_None_iff)

lemma media_findFirst_other_tenant:
  assumes "pk_medias d" "m \<in> set (medias d)" "site_tenant d (media_siteId m) = Some t2" "t2 \<noteq> t"
  shows "media_findFirst d (media_id m) t = None"
proof -
  have inj: "inj_on media_id (set (medias d))"
    using assms(1) by (simp add: pk_medias_def distinct_map)
  have "\<not> (media_id q = media_id m \<and> site_tenant d (media_siteId q) = Some t)"
    if q: "q \<in> set (medias d)" for q
  proof
    assume a: "media_id q = media_id m \<and> site_tenant d (media_siteId q) = Some t"
    then have "q = m" using inj q assms(2) by (auto dest: inj_onD)
    with a assms(3,4) show False by simp
  qed
  then show ?thesis by (simp add: media_findFirst_def find_None_iff)
qed

lemma media_findFirst_absent:
  "j \<notin> set (map media_id (medias d)) \<Longrightarrow> media_findFirst d j t = None"
  by (auto simp: media_findFirst_def find_None_iff)

lemma site_findFirst_other_tenant:
  assumes "pk_sites d" "s \<in> set (sites d)" "site_tenantId s \<noteq> t"
  shows "site_findFirst d (site_id s) t = None"
proof -
  have inj: "inj_on site_id (set (sites d))"
    using assms(1) by (simp add: pk_sites_def distinct_map)
  have "\<not> (site_id q = site_id s \<and> site_tenantId q = t)" if q: "q \<in> set (sites d)" for q
  proof
    assume a: "site_id q = site_id s \<and> site_tenantId q = t"
    then have "q = s" using inj q assms(2) by (auto dest: inj_onD)
    with a assms(3) show False by simp
  qed
  then show ?thesis by (simp add: site_findFirst_def find_None_iff)
qed

lemma site_findFirst_absent:
  "j \<notin> set (map site_id (sites d)) \<Longrightarrow> site_findFirst d j t = None"
  by (auto simp: site_findFirst_def find_None_iff)

lemma site_routes_gate:
  "PUT_sites_id u i sb d =
     (if ru_role u \<in> set admin_roles then PUT_sites_id_handler u i sb d
      else (insufficient_role admin_roles u, d))"
  "PATCH_sites_id_publish u i pb d =
     (if ru_role u \<in> set admin_roles then PATCH_sites_id_publish_handler u i pb d
      else (insufficient_role admin_roles u, d))"
  "DELETE_sites_id u i d =
     (if ru_role u \<in> set admin_roles then DELETE_sites_id_handler u i d
      else (insufficient_role admin_roles u, d))"
  by (simp_all add: PUT_sites_id_def PATCH_sites_id_publish_def DELETE_sites_id_def
        requireRole_def)

lemma page_routes_not_found:
  assumes "page_findFirst d i (ru_tenantId u) = None"
  shows "GET_pages_id u i d = page_not_found"
    and "PUT_pages_id u i b now d =
           (if ru_role u \<notin> set content_roles then insufficient_role content_roles u
            else if UpdatePageSchema_parse b = None then validation_error
            else page_not_found, d)"
    and "PATCH_pages_id_publish u i sb now d =
           (if ru_role u \<notin> set content_roles then insufficient_role content_roles u
            else if PublishPageSchema_parse sb = None then validation_error
            else page_not_found, d)"
    and "DELETE_pages_id u i d =
           (if ru_role u \<notin> set content_roles then insufficient_role content_roles u
            else page_not_found, d)"
  using assms
  by (auto simp: GET_pages_id_def page_routes_gate PUT_pages_id_handler_def
        PATCH_pages_id_publish_handler_def DELETE_pages_id_handler_def)

lemma media_routes_not_found:
  assumes "media_findFirst d i (ru_tenantId u) = None"
  shows "GET_media_id u i d = media_not_found"
    and "PUT_media_id u i dat d =
           (if ru_role u \<notin> set content_roles then insufficient_role content_roles u
            else media_not_found, d)"
    and "DELETE_media_id u i d =
           (if ru_role u \<notin> set content_roles then insufficient_role content_roles u
            else media_not_found, d)"
  using assms
  by (auto simp: GET_media_id_def media_routes_gate PUT_media_id_handler_def
        DELETE_media_id_handler_def)

lemma site_routes_not_found:
  assumes "site_findFirst d i (ru_tenantId u) = None"
  shows "GET_sites_id eng u i d = site_not_found"
    and "PUT_sites_id u i sb d =
           (if ru_role u \<notin> set admin_roles then insufficient_role admin_roles u
            else if UpdateSiteSchema_parse sb = None then validation_error
            else site_not_found, d)"
    and "PATCH_sites_id_publish u i pb d =
           (if ru_role u \<notin> set admin_roles then insufficient_role admin_roles u
            else if pb = None then validation_error
            else site_not_found, d)"
    and "DELETE_sites_id u i d =
           (if ru_role u \<notin> set admin_roles then insufficient_role admin_roles u
            else site_not_found, d)"
  using assms
  by (auto simp: GET_sites_id_def site_routes_gate PUT_sites_id_handler_def
        PATCH_sites_id_publish_handler_def DELETE_sites_id_handler_def)

lemma site_tenant_page_site:
  "site_tenant d (page_siteId p) = map_option site_tenantId (page_site d p)"
  by (simp add: site_tenant_def page_site_def)

lemma site_tenant_media_site:
  "site_tenant d (media_siteId m) = map_option site_tenantId (media_site d m)"
  by (simp add: site_tenant_def media_site_def)

lemma set_desc: "set (desc k xs) = set xs"
  by (simp add: desc_def)

lemma GET_pages_id_in_tenant:
  assumes "GET_pages_id u i d = Json st v"
  shows "site_tenant d (page_siteId (pv_page v)) = Some (ru_tenantId u)
       \<and> map_option site_tenantId (pv_site v) = Some (ru_tenantId u)"
proof (cases "page_findFirst d i (ru_tenantId u)")
  case None
  with assms show ?thesis by (simp add: GET_pages_id_def page_not_found_def)
next
  case (Some p)
  from page_findFirst_SomeD[OF Some]
  have t: "site_tenant d (page_siteId p) = Some (ru_tenantId u)" by simp
  from assms Some have v: "v = \<lparr>pv_page = p, pv_site = page_site d p\<rparr>"
    by (simp add: GET_pages_id_def)
  from t show ?thesis by (simp add: v site_tenant_page_site)
qed

lemma GET_pages_in_tenant:
  assumes "GET_pages eng u qsite qstatus qsearch d = Json st vs" and "v \<in> set vs"
  shows "site_tenant d (page_siteId (pv_page v)) = Some (ru_tenantId u)
       \<and> map_option site_tenantId (pv_site v) = Some (ru_tenantId u)"
proof -
  from assms(1)
  have vs: "vs = map (\<lambda>p. \<lparr>pv_page = p, pv_site = page_site d p\<rparr>)
                  (desc (page_updatedAt eng)
                     (filter (pages_where eng d (ru_tenantId u) qsite qstatus qsearch) (pages d)))"
    by (simp add: GET_pages_def internal_error_def split: if_splits)
  from assms(2) obtain p
    where p: "pages_where eng d (ru_tenantId u) qsite qstatus qsearch p"
      and v: "v = \<lparr>pv_page = p, pv_site = page_site d p\<rparr>"
    unfolding vs by (auto simp: set_desc)
  from p have t: "site_tenant d (page_siteId p) = Some (ru_tenantId u)"
    by (simp add: pages_where_def)
  from t show ?thesis by (simp add: v site_tenant_page_site)
qed

lemma GET_media_id_in_tenant:
  assumes "GET_media_id u i d = Json st v"
  shows "site_tenant d (media_siteId (mv_media v)) = Some (ru_tenantId u)
       \<and> map_option site_tenantId (mv_site v) = Some (ru_tenantId u)"
proof (cases "media_findFirst d i (ru_tenantId u)")
  case None
  with assms show ?thesis by (simp add: GET_media_id_def media_not_found_def)
next
  case (Some m)
  from media_findFirst_SomeD[OF Some]
  have t: "site_tenant d (media_siteId m) = Some (ru_tenantId u)" by simp
  from assms Some have v: "v = \<lparr>mv_media = m, mv_site = media_site d m\<rparr>"
    by (simp add: GET_media_id_def)
  from t show ?thesis by (simp add: v site_tenant_media_site)
qed

lemma GET_media_in_tenant:
  assumes "GET_media eng u qsite qtype qsearch d = Json st ml"
    and "v \<in> set (ml_media ml) \<union> set (ml_images ml) \<union> set (ml_documents ml)
             \<union> set (ml_videos ml) \<union> set (ml_other ml)"
  shows "site_tenant d (media_siteId (mv_media v)) = Some (ru_tenantId u)
       \<and> map_option site_tenantId (mv_site v) = Some (ru_tenantId u)"
proof -
  define found where
    "found = map (\<lambda>m. \<lparr>mv_media = m, mv_site = media_site d m\<rparr>)
               (desc (media_createdAt eng)
                  (filter (media_where eng d (ru_tenantId u) qsite qtype qsearch) (medias d)))"
  from assms(1)
  have ml: "ml = \<lparr>ml_media = found,
            ml_images = filter (\<lambda>v. is_image (mv_media v)) found,
            ml_documents = filter (\<lambda>v. is_document (mv_media v)) found,
            ml_videos = filter (\<lambda>v. is_video (mv_media v)) found,
            ml_other = filter (\<lambda>v. \<not> is_image (mv_media v) \<and> \<not> is_video (mv_media v)
                                   \<and> \<not> is_document (mv_media v)) found,
            ml_total = length found\<rparr>"
    by (simp add: GET_media_def found_def Let_def)
  from assms(2) have "v \<in> set found" unfolding ml by auto
  then obtain m
    where m: "media_where eng d (ru_tenantId u) qsite qtype qsearch m"
      and v: "v = \<lparr>mv_media = m, mv_site = media_site d m\<rparr>"
    unfolding found_def by (auto simp: set_desc)
  from m have t: "site_tenant d (media_siteId m) = Some (ru_tenantId u)"
    by (simp add: media_where_def)
  from t show ?thesis by (simp add: v site_tenant_media_site)
qed

lemma site_tenant_of_row:
  assumes "pk_sites d" "s \<in> set (sites d)"
  shows "site_tenant d (site_id s) = Some (site_tenantId s)"
proof (cases "find (\<lambda>q. site_id q = site_id s) (sites d)")
  case None
  with assms(2) show ?thesis by (auto simp: find_None_iff)
next
  case (Some q)
  then have q: "q \<in> set (sites d)" "site_id q = site_id s"
    by (auto simp: find_Some_iff)
  have inj: "inj_on site_id (set (sites d))"
    using assms(1) by (simp add: pk_sites_def distinct_map)
  from inj q assms(2) have "q = s" by (auto dest: inj_onD)
  with Some show ?thesis by (simp add: site_tenant_def)
qed

lemma GET_sites_id_in_tenant:
  assumes "GET_sites_id eng u i d = Json st sv"
  shows "site_tenantId (sv_site sv) = ru_tenantId u"
    and "pk_sites d \<Longrightarrow> p \<in> set (sv_pages sv)
           \<Longrightarrow> site_tenant d (page_siteId p) = Some (ru_tenantId u)"
    and "pk_sites d \<Longrightarrow> m \<in> set (sv_media sv)
           \<Longrightarrow> site_tenant d (media_siteId m) = Some (ru_tenantId u)"
proof -
  from assms obtain s where s: "site_findFirst d i (ru_tenantId u) = Some s"
    and sv: "sv = \<lparr>sv_site = s, sv_pages = desc (page_updatedAt eng) (site_pages d s),
                    sv_media = take 10 (desc (media_createdAt eng) (site_media d s))\<rparr>"
    by (cases "site_findFirst d i (ru_tenantId u)")
       (simp_all add: GET_sites_id_def site_not_found_def)
  from s have mem: "s \<in> set (sites d)" and t: "site_tenantId s = ru_tenantId u"
    by (auto simp: site_findFirst_def find_Some_iff)
  show "site_tenantId (sv_site sv) = ru_tenantId u" by (simp add: sv t)
  show "site_tenant d (page_siteId p) = Some (ru_tenantId u)"
    if pk: "pk_sites d" and p: "p \<in> set (sv_pages sv)"
  proof -
    from p have "page_siteId p = site_id s"
      by (simp add: sv set_desc site_pages_def)
    with site_tenant_of_row[OF pk mem] t show ?thesis by simp
  qed
  show "site_tenant d (media_siteId m) = Some (ru_tenantId u)"
    if pk: "pk_sites d" and q: "m \<in> set (sv_media sv)"
  proof -
    from q have "m \<in> set (desc (media_createdAt eng) (site_media d s))"
      by (auto simp: sv dest: in_set_takeD)
    then have "media_siteId m = site_id s"
      by (simp add: set_desc site_media_def)
    with site_tenant_of_row[OF pk mem] t show ?thesis by simp
  qed
qed

lemma GET_sites_in_tenant:
  assumes "GET_sites eng u d = Json st rs" and "r \<in> set rs"
  shows "site_tenantId (sr_site r) = ru_tenantId u"
    and "pk_sites d \<Longrightarrow> p \<in> set (sr_pages r)
           \<Longrightarrow> site_tenant d (page_siteId p) = Some (ru_tenantId u)"
proof -
  from assms(1)
  have rs: "rs = map (\<lambda>s. \<lparr>sr_site = s, sr_pages = site_pages d s,
                   sr_pageCount = length (site_pages d s),
                   sr_mediaCount = length (site_media d s)\<rparr>)
          (desc (site_createdAt eng)
             (filter (\<lambda>s. site_tenantId s = ru_tenantId u) (sites d)))"
    by (simp add: GET_sites_def)
  from assms(2) obtain s where mem: "s \<in> set (sites d)"
    and t: "site_tenantId s = ru_tenantId u"
    and r: "r = \<lparr>sr_site = s, sr_pages = site_pages d s,
                   sr_pageCount = length (site_pages d s),
                   sr_mediaCount = length (site_media d s)\<rparr>"
    unfolding rs by (auto simp: set_desc)
  show "site_tenantId (sr_site r) = ru_tenantId u" by (simp add: r t)
  show "site_tenant d (page_siteId p) = Some (ru_tenantId u)"
    if pk: "pk_sites d" and p: "p \<in> set (sr_pages r)"
  proof -
    from p have "page_siteId p = site_id s" by (simp add: r site_pages_def)
    with site_tenant_of_row[OF pk mem] t show ?thesis by simp
  qed
qed

text \<open>
  C2, as amended. Let \<open>p\<close>, \<open>m\<close>, \<open>s\<close> be a page, a media row and a site of a tenant other
  than the caller's, and \<open>j\<close> an id that no row has. Every by-id read of them answers 404
  "not found". Every by-id update or delete answers exactly what it answers for the id
  \<open>j\<close>, whatever the caller's role and the body; when the caller's role passes the role
  check of the route and the body passes its schema, that answer is the 404 and the store
  is unchanged. No read returns a row of another tenant: the page or media row that a read
  by id returns, every row that \<^verbatim>\<open>GET /pages\<close> and \<^verbatim>\<open>GET /media\<close> list (in the main
  list and in each group), whatever the query parameters, and the site included with each
  of them belong to the caller's tenant; so do the site that \<^verbatim>\<open>GET /sites/:id\<close> returns
  and every site that \<^verbatim>\<open>GET /sites\<close> lists, and the pages and media rows nested in them.
\<close>

theorem cross_tenant_is_not_found:
  "(pk_pages d \<and> p \<in> set (pages d) \<and> site_tenant d (page_siteId p) = Some t2
      \<and> t2 \<noteq> ru_tenantId u \<and> j \<notin> set (map page_id (pages d)) \<longrightarrow>
        GET_pages_id u (page_id p) d = page_not_found
      \<and> GET_pages_id u j d = page_not_found
      \<and> PUT_pages_id u (page_id p) b now d = PUT_pages_id u j b now d
      \<and> PATCH_pages_id_publish u (page_id p) sb now d = PATCH_pages_id_publish u j sb now d
      \<and> DELETE_pages_id u (page_id p) d = DELETE_pages_id u j d
      \<and> (ru_role u \<in> set content_roles \<longrightarrow>
            DELETE_pages_id u (page_id p) d = (page_not_found, d)
          \<and> (UpdatePageSchema_parse b \<noteq> None \<longrightarrow>
                PUT_pages_id u (page_id p) b now d = (page_not_found, d))
          \<and> (PublishPageSchema_parse sb \<noteq> None \<longrightarrow>
                PATCH_pages_id_publish u (page_id p) sb now d = (page_not_found, d))))
   \<and> (pk_medias d \<and> m \<in> set (medias d) \<and> site_tenant d (media_siteId m) = Some t2
      \<and> t2 \<noteq> ru_tenantId u \<and> j \<notin> set (map media_id (medias d)) \<longrightarrow>
        GET_media_id u (media_id m) d = media_not_found
      \<and> GET_media_id u j d = media_not_found
      \<and> PUT_media_id u (media_id m) mb d = PUT_media_id u j mb d
      \<and> DELETE_media_id u (media_id m) d = DELETE_media_id u j d
      \<and> (ru_role u \<in> set content_roles \<longrightarrow>
            DELETE_media_id u (media_id m) d = (media_not_found, d)
          \<and> PUT_media_id u (media_id m) mb d = (media_not_found, d)))
   \<and> (pk_sites d \<and> s \<in> set (sites d) \<and> site_tenantId s \<noteq> ru_tenantId u
      \<and> j \<notin> set (map site_id (sites d)) \<longrightarrow>
        GET_sites_id eng u (site_id s) d = site_not_found
      \<and> GET_sites_id eng u j d = site_not_found
      \<and> PUT_sites_id u (site_id s) tb d = PUT_sites_id u j tb d
      \<and> PATCH_sites_id_publish u (site_id s) pb d = PATCH_sites_id_publish u j pb d
      \<and> DELETE_sites_id u (site_id s) d = DELETE_sites_id u j d
      \<and> (ru_role u \<in> set admin_roles \<longrightarrow>
            DELETE_sites_id u (site_id s) d = (site_not_found, d)
          \<and> (UpdateSiteSchema_parse tb \<noteq> None \<longrightarrow>
                PUT_sites_id u (site_id s) tb d = (site_not_found, d))
          \<and> (pb \<noteq> None \<longrightarrow>
                PATCH_sites_id_publish u (site_id s) pb d = (site_not_found, d))))
   \<and> (GET_pages_id u i d = Json st pv \<longrightarrow>
          site_tenant d (page_siteId (pv_page pv)) = Some (ru_tenantId u)
        \<and> map_option site_tenantId (pv_site pv) = Some (ru_tenantId u))
   \<and> (GET_pages eng u qsite qstatus qsearch d = Json st pvs \<longrightarrow>
        (\<forall>v\<in>set pvs.
            site_tenant d (page_siteId (pv_page v)) = Some (ru_tenantId u)
          \<and> map_option site_tenantId (pv_site v) = Some (ru_tenantId u)))
   \<and> (GET_media_id u i d = Json st mv \<longrightarrow>
          site_tenant d (media_siteId (mv_media mv)) = Some (ru_tenantId u)
        \<and> map_option site_tenantId (mv_site mv) = Some (ru_tenantId u))
   \<and> (GET_media eng u qsite qtype qsearch d = Json st ml \<longrightarrow>
        (\<forall>v\<in>set (ml_media ml) \<union> set (ml_images ml) \<union> set (ml_documents ml)
              \<union> set (ml_videos ml) \<union> set (ml_other ml).
            site_tenant d (media_siteId (mv_media v)) = Some (ru_tenantId u)
          \<and> map_option site_tenantId (mv_site v) = Some (ru_tenantId u)))
   \<and> (GET_sites_id eng u i d = Json st sv \<longrightarrow>
          site_tenantId (sv_site sv) = ru_tenantId u
        \<and> (pk_sites d \<longrightarrow>
              (\<forall>x\<in>set (sv_pages sv). site_tenant d (page_siteId x) = Some (ru_tenantId u))
            \<and> (\<forall>x\<in>set (sv_media sv). site_tenant d (media_siteId x) = Some (ru_tenantId u))))
   \<and> (GET_sites eng u d = Json st srs \<longrightarrow>
        (\<forall>r\<in>set srs.
            site_tenantId (sr_site r) = ru_tenantId u
          \<and> (pk_sites d \<longrightarrow>
                (\<forall>x\<in>set (sr_pages r). site_tenant d (page_siteId x) = Some (ru_tenantId u)))))"
proof -
  have pages: "GET_pages_id u (page_id p) d = page_not_found
      \<and> GET_pages_id u j d = page_not_found
      \<and> PUT_pages_id u (page_id p) b now d = PUT_pages_id u j b now d
      \<and> PATCH_pages_id_publish u (page_id p) sb now d = PATCH_pages_id_publish u j sb now d
      \<and> DELETE_pages_id u (page_id p) d = DELETE_pages_id u j d
      \<and> (ru_role u \<in> set content_roles \<longrightarrow>
            DELETE_pages_id u (page_id p) d = (page_not_found, d)
          \<and> (UpdatePageSchema_parse b \<noteq> None \<longrightarrow>
                PUT_pages_id u (page_id p) b now d = (page_not_found, d))
          \<and> (PublishPageSchema_parse sb \<noteq> None \<longrightarrow>
                PATCH_pages_id_publish u (page_id p) sb now d = (page_not_found, d)))"
    if a: "pk_pages d \<and> p \<in> set (pages d) \<and> site_tenant d (page_siteId p) = Some t2
      \<and> t2 \<noteq> ru_tenantId u \<and> j \<notin> set (map page_id (pages d))"
  proof -
    from a have 1: "page_findFirst d (page_id p) (ru_tenantId u) = None"
      by (auto intro: page_findFirst_other_tenant)
    from a have 2: "page_findFirst d j (ru_tenantId u) = None"
      by (auto intro: page_findFirst_absent)
    show ?thesis
      by (simp add: page_routes_not_found[OF 1] page_routes_not_found[OF 2])
  qed
  have medias: "GET_media_id u (media_id m) d = media_not_found
      \<and> GET_media_id u j d = media_not_found
      \<and> PUT_media_id u (media_id m) mb d = PUT_media_id u j mb d
      \<and> DELETE_media_id u (media_id m) d = DELETE_media_id u j d
      \<and> (ru_role u \<in> set content_roles \<longrightarrow>
            DELETE_media_id u (media_id m) d = (media_not_found, d)
          \<and> PUT_media_id u (media_id m) mb d = (media_not_found, d))"
    if a: "pk_medias d \<and> m \<in> set (medias d) \<and> site_tenant d (media_siteId m) = Some t2
      \<and> t2 \<noteq> ru_tenantId u \<and> j \<notin> set (map media_id (medias d))"
  proof -
    from a have 1: "media_findFirst d (media_id m) (ru_tenantId u) = None"
      by (auto intro: media_findFirst_other_tenant)
    from a have 2: "media_findFirst d j (ru_tenantId u) = None"
      by (auto intro: media_findFirst_absent)
    show ?thesis
      by (simp add: media_routes_not_found[OF 1] media_routes_not_found[OF 2])
  qed
  have sites: "GET_sites_id eng u (site_id s) d = site_not_found
      \<and> GET_sites_id eng u j d = site_not_found
      \<and> PUT_sites_id u (site_id s) tb d = PUT_sites_id u j tb d
      \<and> PATCH_sites_id_publish u (site_id s) pb d = PATCH_sites_id_publish u j pb d
      \<and> DELETE_sites_id u (site_id s) d = DELETE_sites_id u j d
      \<and> (ru_role u \<in> set admin_roles \<longrightarrow>
            DELETE_sites_id u (site_id s) d = (site_not_found, d)
          \<and> (UpdateSiteSchema_parse tb \<noteq> None \<longrightarrow>
                PUT_sites_id u (site_id s) tb d = (site_not_found, d))
          \<and> (pb \<noteq> None \<longrightarrow>
                PATCH_sites_id_publish u (site_id s) pb d = (site_not_found, d)))"
    if a: "pk_sites d \<and> s \<in> set (sites d) \<and> site_tenantId s \<noteq> ru_tenantId u
      \<and> j \<notin> set (map site_id (sites d))"
  proof -
    from a have 1: "site_findFirst d (site_id s) (ru_tenantId u) = None"
      by (auto intro: site_findFirst_other_tenant)
    from a have 2: "site_findFirst d j (ru_tenantId u) = None"
      by (auto intro: site_findFirst_absent)
    show ?thesis
      by (simp add: site_routes_not_found[OF 1] site_routes_not_found[OF 2])
  qed
  have r1: "GET_pages_id u i d = Json st pv \<longrightarrow>
          site_tenant d (page_siteId (pv_page pv)) = Some (ru_tenantId u)
        \<and> map_option site_tenantId (pv_site pv) = Some (ru_tenantId u)"
    by (rule impI) (rule GET_pages_id_in_tenant)
  have r2: "GET_pages eng u qsite qstatus qsearch d = Json st pvs \<longrightarrow>
        (\<forall>v\<in>set pvs.
            site_tenant d (page_siteId (pv_page v)) = Some (ru_tenantId u)
          \<and> map_option site_tenantId (pv_site v) = Some (ru_tenantId u))"
    by (intro impI ballI) (rule GET_pages_in_tenant)
  have r3: "GET_media_id u i d = Json st mv \<longrightarrow>
          site_tenant d (media_siteId (mv_media mv)) = Some (ru_tenantId u)
        \<and> map_option site_tenantId (mv_site mv) = Some (ru_tenantId u)"
    by (rule impI) (rule GET_media_id_in_tenant)
  have r4: "GET_media eng u qsite qtype qsearch d = Json st ml \<longrightarrow>
        (\<forall>v\<in>set (ml_media ml) \<union> set (ml_images ml) \<union> set (ml_documents ml)
              \<union> set (ml_videos ml) \<union> set (ml_other ml).
            site_tenant d (media_siteId (mv_media v)) = Some (ru_tenantId u)
          \<and> map_option site_tenantId (mv_site v) = Some (ru_tenantId u))"
    by (intro impI ballI) (rule GET_media_in_tenant)
  have r5: "GET_sites_id eng u i d = Json st sv \<longrightarrow>
          site_tenantId (sv_site sv) = ru_tenantId u
        \<and> (pk_sites d \<longrightarrow>
              (\<forall>x\<in>set (sv_pages sv). site_tenant d (page_siteId x) = Some (ru_tenantId u))
            \<and> (\<forall>x\<in>set (sv_media sv). site_tenant d (media_siteId x) = Some (ru_tenantId u)))"
  proof
    assume a: "GET_sites_id eng u i d = Json st sv"
    from GET_sites_id_in_tenant[OF a] show "site_tenantId (sv_site sv) = ru_tenantId u
        \<and> (pk_sites d \<longrightarrow>
              (\<forall>x\<in>set (sv_pages sv). site_tenant d (page_siteId x) = Some (ru_tenantId u))
            \<and> (\<forall>x\<in>set (sv_media sv). site_tenant d (media_siteId x) = Some (ru_tenantId u)))"
      by blast
  qed
  have r6: "GET_sites eng u d = Json st srs \<longrightarrow>
        (\<forall>r\<in>set srs.
            site_tenantId (sr_site r) = ru_tenantId u
          \<and> (pk_sites d \<longrightarrow>
                (\<forall>x\<in>set (sr_pages r). site_tenant d (page_siteId x) = Some (ru_tenantId u))))"
  proof (intro impI ballI)
    fix r assume a: "GET_sites eng u d = Json st srs" and r: "r \<in> set srs"
    from GET_sites_in_tenant[OF a r] show "site_tenantId (sr_site r) = ru_tenantId u
          \<and> (pk_sites d \<longrightarrow>
                (\<forall>x\<in>set (sr_pages r). site_tenant d (page_siteId x) = Some (ru_tenantId u)))"
      by blast
  qed
  from pages medias sites r1 r2 r3 r4 r5 r6 show ?thesis by blast
qed

theorem cross_tenant_is_not_found_witness:
  "pk_pages db0 \<and> pk_medias db0 \<and> pk_sites db0 \<and> ru_tenantId admin1 = ''t1''
   \<and> site_tenant db0 (page_siteId page2) = Some ''t2''
   \<and> site_tenant db0 (media_siteId media2) = Some ''t2''
   \<and> site_tenantId site2 = ''t2''
   \<and> ru_role admin1 \<in> set content_roles \<and> ru_role admin1 \<in> set admin_roles
   \<and> UpdatePageSchema_parse home_flag_body \<noteq> None
   \<and> PublishPageSchema_parse (Some ''DRAFT'') \<noteq> None
   \<and> GET_pages_id admin1 ''p2'' db0 = page_not_found
   \<and> GET_pages_id admin1 ''zz'' db0 = page_not_found
   \<and> PUT_pages_id admin1 ''p2'' home_flag_body 30 db0 = (page_not_found, db0)
   \<and> PUT_pages_id admin1 ''zz'' home_flag_body 30 db0 = (page_not_found, db0)
   \<and> PATCH_pages_id_publish admin1 ''p2'' (Some ''DRAFT'') 30 db0 = (page_not_found, db0)
   \<and> DELETE_pages_id admin1 ''p2'' db0 = (page_not_found, db0)
   \<and> DELETE_pages_id admin1 ''zz'' db0 = (page_not_found, db0)
   \<and> GET_media_id admin1 ''m2'' db0 = media_not_found
   \<and> PUT_media_id admin1 ''m2'' (alt_only ''x'') db0 = (media_not_found, db0)
   \<and> DELETE_media_id admin1 ''m2'' db0 = (media_not_found, db0)
   \<and> DELETE_media_id admin1 ''zz'' db0 = (media_not_found, db0)
   \<and> GET_sites_id sample_engine admin1 ''s2'' db0 = site_not_found
   \<and> PUT_sites_id admin1 ''s2''
        \<lparr>sf_name = Some ''Mine'', sf_domain = None, sf_description = None, sf_theme = None\<rparr> db0
        = (site_not_found, db0)
   \<and> PATCH_sites_id_publish admin1 ''s2'' (Some True) db0 = (site_not_found, db0)
   \<and> DELETE_sites_id admin1 ''s2'' db0 = (site_not_found, db0)
   \<and> DELETE_sites_id admin1 ''zz'' db0 = (site_not_found, db0)
   \<and> GET_pages_id admin1 ''p1'' db0 = Json 200 \<lparr>pv_page = page1, pv_site = Some site1\<rparr>
   \<and> GET_pages sample_engine admin1 None None None db0
        = Json 200 [\<lparr>pv_page = page1, pv_site = Some site1\<rparr>]
   \<and> site_tenant db0 (page_siteId page1) = Some ''t1''
   \<and> GET_media_id admin1 ''m1'' db0 = Json 200 \<lparr>mv_media = media1, mv_site = Some site1\<rparr>
   \<and> GET_media sample_engine admin1 None (Some ''images'') None db0
        = Json 200 \<lparr>ml_media = [\<lparr>mv_media = media1, mv_site = Some site1\<rparr>],
                     ml_images = [\<lparr>mv_media = media1, mv_site = Some site1\<rparr>],
                     ml_documents = [], ml_videos = [], ml_other = [], ml_total = 1\<rparr>
   \<and> site_tenant db0 (media_siteId media1) = Some ''t1''
   \<and> GET_sites_id sample_engine admin1 ''s1'' db0
        = Json 200 \<lparr>sv_site = site1, sv_pages = [page1], sv_media = [media1]\<rparr>
   \<and> GET_sites sample_engine admin1 db0
        = Json 200 [\<lparr>sr_site = site1, sr_pages = [page1], sr_pageCount = 1, sr_mediaCount = 1\<rparr>]
   \<and> site_tenantId site1 = ''t1''"
proof -
  let ?tb = "\<lparr>sf_name = Some ''Mine'', sf_domain = None, sf_description = None, sf_theme = None\<rparr>"
  let ?pv = "\<lparr>pv_page = page1, pv_site = Some site1\<rparr>"
  let ?mv = "\<lparr>mv_media = media1, mv_site = Some site1\<rparr>"
  let ?ml = "\<lparr>ml_media = [?mv], ml_images = [?mv], ml_documents = [], ml_videos = [],
              ml_other = [], ml_total = 1\<rparr>"
  let ?sv = "\<lparr>sv_site = site1, sv_pages = [page1], sv_media = [media1]\<rparr>"
  let ?sr = "\<lparr>sr_site = site1, sr_pages = [page1], sr_pageCount = 1, sr_mediaCount = 1\<rparr>"
  have pk: "pk_pages db0" "pk_medias db0" "pk_sites db0"
    by (simp_all add: pk_pages_def pk_medias_def pk_sites_def sample_defs)
  have mem: "page2 \<in> set (pages db0)" "media2 \<in> set (medias db0)" "site2 \<in> set (sites db0)"
    "''zz'' \<notin> set (map page_id (pages db0))" "''zz'' \<notin> set (map media_id (medias db0))"
    "''zz'' \<notin> set (map site_id (sites db0))"
    by (simp_all add: sample_defs)
  have own: "site_tenant db0 (page_siteId page2) = Some ''t2''"
    "site_tenant db0 (media_siteId media2) = Some ''t2''" "site_tenantId site2 = ''t2''"
    "site_tenant db0 (page_siteId page1) = Some ''t1''"
    "site_tenant db0 (media_siteId media1) = Some ''t1''" "site_tenantId site1 = ''t1''"
    "ru_tenantId admin1 = ''t1''"
    by (simp_all add: site_tenant_def sample_defs)
  have ids: "page_id page2 = ''p2''" "media_id media2 = ''m2''" "site_id site2 = ''s2''"
    by (simp_all add: sample_defs)
  have ok: "ru_role admin1 \<in> set content_roles" "ru_role admin1 \<in> set admin_roles"
    "UpdatePageSchema_parse home_flag_body \<noteq> None"
    "PublishPageSchema_parse (Some ''DRAFT'') \<noteq> None"
    "UpdateSiteSchema_parse ?tb \<noteq> None"
    by (simp_all add: route_defs UpdateSiteSchema_parse_def sample_defs)
  have get: "GET_pages_id admin1 ''p1'' db0 = Json 200 ?pv"
    "GET_media_id admin1 ''m1'' db0 = Json 200 ?mv"
    "GET_sites_id sample_engine admin1 ''s1'' db0 = Json 200 ?sv"
    by (simp_all add: GET_pages_id_def GET_media_id_def GET_sites_id_def page_findFirst_def
          media_findFirst_def site_findFirst_def site_tenant_def page_site_def media_site_def
          site_pages_def site_media_def desc_def sample_engine_def sample_defs)
  have list: "GET_pages sample_engine admin1 None None None db0 = Json 200 [?pv]"
    "GET_media sample_engine admin1 None (Some ''images'') None db0 = Json 200 ?ml"
    "GET_sites sample_engine admin1 db0 = Json 200 [?sr]"
    by (simp_all add: GET_pages_def GET_media_def GET_sites_def pages_where_def
          media_where_def given_def is_image_def is_document_def is_video_def
          document_types_def startsWith_def site_tenant_def page_site_def media_site_def
          site_pages_def site_media_def desc_def sample_engine_def Let_def sample_defs)
  note inst = cross_tenant_is_not_found[where d=db0 and u=admin1 and p=page2 and m=media2
      and s=site2 and ?t2.0="''t2''" and j="''zz''" and b=home_flag_body and now=30
      and sb="Some ''DRAFT''" and mb="alt_only ''x''" and tb="?tb" and pb="Some True"
      and st=200 and eng=sample_engine and qsite=None and qstatus=None and qsearch=None
      and qtype="Some ''images''" and pv="?pv" and pvs="[?pv]" and mv="?mv" and ml="?ml"
      and sv="?sv" and srs="[?sr]"]
  from inst[where i="''p1''"] inst[where i="''m1''"] inst[where i="''s1''"]
  show ?thesis using pk mem own ids ok get list by simp
qed

text \<open>
  C2 as stated fails: a \<open>VIEWER\<close> of tenant \<open>t1\<close> who asks to delete or update a
  page of tenant \<open>t2\<close>, and an \<open>EDITOR\<close> of \<open>t1\<close> who asks to delete a site of \<open>t2\<close>, are
  answered 403 "Insufficient permissions" by the role check, which runs before the lookup.
\<close>

theorem cross_tenant_forbidden_counterexample:
  "page2 \<in> set (pages db0) \<and> site_tenant db0 (page_siteId page2) = Some ''t2''
   \<and> ru_tenantId viewer1 = ''t1'' \<and> ru_tenantId editor1 = ''t1''
   \<and> DELETE_pages_id viewer1 (page_id page2) db0
        = (Failure 403 ''Insufficient permissions''
             ''Required role: ADMIN or EDITOR or SUPER_ADMIN, your role: VIEWER'', db0)
   \<and> PUT_pages_id viewer1 (page_id page2) home_flag_body 30 db0
        = (Failure 403 ''Insufficient permissions''
             ''Required role: ADMIN or EDITOR or SUPER_ADMIN, your role: VIEWER'', db0)
   \<and> site2 \<in> set (sites db0) \<and> site_tenantId site2 = ''t2''
   \<and> DELETE_sites_id editor1 (site_id site2) db0
        = (Failure 403 ''Insufficient permissions''
             ''Required role: ADMIN or SUPER_ADMIN, your role: EDITOR'', db0)"
  by (simp add: route_defs DELETE_sites_id_def insufficient_role_def sample_defs)

section \<open>Tokens and login\<close>

lemma authenticate_schema_failure:
  assumes "take 7 h = ''Bearer ''" and "jwt_verify (drop 7 h) = Some c"
    and "JWTPayloadSchema_parse is_email c = None"
  shows "authenticate jwt_verify is_email (Some h) d
           = Inl (Failure 500 ''Authentication failed''
                    ''Internal server error during authentication'')"
proof -
  from assms(1) have "h \<noteq> []" by auto
  with assms show ?thesis by (simp add: authenticate_def)
qed

lemma refresh_claims_fail_schema:
  "JWTPayloadSchema_parse is_email (generateRefreshToken uid iat) = None"
  by (simp add: JWTPayloadSchema_parse_def generateRefreshToken_def registered_claims_def
        claim_string_def)

text \<open>
  C8. A refresh token that verifies (good signature, not expired) carries no
  \<open>email\<close>, \<open>role\<close> or \<open>tenantId\<close>, so the payload schema rejects it; the middleware
  answers that rejection with 500 "Authentication failed", not with a 401.
\<close>

theorem refresh_token_answered_500:
  "authenticate (\<lambda>token. Some (generateRefreshToken uid iat)) is_email
       (Some (''Bearer '' @ token)) d
     = Inl (Failure 500 ''Authentication failed''
              ''Internal server error during authentication'')"
  by (rule authenticate_schema_failure[where c="generateRefreshToken uid iat"])
     (simp_all add: refresh_claims_fail_schema)

text \<open>
  C9. Two login requests with valid bodies, one for an email that no active user has, the
  other for an email of an active user with a password that does not match: both are
  answered with the same 401 "Invalid credentials" and the same message.
\<close>

theorem login_failures_indistinguishable:
  assumes "LoginSchema_parse is_email b1 = Some (em1, pw1)"
    and "LoginSchema_parse is_email b2 = Some (em2, pw2)"
    and "\<forall>usr \<in> set (users d1). user_email usr = em1 \<longrightarrow> \<not> user_isActive usr"
    and "\<exists>usr \<in> set (users d2). user_email usr = em2 \<and> user_isActive usr"
    and "\<forall>usr \<in> set (users d2). user_email usr = em2 \<and> user_isActive usr
           \<longrightarrow> \<not> bcrypt_compare pw2 (user_password usr)"
  shows "POST_auth_login is_email bcrypt_compare now1 b1 d1
           = POST_auth_login is_email bcrypt_compare now2 b2 d2
       \<and> POST_auth_login is_email bcrypt_compare now1 b1 d1
           = Failure 401 ''Invalid credentials'' ''Email or password is incorrect''"
proof -
  have 1: "user_findUnique_email_active d1 em1 = None"
    using assms(3) by (auto simp: user_findUnique_email_active_def find_None_iff)
  from assms(4) obtain usr where usr: "user_findUnique_email_active d2 em2 = Some usr"
    by (cases "user_findUnique_email_active d2 em2")
       (auto simp: user_findUnique_email_active_def find_None_iff)
  then have "usr \<in> set (users d2)" "user_email usr = em2 \<and> user_isActive usr"
    by (auto simp: user_findUnique_email_active_def find_Some_iff)
  with assms(5) have 2: "\<not> bcrypt_compare pw2 (user_password usr)" by blast
  from 1 assms(1) have a: "POST_auth_login is_email bcrypt_compare now1 b1 d1 = invalid_credentials"
    by (simp add: POST_auth_login_def)
  from usr 2 assms(2) have b: "POST_auth_login is_email bcrypt_compare now2 b2 d2 = invalid_credentials"
    by (simp add: POST_auth_login_def)
  from a b show ?thesis by (simp add: invalid_credentials_def)
qed

theorem login_failures_indistinguishable_witness:
  "LoginSchema_parse has_at \<lparr>lb_email = Some ''x@acme.com'', lb_password = Some ''secret12''\<rparr>
     = Some (''x@acme.com'', ''secret12'')
   \<and> LoginSchema_parse has_at \<lparr>lb_email = Some ''a@acme.com'', lb_password = Some ''wrong''\<rparr>
     = Some (''a@acme.com'', ''wrong'')
   \<and> users db_users = [user1] \<and> user_email user1 = ''a@acme.com'' \<and> user_isActive user1
   \<and> \<not> toy_compare ''wrong'' (user_password user1)
   \<and> POST_auth_login has_at toy_compare 5
        \<lparr>lb_email = Some ''x@acme.com'', lb_password = Some ''secret12''\<rparr> db_users
      = Failure 401 ''Invalid credentials'' ''Email or password is incorrect''
   \<and> POST_auth_login has_at toy_compare 6
        \<lparr>lb_email = Some ''a@acme.com'', lb_password = Some ''wrong''\<rparr> db_users
      = Failure 401 ''Invalid credentials'' ''Email or password is incorrect''"
proof -
  have p: "LoginSchema_parse has_at \<lparr>lb_email = Some ''x@acme.com'', lb_password = Some ''secret12''\<rparr>
     = Some (''x@acme.com'', ''secret12'')"
    "LoginSchema_parse has_at \<lparr>lb_email = Some ''a@acme.com'', lb_password = Some ''wrong''\<rparr>
     = Some (''a@acme.com'', ''wrong'')"
    by (simp_all add: LoginSchema_parse_def has_at_def)
  have u: "users db_users = [user1]" "user_email user1 = ''a@acme.com''" "user_isActive user1"
    "\<not> toy_compare ''wrong'' (user_password user1)"
    by (simp_all add: sample_defs toy_compare_def)
  have h3: "\<forall>usr \<in> set (users db_users). user_email usr = ''x@acme.com'' \<longrightarrow> \<not> user_isActive usr"
    using u by simp
  have h4: "\<exists>usr \<in> set (users db_users). user_email usr = ''a@acme.com'' \<and> user_isActive usr"
    using u by simp
  have h5: "\<forall>usr \<in> set (users db_users). user_email usr = ''a@acme.com'' \<and> user_isActive usr
           \<longrightarrow> \<not> toy_compare ''wrong'' (user_password usr)"
    using u by simp
  from login_failures_indistinguishable[where bcrypt_compare=toy_compare and is_email=has_at
      and ?d1.0=db_users and ?d2.0=db_users and ?pw2.0="''wrong''" and ?em2.0="''a@acme.com''"
      and ?em1.0="''x@acme.com''" and ?now1.0=5 and ?now2.0=6, OF p(1) p(2) h3 h4 h5]
  show ?thesis using p u by auto
qed

section \<open>Interleaved creates\<close>

text \<open>
  C5. Two create requests for the same site, both with \<open>isHomePage = true\<close> and with
  different slugs, whose store calls interleave (both read, both clear, both insert): both
  are answered 201 and the site ends with two home pages. With the same slug instead, the
  second insert is refused by the store's unique key and answered 500.
\<close>

theorem interleaved_creates_two_home_pages:
  "two_creates_interleaved admin1 about_home_body ''p3'' editor1 contact_home_body ''p4'' 20 db0
     = ((Json 201 page3, Json 201 page4),
        db0\<lparr>pages := [page1\<lparr>page_isHomePage := False\<rparr>, page2, page3, page4]\<rparr>)
   \<and> home_count (db0\<lparr>pages := [page1\<lparr>page_isHomePage := False\<rparr>, page2, page3, page4]\<rparr>) ''s1'' = 2
   \<and> two_creates_interleaved admin1 about_home_body ''p3'' editor1 about_home_body ''p4'' 20 db0
     = ((Json 201 page3, Failure 500 ''Failed to create page'' ''Internal server error''),
        db0\<lparr>pages := [page1\<lparr>page_isHomePage := False\<rparr>, page2, page3]\<rparr>)"
  by (simp add: two_creates_interleaved_def route_defs home_count_def internal_error_def
        sample_defs)

end
